theory Spec2Isabelle
  imports Complex_Main
begin

section \<open>Numbers, vectors and boxes\<close>

text \<open>
  The slicing service (csgService) computes with JavaScript numbers. They are modelled
  as exact reals: rounding, infinities and NaN are outside the model, and where a divisor
  can be zero the theorem excludes it. Step counts and loop indices are naturals. The
  service awaits an animation frame after each progress message; nothing else runs on
  the state in between, so the wait is left out.

  \<open>Vector3\<close> and \<open>Box3\<close> are the three.js classes; \<open>getSize\<close> and \<open>getCenter\<close> follow
  three.js, which answers the zero vector for an empty box.
\<close>

datatype Vector3 = Vector3 (vx: real) (vy: real) (vz: real)

record Box3 =
  box_min :: Vector3
  box_max :: Vector3

definition isEmpty :: "Box3 \<Rightarrow> bool" where
  "isEmpty b =
     (vx (box_max b) < vx (box_min b) \<or> vy (box_max b) < vy (box_min b)
      \<or> vz (box_max b) < vz (box_min b))"

definition getSize :: "Box3 \<Rightarrow> Vector3" where
  "getSize b =
     (if isEmpty b then Vector3 0 0 0
      else Vector3 (vx (box_max b) - vx (box_min b)) (vy (box_max b) - vy (box_min b))
             (vz (box_max b) - vz (box_min b)))"

definition getCenter :: "Box3 \<Rightarrow> Vector3" where
  "getCenter b =
     (if isEmpty b then Vector3 0 0 0
      else Vector3 ((vx (box_min b) + vx (box_max b)) * 0.5)
             ((vy (box_min b) + vy (box_max b)) * 0.5)
             ((vz (box_min b) + vz (box_max b)) * 0.5))"

section \<open>Configuration records (types.ts)\<close>

text \<open>
  The field \<open>enabled\<close> occurs in three interfaces and \<open>length\<close> is a list function, so
  those fields carry the name of their record.
\<close>

datatype slicing_mode = Grid | Manual

record SlicingConfig =
  mode :: slicing_mode
  printerX :: real
  printerY :: real
  printerZ :: real
  manualX :: real
  manualY :: real
  manualZ :: real
  showX :: bool
  showY :: bool
  showZ :: bool
  explodeFactor :: real

record ConnectorConfig =
  connector_enabled :: bool
  diameter :: real
  connector_length :: real
  tolerance :: real
  spacing :: real
  edgeMargin :: real
  connector_showInPreview :: bool

record HollowConfig =
  hollow_enabled :: bool
  wallThickness :: real
  drainHoleEnabled :: bool
  drainHoleDiameter :: real

record LabelConfig =
  label_enabled :: bool
  plateSize :: real
  thickness :: real
  label_showInPreview :: bool

section \<open>The geometry kernel\<close>

text \<open>
  Meshes, the boolean evaluator (three-bvh-csg), the geometry constructors and the
  raycaster are external. A geometry is a value of an abstract type \<open>'g\<close>, and the
  library is a record of operations on it. An operation that can throw answers an option:
  \<open>None\<close> is the exception. \<open>emptyGeometry\<close> is \<open>new THREE.BufferGeometry()\<close>, which
  has no position attribute; \<open>hasPosition\<close> says whether a geometry has one, and
  \<open>positionCount\<close> is the count of that attribute. \<open>normalizeGeometry\<close> stands for the
  steps 1 to 5 of ensureValidForCSG (the three.js calls that strip, weld and index the
  mesh); \<open>prepareBrush\<close> says whether constructing the Brush and its structure returns.
  The result of the evaluator always carries a position attribute.
  \<open>intersectObject\<close> takes the mesh, the ray's origin and direction and the raycaster's
  \<open>far\<close>, and answers the distances of the hits in the order three.js reports them.
\<close>

datatype csg_op = INTERSECTION | ADDITION | SUBTRACTION

datatype axis = AxisX | AxisY | AxisZ

record 'g kernel =
  emptyGeometry :: 'g
  hasPosition :: "'g \<Rightarrow> bool"
  normalizeGeometry :: "'g \<Rightarrow> 'g option"
  prepareBrush :: "'g \<Rightarrow> bool"
  positionCount :: "'g \<Rightarrow> nat"
  hasIndex :: "'g \<Rightarrow> bool"
  evaluate :: "'g \<Rightarrow> 'g \<Rightarrow> csg_op \<Rightarrow> 'g option"
  translate :: "real \<Rightarrow> real \<Rightarrow> real \<Rightarrow> 'g \<Rightarrow> 'g"
  scale :: "real \<Rightarrow> real \<Rightarrow> real \<Rightarrow> 'g \<Rightarrow> 'g"
  rotateX :: "real \<Rightarrow> 'g \<Rightarrow> 'g"
  rotateZ :: "real \<Rightarrow> 'g \<Rightarrow> 'g"
  BoxGeometry :: "real \<Rightarrow> real \<Rightarrow> real \<Rightarrow> 'g"
  CylinderGeometry :: "real \<Rightarrow> real \<Rightarrow> real \<Rightarrow> nat \<Rightarrow> 'g"
  mergeGeometries :: "'g list \<Rightarrow> 'g"
  setFromBufferAttribute :: "'g \<Rightarrow> Box3"
  intersectObject :: "'g \<Rightarrow> Vector3 \<Rightarrow> Vector3 \<Rightarrow> real \<Rightarrow> real list"

section \<open>Observable effects\<close>

text \<open>
  Every function of the service answers its value together with the events it caused, in
  order: a progress message, a call of ensureValidForCSG, a call of the evaluator with its
  operands and whether it returned (\<open>True\<close>) or threw (\<open>False\<close>), a line on the console.
  The template strings of the messages are kept as constructors with their numbers.
\<close>

datatype progress = HollowingModel | SlicingFragment nat nat | CuttingFragment nat

datatype console =
  BrushPreparationFailed | HollowingFailure | FragmentFailed nat | ManualCutFailure

datatype 'g event =
  Progress progress
  | Normalized 'g
  | Evaluated 'g 'g csg_op bool
  | ConsoleError console

datatype fatal = PartCountExceeded | CouldNotInitialize | GeometryInitFailed

section \<open>ensureValidForCSG and createBrush\<close>

definition ensureValidForCSG :: "'g kernel \<Rightarrow> 'g \<Rightarrow> 'g option" where
  "ensureValidForCSG k geo =
     (if \<not> hasPosition k geo \<or> positionCount k geo = 0 then Some (emptyGeometry k)
      else normalizeGeometry k geo)"

text \<open>
  createBrush runs in one try block whose catch clause logs and answers null. Reading
  \<open>validGeo.attributes.position.count\<close> throws when the geometry has no position
  attribute, as the empty geometry that ensureValidForCSG answers for an empty mesh.
\<close>

datatype 'g Brush = Brush (geometry: 'g)

definition createBrush :: "'g kernel \<Rightarrow> 'g \<Rightarrow> 'g Brush option \<times> 'g event list" where
  "createBrush k geo =
     (case ensureValidForCSG k geo of
        None \<Rightarrow> (None, [Normalized geo, ConsoleError BrushPreparationFailed])
      | Some validGeo \<Rightarrow>
          (if \<not> hasPosition k validGeo
           then (None, [Normalized geo, ConsoleError BrushPreparationFailed])
           else if positionCount k validGeo = 0 \<or> \<not> hasIndex k validGeo
           then (None, [Normalized geo])
           else if prepareBrush k validGeo then (Some (Brush validGeo), [Normalized geo])
           else (None, [Normalized geo, ConsoleError BrushPreparationFailed])))"

section \<open>applyHollowing\<close>

definition hollowScale :: "real \<Rightarrow> real \<Rightarrow> real" where
  "hollowScale extent wall = max 0.01 ((extent - wall * 2) / extent)"

definition innerShell :: "'g kernel \<Rightarrow> 'g Brush \<Rightarrow> Box3 \<Rightarrow> HollowConfig \<Rightarrow> 'g" where
  "innerShell k baseBrush bounds config =
     (let size = getSize bounds;
          center = getCenter bounds;
          wall = wallThickness config;
          innerGeo = translate k (- vx center) (- vy center) (- vz center) (geometry baseBrush);
          scaleX = hollowScale (vx size) wall;
          scaleY = hollowScale (vy size) wall;
          scaleZ = hollowScale (vz size) wall;
          innerGeo = scale k scaleX scaleY scaleZ innerGeo
      in translate k (vx center) (vy center) (vz center) innerGeo)"

definition drainHole :: "'g kernel \<Rightarrow> Box3 \<Rightarrow> HollowConfig \<Rightarrow> 'g" where
  "drainHole k bounds config =
     (let size = getSize bounds;
          center = getCenter bounds;
          holeRadius = drainHoleDiameter config / 2;
          holeHeight = vy size + 100;
          holeGeo = CylinderGeometry k holeRadius holeRadius holeHeight 16
      in translate k (vx center) (vy (box_min bounds)) (vz center) holeGeo)"

text \<open>
  The body of the try block after the shell subtraction has returned \<open>result\<close>:
  \<open>Inl\<close> is an exception that reaches the catch clause.
\<close>

definition addDrain ::
  "'g kernel \<Rightarrow> 'g Brush \<Rightarrow> Box3 \<Rightarrow> HollowConfig \<Rightarrow> (unit + 'g Brush) \<times> 'g event list" where
  "addDrain k resultBrush bounds config =
     (if drainHoleEnabled config then
        (let (holeBrush, e1) = createBrush k (drainHole k bounds config) in
         case holeBrush of
           None \<Rightarrow> (Inr resultBrush, e1)
         | Some hb \<Rightarrow>
             (case evaluate k (geometry resultBrush) (geometry hb) SUBTRACTION of
                None \<Rightarrow>
                  (Inl (), e1 @ [Evaluated (geometry resultBrush) (geometry hb) SUBTRACTION False])
              | Some withDrain \<Rightarrow>
                  (let (wb, e2) = createBrush k withDrain in
                   (Inr (case wb of None \<Rightarrow> resultBrush | Some b \<Rightarrow> b),
                    e1 @ [Evaluated (geometry resultBrush) (geometry hb) SUBTRACTION True] @ e2))))
      else (Inr resultBrush, []))"

definition applyHollowing ::
  "'g kernel \<Rightarrow> 'g Brush \<Rightarrow> Box3 \<Rightarrow> HollowConfig \<Rightarrow> 'g Brush \<times> 'g event list" where
  "applyHollowing k baseBrush bounds config =
     (if \<not> hollow_enabled config then (baseBrush, [])
      else
        (let (innerBrush, e1) = createBrush k (innerShell k baseBrush bounds config) in
         case innerBrush of
           None \<Rightarrow> (baseBrush, e1)
         | Some ib \<Rightarrow>
             (case evaluate k (geometry baseBrush) (geometry ib) SUBTRACTION of
                None \<Rightarrow>
                  (baseBrush,
                   e1 @ [Evaluated (geometry baseBrush) (geometry ib) SUBTRACTION False,
                         ConsoleError HollowingFailure])
              | Some result \<Rightarrow>
                  (let (rb, e2) = createBrush k result;
                       resultBrush = (case rb of None \<Rightarrow> baseBrush | Some b \<Rightarrow> b);
                       (drained, e3) = addDrain k resultBrush bounds config;
                       es = e1 @ [Evaluated (geometry baseBrush) (geometry ib) SUBTRACTION True]
                              @ e2 @ e3
                   in case drained of
                        Inl _ \<Rightarrow> (baseBrush, es @ [ConsoleError HollowingFailure])
                      | Inr b \<Rightarrow> (b, es)))))"

section \<open>isValidPlacement\<close>

definition addScaledVector :: "Vector3 \<Rightarrow> Vector3 \<Rightarrow> real \<Rightarrow> Vector3" where
  "addScaledVector p n s = Vector3 (vx p + vx n * s) (vy p + vy n * s) (vz p + vz n * s)"

definition negate :: "Vector3 \<Rightarrow> Vector3" where
  "negate n = Vector3 (- vx n) (- vy n) (- vz n)"

definition isValidPlacement :: "'g kernel \<Rightarrow> 'g \<Rightarrow> Vector3 \<Rightarrow> Vector3 \<Rightarrow> real \<Rightarrow> bool" where
  "isValidPlacement k mesh point normal minDepth =
     (let hits = intersectObject k mesh (addScaledVector point normal 0.5) (negate normal) 1.0
      in if length hits = 0 then False
         else
           (let hits = intersectObject k mesh (addScaledVector point normal (- 0.1))
                         (negate normal) minDepth
            in length hits = 0 \<or> hd hits > minDepth))"

section \<open>applyConnectors\<close>

text \<open>
  The two counting loops of a connector face, \<open>for (dh = 0; dh <= countH; dh++)\<close> around
  \<open>for (dv = 0; dv <= countV; dv++)\<close>, with the loop body as a parameter: the same
  skeleton stands in addFeatures and in the viewer's drawConnector.
\<close>

definition faceLoop :: "nat \<Rightarrow> nat \<Rightarrow> (nat \<Rightarrow> nat \<Rightarrow> 'a list \<Rightarrow> 'a list) \<Rightarrow> 'a list" where
  "faceLoop countH countV body =
     fold (\<lambda>dh. fold (\<lambda>dv. body dh dv) [0..<Suc countV]) [0..<Suc countH] []"

text \<open>\<open>Math.PI\<close>: the double nearest to the circle constant, as a fraction.\<close>

definition Math_PI :: real where
  "Math_PI = 884279719003555 / 281474976710656"

definition featureRadius :: "ConnectorConfig \<Rightarrow> bool \<Rightarrow> real" where
  "featureRadius connectors isPeg =
     (if isPeg then diameter connectors / 2
      else (diameter connectors / 2) + tolerance connectors)"

definition featureCylinder :: "'g kernel \<Rightarrow> ConnectorConfig \<Rightarrow> axis \<Rightarrow> bool \<Rightarrow> 'g" where
  "featureCylinder k connectors faceAxis isPeg =
     (let r = featureRadius connectors isPeg;
          h = connector_length connectors;
          cylGeo = CylinderGeometry k r r h 16
      in if faceAxis = AxisX then rotateZ k (Math_PI / 2) cylGeo
         else if faceAxis = AxisZ then rotateX k (Math_PI / 2) cylGeo
         else cylGeo)"

definition featureOp :: "bool \<Rightarrow> csg_op" where
  "featureOp isPeg = (if isPeg then ADDITION else SUBTRACTION)"

definition faceW :: "axis \<Rightarrow> Vector3 \<Rightarrow> real" where
  "faceW faceAxis size' =
     (if faceAxis = AxisX then vz size' else if faceAxis = AxisY then vx size' else vx size')"

definition faceH :: "axis \<Rightarrow> Vector3 \<Rightarrow> real" where
  "faceH faceAxis size' =
     (if faceAxis = AxisX then vy size' else if faceAxis = AxisY then vz size' else vy size')"

definition layoutCount :: "real \<Rightarrow> real \<Rightarrow> real \<Rightarrow> nat" where
  "layoutCount face margin spacing' = nat (max 0 \<lfloor>(face - margin * 2) / spacing'\<rfloor>)"

definition layoutOffset :: "nat \<Rightarrow> nat \<Rightarrow> real \<Rightarrow> real" where
  "layoutOffset d count spacing' = (real d * spacing') - (real count * spacing') / 2"

definition faceNormal :: "axis \<Rightarrow> bool \<Rightarrow> Vector3" where
  "faceNormal faceAxis isPeg =
     (if faceAxis = AxisX then Vector3 (if isPeg then 1 else - 1) 0 0
      else if faceAxis = AxisY then Vector3 0 (if isPeg then 1 else - 1) 0
      else Vector3 0 0 (if isPeg then 1 else - 1))"

definition worldPos :: "axis \<Rightarrow> bool \<Rightarrow> Box3 \<Rightarrow> Vector3 \<Rightarrow> real \<Rightarrow> real \<Rightarrow> Vector3" where
  "worldPos faceAxis isPeg box center hOff vOff =
     (if faceAxis = AxisX then
        Vector3 (if isPeg then vx (box_max box) else vx (box_min box))
          (vy center + vOff) (vz center + hOff)
      else if faceAxis = AxisY then
        Vector3 (vx center + hOff) (if isPeg then vy (box_max box) else vy (box_min box))
          (vz center + vOff)
      else
        Vector3 (vx center + hOff) (vy center + vOff)
          (if isPeg then vz (box_max box) else vz (box_min box)))"

text \<open>
  The candidate loop of addFeatures: the list \<open>geometries\<close> after the two loops. The mesh
  probed is \<open>tempMesh\<close>, whose geometry a pass replaces only after its loops.
\<close>

definition acceptedFeatures ::
  "'g kernel \<Rightarrow> ConnectorConfig \<Rightarrow> Box3 \<Rightarrow> 'g \<Rightarrow> axis \<Rightarrow> bool \<Rightarrow> 'g list" where
  "acceptedFeatures k connectors box tempMesh faceAxis isPeg =
     (let size = getSize box;
          center = getCenter box;
          h = connector_length connectors;
          cylGeo = featureCylinder k connectors faceAxis isPeg;
          spacing' = max 5 (spacing connectors);
          margin = edgeMargin connectors;
          countH = layoutCount (faceW faceAxis size) margin spacing';
          countV = layoutCount (faceH faceAxis size) margin spacing';
          normal = faceNormal faceAxis isPeg
      in faceLoop countH countV
           (\<lambda>dh dv geometries.
              let hOff = layoutOffset dh countH spacing';
                  vOff = layoutOffset dv countV spacing';
                  pos = worldPos faceAxis isPeg box center hOff vOff
              in if isValidPlacement k tempMesh pos normal (h * 0.7)
                 then geometries @ [translate k (vx pos) (vy pos) (vz pos) cylGeo]
                 else geometries))"

text \<open>
  One call of the closure addFeatures. The variables it shares with applyConnectors are
  the state: \<open>resultBrush\<close> and the geometry of \<open>tempMesh\<close>. \<open>Inl\<close> is an exception of
  the evaluator, which addFeatures does not catch.
\<close>

definition addFeatures ::
  "'g kernel \<Rightarrow> ConnectorConfig \<Rightarrow> Box3 \<Rightarrow> 'g Brush \<times> 'g \<Rightarrow> axis \<Rightarrow> bool
     \<Rightarrow> (unit + 'g Brush \<times> 'g) \<times> 'g event list" where
  "addFeatures k connectors box st faceAxis isPeg =
     (let resultBrush = fst st;
          tempMesh = snd st;
          geometries = acceptedFeatures k connectors box tempMesh faceAxis isPeg
      in if length geometries > 0 then
           (let merged = mergeGeometries k geometries;
                (opBrush, e1) = createBrush k merged
            in case opBrush of
                 None \<Rightarrow> (Inr (resultBrush, tempMesh), e1)
               | Some ob \<Rightarrow>
                   (let op = featureOp isPeg in
                    case evaluate k (geometry resultBrush) (geometry ob) op of
                      None \<Rightarrow>
                        (Inl (), e1 @ [Evaluated (geometry resultBrush) (geometry ob) op False])
                    | Some res \<Rightarrow>
                        (let (rb, e2) = createBrush k res;
                             resultBrush' = (case rb of None \<Rightarrow> resultBrush | Some b \<Rightarrow> b)
                         in (Inr (resultBrush', geometry resultBrush'),
                             e1 @ [Evaluated (geometry resultBrush) (geometry ob) op True] @ e2))))
         else (Inr (resultBrush, tempMesh), []))"

text \<open>
  The six guarded calls at the end of applyConnectors, in their order: the face axis and
  \<open>isPeg\<close> of every call that runs. The parameters \<open>config\<close> and \<open>boundsMin\<close> of
  applyConnectors, and the cell index that applyLabel takes, are never read by them and
  are left out.
\<close>

definition connectorPasses :: "nat \<Rightarrow> nat \<Rightarrow> nat \<Rightarrow> nat \<Rightarrow> nat \<Rightarrow> nat \<Rightarrow> (axis \<times> bool) list" where
  "connectorPasses ix iy iz stepsX stepsY stepsZ =
     (if int ix < int stepsX - 1 then [(AxisX, True)] else [])
     @ (if ix > 0 then [(AxisX, False)] else [])
     @ (if int iy < int stepsY - 1 then [(AxisY, True)] else [])
     @ (if iy > 0 then [(AxisY, False)] else [])
     @ (if int iz < int stepsZ - 1 then [(AxisZ, True)] else [])
     @ (if iz > 0 then [(AxisZ, False)] else [])"

fun runPasses ::
  "'g kernel \<Rightarrow> ConnectorConfig \<Rightarrow> Box3 \<Rightarrow> (axis \<times> bool) list \<Rightarrow> 'g Brush \<times> 'g
     \<Rightarrow> (unit + 'g Brush \<times> 'g) \<times> 'g event list" where
  "runPasses k connectors box [] st = (Inr st, [])"
| "runPasses k connectors box (p # ps) st =
     (case addFeatures k connectors box st (fst p) (snd p) of
        (Inl u, e) \<Rightarrow> (Inl u, e)
      | (Inr st', e) \<Rightarrow>
          (let (r, e') = runPasses k connectors box ps st' in (r, e @ e')))"

definition applyConnectors ::
  "'g kernel \<Rightarrow> 'g \<Rightarrow> nat \<Rightarrow> nat \<Rightarrow> nat \<Rightarrow> nat \<Rightarrow> nat \<Rightarrow> nat \<Rightarrow> ConnectorConfig
     \<Rightarrow> (unit + 'g) \<times> 'g event list" where
  "applyConnectors k geo ix iy iz stepsX stepsY stepsZ connectors =
     (let (rb, e0) = createBrush k geo in
      case rb of
        None \<Rightarrow> (Inr geo, e0)
      | Some resultBrush \<Rightarrow>
          (let box = setFromBufferAttribute k geo;
               (r, es) = runPasses k connectors box
                           (connectorPasses ix iy iz stepsX stepsY stepsZ) (resultBrush, geo)
           in case r of
                Inl u \<Rightarrow> (Inl u, e0 @ es)
              | Inr st \<Rightarrow> (Inr (geometry (fst st)), e0 @ es)))"

section \<open>applyLabel\<close>

definition applyLabel :: "'g kernel \<Rightarrow> 'g \<Rightarrow> LabelConfig \<Rightarrow> 'g \<times> 'g event list" where
  "applyLabel k geo config =
     (let thickness' = thickness config;
          plateGeo = BoxGeometry k (plateSize config) thickness' (plateSize config / 2);
          bounds = setFromBufferAttribute k geo;
          center = getCenter bounds;
          plateGeo = translate k (vx center) (vy (box_min bounds) + thickness' / 2) (vz center)
                       plateGeo;
          (baseBrush, e1) = createBrush k geo;
          (labelBrush, e2) = createBrush k plateGeo
      in case baseBrush of
           None \<Rightarrow> (geo, e1 @ e2)
         | Some bb \<Rightarrow>
             (case labelBrush of
                None \<Rightarrow> (geo, e1 @ e2)
              | Some lb \<Rightarrow>
                  (case evaluate k (geometry bb) (geometry lb) ADDITION of
                     None \<Rightarrow> (geo, e1 @ e2 @ [Evaluated (geometry bb) (geometry lb) ADDITION False])
                   | Some res \<Rightarrow>
                       (res, e1 @ e2 @ [Evaluated (geometry bb) (geometry lb) ADDITION True]))))"

section \<open>performGridSlice\<close>

text \<open>
  The name of a part stands for the template strings \<open>${baseName}_P${ix}-${iy}-${iz}.stl\<close>
  (grid) and \<open>${baseName}_M${ix}-${iy}-${iz}.stl\<close> (manual).
\<close>

datatype part_name = GridPart string nat nat nat | ManualPart string nat nat nat

record 'g ModelPart =
  part_geometry :: 'g
  name :: part_name
  index :: "nat \<times> nat \<times> nat"

text \<open>The variables the loops of a slicing run update.\<close>

record 'g slice_state =
  parts :: "'g ModelPart list"
  current :: nat
  events :: "'g event list"

definition gridSteps :: "real \<Rightarrow> real \<Rightarrow> nat" where
  "gridSteps extent printer = nat (max 1 \<lceil>extent / printer\<rceil>)"

text \<open>The extents \<open>w\<close>, \<open>h\<close> and \<open>d\<close> of a cell, and the corner its box starts at.\<close>

definition cellExtent :: "real \<Rightarrow> real \<Rightarrow> nat \<Rightarrow> nat \<Rightarrow> real" where
  "cellExtent extent printer steps i =
     (if int i = int steps - 1 then extent - real i * printer else printer)"

definition cellStart :: "real \<Rightarrow> real \<Rightarrow> nat \<Rightarrow> real" where
  "cellStart lo printer i = lo + real i * printer"

text \<open>
  The body of the try block of one grid cell: \<open>Inl\<close> is an exception that reaches its
  catch clause, \<open>Inr None\<close> an empty intersection. The result of the evaluator carries
  a position attribute, so reading its count does not throw.
\<close>

definition gridFragment ::
  "'g kernel \<Rightarrow> 'g Brush \<Rightarrow> 'g Brush \<Rightarrow> nat \<Rightarrow> nat \<Rightarrow> nat \<Rightarrow> nat \<Rightarrow> nat \<Rightarrow> nat
     \<Rightarrow> ConnectorConfig \<Rightarrow> LabelConfig \<Rightarrow> string
     \<Rightarrow> (unit + 'g ModelPart option) \<times> 'g event list" where
  "gridFragment k baseBrush boxBrush ix iy iz stepsX stepsY stepsZ connectors labels baseName =
     (case evaluate k (geometry baseBrush) (geometry boxBrush) INTERSECTION of
        None \<Rightarrow>
          (Inl (), [Evaluated (geometry baseBrush) (geometry boxBrush) INTERSECTION False])
      | Some res \<Rightarrow>
          (let e0 = [Evaluated (geometry baseBrush) (geometry boxBrush) INTERSECTION True] in
           if positionCount k res > 0 then
             (let (c, e1) =
                    (if connector_enabled connectors
                     then applyConnectors k res ix iy iz stepsX stepsY stepsZ connectors
                     else (Inr res, []))
              in case c of
                   Inl u \<Rightarrow> (Inl u, e0 @ e1)
                 | Inr finalGeo \<Rightarrow>
                     (let (finalGeo, e2) =
                            (if label_enabled labels then applyLabel k finalGeo labels
                             else (finalGeo, []))
                      in case ensureValidForCSG k finalGeo of
                           None \<Rightarrow> (Inl (), e0 @ e1 @ e2 @ [Normalized finalGeo])
                         | Some g \<Rightarrow>
                             (Inr (Some \<lparr>part_geometry = g,
                                         name = GridPart baseName ix iy iz,
                                         index = (ix, iy, iz)\<rparr>),
                              e0 @ e1 @ e2 @ [Normalized finalGeo])))
           else (Inr None, e0)))"

text \<open>The body of the innermost loop of performGridSlice.\<close>

definition gridCell ::
  "'g kernel \<Rightarrow> 'g Brush \<Rightarrow> Box3 \<Rightarrow> SlicingConfig \<Rightarrow> ConnectorConfig \<Rightarrow> LabelConfig \<Rightarrow> string
     \<Rightarrow> nat \<Rightarrow> nat \<Rightarrow> nat \<Rightarrow> nat \<Rightarrow> nat \<Rightarrow> nat \<Rightarrow> 'g slice_state \<Rightarrow> 'g slice_state" where
  "gridCell k baseBrush bounds config connectors labels baseName stepsX stepsY stepsZ ix iy iz st =
     (let size = getSize bounds;
          bmin = box_min bounds;
          total = stepsX * stepsY * stepsZ;
          current' = current st + 1;
          st = st\<lparr>current := current',
                  events := events st @ [Progress (SlicingFragment current' total)]\<rparr>;
          w = cellExtent (vx size) (printerX config) stepsX ix;
          h = cellExtent (vy size) (printerY config) stepsY iy;
          d = cellExtent (vz size) (printerZ config) stepsZ iz
      in if w < 0.1 \<or> h < 0.1 \<or> d < 0.1 then st
         else
           (let boxGeo = translate k (cellStart (vx bmin) (printerX config) ix + w / 2)
                           (cellStart (vy bmin) (printerY config) iy + h / 2)
                           (cellStart (vz bmin) (printerZ config) iz + d / 2)
                           (BoxGeometry k w h d);
                (boxBrush, e) = createBrush k boxGeo
            in case boxBrush of
                 None \<Rightarrow> st\<lparr>events := events st @ e\<rparr>
               | Some bb \<Rightarrow>
                   (case gridFragment k baseBrush bb ix iy iz stepsX stepsY stepsZ connectors
                           labels baseName of
                      (Inl u, e') \<Rightarrow>
                        st\<lparr>events := events st @ e @ e' @ [ConsoleError (FragmentFailed current')]\<rparr>
                    | (Inr None, e') \<Rightarrow> st\<lparr>events := events st @ e @ e'\<rparr>
                    | (Inr (Some p), e') \<Rightarrow>
                        st\<lparr>parts := parts st @ [p], events := events st @ e @ e'\<rparr>)))"

definition gridLoops ::
  "'g kernel \<Rightarrow> 'g Brush \<Rightarrow> Box3 \<Rightarrow> SlicingConfig \<Rightarrow> ConnectorConfig \<Rightarrow> LabelConfig \<Rightarrow> string
     \<Rightarrow> nat \<Rightarrow> nat \<Rightarrow> nat \<Rightarrow> 'g slice_state \<Rightarrow> 'g slice_state" where
  "gridLoops k baseBrush bounds config connectors labels baseName stepsX stepsY stepsZ =
     fold (\<lambda>ix.
       fold (\<lambda>iy.
         fold (\<lambda>iz.
           gridCell k baseBrush bounds config connectors labels baseName stepsX stepsY stepsZ
             ix iy iz)
           [0..<stepsZ])
         [0..<stepsY])
       [0..<stepsX]"

definition performGridSlice ::
  "'g kernel \<Rightarrow> 'g \<Rightarrow> Box3 \<Rightarrow> SlicingConfig \<Rightarrow> ConnectorConfig \<Rightarrow> HollowConfig \<Rightarrow> LabelConfig
     \<Rightarrow> string \<Rightarrow> (fatal + 'g ModelPart list) \<times> 'g event list" where
  "performGridSlice k geometry' bounds config connectors hollow labels baseName =
     (let size = getSize bounds;
          stepsX = gridSteps (vx size) (printerX config);
          stepsY = gridSteps (vy size) (printerY config);
          stepsZ = gridSteps (vz size) (printerZ config);
          total = stepsX * stepsY * stepsZ
      in if total > 500 then (Inl PartCountExceeded, [])
         else
           (let (bb, e0) = createBrush k geometry' in
            case bb of
              None \<Rightarrow> (Inl CouldNotInitialize, e0)
            | Some baseBrush \<Rightarrow>
                (let (baseBrush, e1) =
                       (if hollow_enabled hollow
                        then (let (b, e) = applyHollowing k baseBrush bounds hollow
                              in (b, Progress HollowingModel # e))
                        else (baseBrush, []));
                     st = gridLoops k baseBrush bounds config connectors labels baseName
                            stepsX stepsY stepsZ
                            \<lparr>parts = [], current = 0, events = e0 @ e1\<rparr>
                 in (Inr (parts st), events st))))"

section \<open>performManualSlice\<close>

definition manualSplits :: "bool \<Rightarrow> real \<Rightarrow> real \<Rightarrow> real list" where
  "manualSplits show' manual extent = (if show' then [manual, extent - manual] else [extent])"

record 'g manual_state = "'g slice_state" +
  offsetX :: real
  offsetY :: real
  offsetZ :: real

definition manualFragment ::
  "'g kernel \<Rightarrow> 'g Brush \<Rightarrow> 'g Brush \<Rightarrow> nat \<Rightarrow> nat \<Rightarrow> nat \<Rightarrow> string
     \<Rightarrow> (unit + 'g ModelPart option) \<times> 'g event list" where
  "manualFragment k baseBrush boxBrush ix iy iz baseName =
     (case evaluate k (geometry baseBrush) (geometry boxBrush) INTERSECTION of
        None \<Rightarrow>
          (Inl (), [Evaluated (geometry baseBrush) (geometry boxBrush) INTERSECTION False])
      | Some res \<Rightarrow>
          (let e0 = [Evaluated (geometry baseBrush) (geometry boxBrush) INTERSECTION True] in
           if positionCount k res > 0 then
             (case ensureValidForCSG k res of
                None \<Rightarrow> (Inl (), e0 @ [Normalized res])
              | Some g \<Rightarrow>
                  (Inr (Some \<lparr>part_geometry = g,
                              name = ManualPart baseName ix iy iz,
                              index = (ix, iy, iz)\<rparr>),
                   e0 @ [Normalized res]))
           else (Inr None, e0)))"

text \<open>The body of the innermost loop of performManualSlice.\<close>

definition manualCell ::
  "'g kernel \<Rightarrow> 'g Brush \<Rightarrow> Box3 \<Rightarrow> string \<Rightarrow> nat \<Rightarrow> nat \<Rightarrow> nat \<Rightarrow> real \<Rightarrow> real \<Rightarrow> real
     \<Rightarrow> 'g manual_state \<Rightarrow> 'g manual_state" where
  "manualCell k baseBrush bounds baseName ix iy iz w h d st =
     (let bmin = box_min bounds;
          current' = current st + 1;
          st = st\<lparr>current := current',
                  events := events st @ [Progress (CuttingFragment current')]\<rparr>
      in if w < 0.1 \<or> h < 0.1 \<or> d < 0.1 then st\<lparr>offsetZ := offsetZ st + d\<rparr>
         else
           (let boxGeo = translate k (vx bmin + offsetX st + w / 2)
                           (vy bmin + offsetY st + h / 2)
                           (vz bmin + offsetZ st + d / 2)
                           (BoxGeometry k w h d);
                (boxBrush, e) = createBrush k boxGeo;
                st = (case boxBrush of
                        None \<Rightarrow> st\<lparr>events := events st @ e\<rparr>
                      | Some bb \<Rightarrow>
                          (case manualFragment k baseBrush bb ix iy iz baseName of
                             (Inl u, e') \<Rightarrow>
                               st\<lparr>events := events st @ e @ e' @ [ConsoleError ManualCutFailure]\<rparr>
                           | (Inr None, e') \<Rightarrow> st\<lparr>events := events st @ e @ e'\<rparr>
                           | (Inr (Some p), e') \<Rightarrow>
                               st\<lparr>parts := parts st @ [p], events := events st @ e @ e'\<rparr>))
            in st\<lparr>offsetZ := offsetZ st + d\<rparr>))"

text \<open>
  The three loops of performManualSlice, from the inside: the body of the loop over
  \<open>iy\<close>, which runs the loop over \<open>iz\<close>, the body of the loop over \<open>ix\<close>, and the
  loop over \<open>ix\<close>.
\<close>

definition manualLoopY ::
  "'g kernel \<Rightarrow> 'g Brush \<Rightarrow> Box3 \<Rightarrow> string \<Rightarrow> real list \<Rightarrow> real list \<Rightarrow> nat \<Rightarrow> real \<Rightarrow> nat
     \<Rightarrow> 'g manual_state \<Rightarrow> 'g manual_state" where
  "manualLoopY k baseBrush bounds baseName splitsY splitsZ ix w iy st =
     (let h = splitsY ! iy;
          st = st\<lparr>offsetZ := 0\<rparr>;
          st = fold (\<lambda>iz. manualCell k baseBrush bounds baseName ix iy iz w h (splitsZ ! iz))
                 [0..<length splitsZ] st
      in st\<lparr>offsetY := offsetY st + h\<rparr>)"

definition manualLoopX ::
  "'g kernel \<Rightarrow> 'g Brush \<Rightarrow> Box3 \<Rightarrow> string \<Rightarrow> real list \<Rightarrow> real list \<Rightarrow> real list \<Rightarrow> nat
     \<Rightarrow> 'g manual_state \<Rightarrow> 'g manual_state" where
  "manualLoopX k baseBrush bounds baseName splitsX splitsY splitsZ ix st =
     (let w = splitsX ! ix;
          st = st\<lparr>offsetY := 0\<rparr>;
          st = fold (manualLoopY k baseBrush bounds baseName splitsY splitsZ ix w)
                 [0..<length splitsY] st
      in st\<lparr>offsetX := offsetX st + w\<rparr>)"

definition manualLoops ::
  "'g kernel \<Rightarrow> 'g Brush \<Rightarrow> Box3 \<Rightarrow> string \<Rightarrow> real list \<Rightarrow> real list \<Rightarrow> real list
     \<Rightarrow> 'g manual_state \<Rightarrow> 'g manual_state" where
  "manualLoops k baseBrush bounds baseName splitsX splitsY splitsZ =
     fold (manualLoopX k baseBrush bounds baseName splitsX splitsY splitsZ) [0..<length splitsX]"

definition performManualSlice ::
  "'g kernel \<Rightarrow> 'g \<Rightarrow> Box3 \<Rightarrow> SlicingConfig \<Rightarrow> ConnectorConfig \<Rightarrow> HollowConfig \<Rightarrow> LabelConfig
     \<Rightarrow> string \<Rightarrow> (fatal + 'g ModelPart list) \<times> 'g event list" where
  "performManualSlice k geometry' bounds config connectors hollow labels baseName =
     (let size = getSize bounds;
          splitsX = manualSplits (showX config) (manualX config) (vx size);
          splitsY = manualSplits (showY config) (manualY config) (vy size);
          splitsZ = manualSplits (showZ config) (manualZ config) (vz size);
          (bb, e0) = createBrush k geometry'
      in case bb of
           None \<Rightarrow> (Inl GeometryInitFailed, e0)
         | Some baseBrush \<Rightarrow>
             (let (baseBrush, e1) =
                    (if hollow_enabled hollow
                     then (let (b, e) = applyHollowing k baseBrush bounds hollow
                           in (b, Progress HollowingModel # e))
                     else (baseBrush, []));
                  st = manualLoops k baseBrush bounds baseName splitsX splitsY splitsZ
                         \<lparr>parts = [], current = 0, events = e0 @ e1,
                          offsetX = 0, offsetY = 0, offsetZ = 0\<rparr>
              in (Inr (parts st), events st)))"

section \<open>The viewer's connector preview (drawConnector)\<close>

record 'g preview_mesh =
  pm_geometry :: 'g
  pm_peg :: bool
  pm_position :: Vector3

definition drawConnector ::
  "'g kernel \<Rightarrow> ConnectorConfig \<Rightarrow> Vector3 \<Rightarrow> axis \<Rightarrow> bool \<Rightarrow> real \<Rightarrow> real
     \<Rightarrow> 'g preview_mesh list" where
  "drawConnector k connectorConfig facePos axis' isPeg faceW' faceH' =
     (let spacing' = max 5 (spacing connectorConfig);
          margin = edgeMargin connectorConfig;
          cylGeo = featureCylinder k connectorConfig axis' isPeg;
          countH = layoutCount faceW' margin spacing';
          countV = layoutCount faceH' margin spacing'
      in faceLoop countH countV
           (\<lambda>dh dv group.
              let hOff = layoutOffset dh countH spacing';
                  vOff = layoutOffset dv countV spacing';
                  position =
                    (if axis' = AxisX then
                       Vector3 (vx facePos + 0) (vy facePos + vOff) (vz facePos + hOff)
                     else if axis' = AxisY then
                       Vector3 (vx facePos + hOff) (vy facePos + 0) (vz facePos + vOff)
                     else Vector3 (vx facePos + hOff) (vy facePos + vOff) (vz facePos + 0))
              in group @ [\<lparr>pm_geometry = cylGeo, pm_peg = isPeg, pm_position = position\<rparr>]))"

section \<open>Derived notions used by the theorems\<close>

text \<open>
  The candidate centres of a connector face: the positions \<open>worldPos\<close> that the loops of
  addFeatures compute, in their order, before any of them is validated.
\<close>

definition faceCandidates :: "ConnectorConfig \<Rightarrow> Box3 \<Rightarrow> axis \<Rightarrow> bool \<Rightarrow> Vector3 list" where
  "faceCandidates connectors box faceAxis isPeg =
     (let size = getSize box;
          center = getCenter box;
          spacing' = max 5 (spacing connectors);
          margin = edgeMargin connectors;
          countH = layoutCount (faceW faceAxis size) margin spacing';
          countV = layoutCount (faceH faceAxis size) margin spacing'
      in faceLoop countH countV
           (\<lambda>dh dv centres.
              centres @ [worldPos faceAxis isPeg box center (layoutOffset dh countH spacing')
                           (layoutOffset dv countV spacing')]))"

text \<open>The list of a family with two indices, row by row: what two nested loops append.\<close>

definition gridList :: "nat \<Rightarrow> nat \<Rightarrow> (nat \<Rightarrow> nat \<Rightarrow> 'a) \<Rightarrow> 'a list" where
  "gridList m n f = concat (map (\<lambda>i. map (f i) [0..<n]) [0..<m])"

text \<open>The parts one grid cell adds to the list, and the cells in the order of the loops.\<close>

definition gridCellParts ::
  "'g kernel \<Rightarrow> 'g Brush \<Rightarrow> Box3 \<Rightarrow> SlicingConfig \<Rightarrow> ConnectorConfig \<Rightarrow> LabelConfig \<Rightarrow> string
     \<Rightarrow> nat \<Rightarrow> nat \<Rightarrow> nat \<Rightarrow> nat \<times> nat \<times> nat \<Rightarrow> 'g ModelPart list" where
  "gridCellParts k baseBrush bounds config connectors labels baseName stepsX stepsY stepsZ c =
     parts (gridCell k baseBrush bounds config connectors labels baseName stepsX stepsY stepsZ
              (fst c) (fst (snd c)) (snd (snd c))
              \<lparr>parts = [], current = 0, events = []\<rparr>)"

text \<open>
  The box of a grid cell, whether the cell is skipped for an extent below 0.1, and the
  box of a manual cell at given offsets.
\<close>

definition gridBox ::
  "'g kernel \<Rightarrow> Box3 \<Rightarrow> SlicingConfig \<Rightarrow> nat \<Rightarrow> nat \<Rightarrow> nat \<Rightarrow> nat \<Rightarrow> nat \<Rightarrow> nat \<Rightarrow> 'g" where
  "gridBox k bounds config stepsX stepsY stepsZ ix iy iz =
     (let w = cellExtent (vx (getSize bounds)) (printerX config) stepsX ix;
          h = cellExtent (vy (getSize bounds)) (printerY config) stepsY iy;
          d = cellExtent (vz (getSize bounds)) (printerZ config) stepsZ iz
      in translate k (cellStart (vx (box_min bounds)) (printerX config) ix + w / 2)
           (cellStart (vy (box_min bounds)) (printerY config) iy + h / 2)
           (cellStart (vz (box_min bounds)) (printerZ config) iz + d / 2)
           (BoxGeometry k w h d))"

definition gridCellSkipped ::
  "Box3 \<Rightarrow> SlicingConfig \<Rightarrow> nat \<Rightarrow> nat \<Rightarrow> nat \<Rightarrow> nat \<Rightarrow> nat \<Rightarrow> nat \<Rightarrow> bool" where
  "gridCellSkipped bounds config stepsX stepsY stepsZ ix iy iz =
     (cellExtent (vx (getSize bounds)) (printerX config) stepsX ix < 0.1
      \<or> cellExtent (vy (getSize bounds)) (printerY config) stepsY iy < 0.1
      \<or> cellExtent (vz (getSize bounds)) (printerZ config) stepsZ iz < 0.1)"

definition manualBox ::
  "'g kernel \<Rightarrow> Box3 \<Rightarrow> real \<Rightarrow> real \<Rightarrow> real \<Rightarrow> real \<Rightarrow> real \<Rightarrow> real \<Rightarrow> 'g" where
  "manualBox k bounds ox oy oz w h d =
     translate k (vx (box_min bounds) + ox + w / 2) (vy (box_min bounds) + oy + h / 2)
       (vz (box_min bounds) + oz + d / 2) (BoxGeometry k w h d)"

text \<open>
  The parts one manual cell adds to the list when the loops reach it with the offsets
  \<open>ox\<close>, \<open>oy\<close>, \<open>oz\<close>.
\<close>

definition manualCellParts ::
  "'g kernel \<Rightarrow> 'g Brush \<Rightarrow> Box3 \<Rightarrow> string \<Rightarrow> nat \<Rightarrow> nat \<Rightarrow> nat \<Rightarrow> real \<Rightarrow> real \<Rightarrow> real
     \<Rightarrow> real \<Rightarrow> real \<Rightarrow> real \<Rightarrow> 'g ModelPart list" where
  "manualCellParts k baseBrush bounds baseName ix iy iz w h d ox oy oz =
     parts (manualCell k baseBrush bounds baseName ix iy iz w h d
              \<lparr>parts = [], current = 0, events = [],
               offsetX = ox, offsetY = oy, offsetZ = oz\<rparr>)"

text \<open>The plate applyLabel unions with a part, in its place under the part.\<close>

definition labelPlate :: "'g kernel \<Rightarrow> 'g \<Rightarrow> LabelConfig \<Rightarrow> 'g" where
  "labelPlate k geo config =
     (let bounds = setFromBufferAttribute k geo;
          center = getCenter bounds
      in translate k (vx center) (vy (box_min bounds) + thickness config / 2) (vz center)
           (BoxGeometry k (plateSize config) (thickness config) (plateSize config / 2)))"

text \<open>
  The parts of a manual run, cell by cell in the order of the loops: the offsets of a
  cell are the sums of the splits before it.
\<close>

definition manualRunParts ::
  "'g kernel \<Rightarrow> 'g Brush \<Rightarrow> Box3 \<Rightarrow> string \<Rightarrow> real list \<Rightarrow> real list \<Rightarrow> real list
     \<Rightarrow> 'g ModelPart list" where
  "manualRunParts k baseBrush bounds baseName splitsX splitsY splitsZ =
     concat (map (\<lambda>ix. concat (map (\<lambda>iy. concat (map (\<lambda>iz.
       manualCellParts k baseBrush bounds baseName ix iy iz
         (splitsX ! ix) (splitsY ! iy) (splitsZ ! iz)
         (sum_list (take ix splitsX)) (sum_list (take iy splitsY)) (sum_list (take iz splitsZ)))
       [0..<length splitsZ])) [0..<length splitsY])) [0..<length splitsX])"

definition gridCells :: "nat \<Rightarrow> nat \<Rightarrow> nat \<Rightarrow> (nat \<times> nat \<times> nat) list" where
  "gridCells stepsX stepsY stepsZ =
     concat (map (\<lambda>ix. concat (map (\<lambda>iy. map (\<lambda>iz. (ix, iy, iz)) [0..<stepsZ]) [0..<stepsY]))
               [0..<stepsX])"

section \<open>A test double of the geometry kernel\<close>

text \<open>
  A kernel that records which boolean operation produced a solid and the extents of a
  box, and forgets positions.
  Its evaluator throws where \<open>throws\<close> says so; every mesh has a position attribute
  with three vertices, so the empty geometry is never answered, and every brush can be
  built; the raycaster reports one hit at distance 0.5 for the short probe and none for
  the depth probe, so every connector candidate is valid; every mesh has the bounding
  box \<open>bbox\<close>.
\<close>

datatype solid =
  Model | BoxSolid real real real | CylinderSolid | MergedSolid | Csg csg_op solid solid
  | Part Box3 | Cyl real real | Moved real real real solid | Merged "solid list"

definition testKernel :: "(solid \<Rightarrow> solid \<Rightarrow> csg_op \<Rightarrow> bool) \<Rightarrow> Box3 \<Rightarrow> solid kernel" where
  "testKernel throws bbox =
     \<lparr>emptyGeometry = Model,
      hasPosition = (\<lambda>g. True),
      normalizeGeometry = Some,
      prepareBrush = (\<lambda>g. True),
      positionCount = (\<lambda>g. 3),
      hasIndex = (\<lambda>g. True),
      evaluate = (\<lambda>a b op. if throws a b op then None else Some (Csg op a b)),
      translate = (\<lambda>x y z g. g),
      scale = (\<lambda>x y z g. g),
      rotateX = (\<lambda>t g. g),
      rotateZ = (\<lambda>t g. g),
      BoxGeometry = (\<lambda>w h d. BoxSolid w h d),
      CylinderGeometry = (\<lambda>rt rb h n. CylinderSolid),
      mergeGeometries = (\<lambda>gs. MergedSolid),
      setFromBufferAttribute = (\<lambda>g. bbox),
      intersectObject = (\<lambda>g origin dir far. if far = 1 then [0.5] else [])\<rparr>"

definition cube :: "real \<Rightarrow> Box3" where
  "cube a = \<lparr>box_min = Vector3 0 0 0, box_max = Vector3 a a a\<rparr>"

text \<open>
  Two more doubles for the connector passes. The blind kernel is the test double with a
  raycaster that never reports a hit, so no connector candidate is valid. The placing
  kernel keeps what the test double forgets: the radius and height of a cylinder, where
  a geometry was moved to, and the list that was merged; its part \<open>Part b\<close> is a mesh
  with the bounding box \<open>b\<close>.
\<close>

definition blindKernel :: "solid kernel" where
  "blindKernel =
     (testKernel (\<lambda>a b op. False) (cube 100))\<lparr>intersectObject := (\<lambda>g origin dir far. [])\<rparr>"

definition placingKernel :: "solid kernel" where
  "placingKernel =
     (testKernel (\<lambda>a b op. False) (cube 100))
       \<lparr>translate := (\<lambda>x y z g. Moved x y z g),
        CylinderGeometry := (\<lambda>rt rb h n. Cyl rt h),
        mergeGeometries := (\<lambda>gs. Merged gs),
        setFromBufferAttribute := (\<lambda>g. case g of Part b \<Rightarrow> b | _ \<Rightarrow> cube 100)\<rparr>"



definition slab :: Box3 where
  "slab = \<lparr>box_min = Vector3 0 0 0, box_max = Vector3 200 100 100\<rparr>"


definition gridConfig :: "real \<Rightarrow> SlicingConfig" where
  "gridConfig p =
     \<lparr>mode = Grid, printerX = p, printerY = p, printerZ = p,
      manualX = 60, manualY = 60, manualZ = 60,
      showX = False, showY = False, showZ = False, explodeFactor = 0.5\<rparr>"

definition manualConfig :: SlicingConfig where
  "manualConfig = (gridConfig 120)\<lparr>mode := Manual, showX := True\<rparr>"

definition connectorDefaults :: ConnectorConfig where
  "connectorDefaults =
     \<lparr>connector_enabled = True, diameter = 6, connector_length = 12, tolerance = 0.3,
      spacing = 50, edgeMargin = 15, connector_showInPreview = True\<rparr>"

definition hollowDefaults :: HollowConfig where
  "hollowDefaults =
     \<lparr>hollow_enabled = False, wallThickness = 2.5, drainHoleEnabled = True,
      drainHoleDiameter = 8\<rparr>"

definition labelDefaults :: LabelConfig where
  "labelDefaults =
     \<lparr>label_enabled = True, plateSize = 15, thickness = 2, label_showInPreview = True\<rparr>"

section \<open>The test double\<close>

lemma testKernel_fields:
  "ensureValidForCSG (testKernel t bb) g = Some g"
  "hasPosition (testKernel t bb) g"
  "prepareBrush (testKernel t bb) g"
  "positionCount (testKernel t bb) g = 3"
  "hasIndex (testKernel t bb) g"
  "evaluate (testKernel t bb) x y op = (if t x y op then None else Some (Csg op x y))"
  "translate (testKernel t bb) u v w g = g"
  "scale (testKernel t bb) u v w g = g"
  "rotateX (testKernel t bb) u g = g"
  "rotateZ (testKernel t bb) u g = g"
  "BoxGeometry (testKernel t bb) u v w = BoxSolid u v w"
  "CylinderGeometry (testKernel t bb) u v w n = CylinderSolid"
  "mergeGeometries (testKernel t bb) gs = MergedSolid"
  "setFromBufferAttribute (testKernel t bb) g = bb"
  "intersectObject (testKernel t bb) g origin dir far = (if far = 1 then [0.5] else [])"
  by (simp_all add: testKernel_def ensureValidForCSG_def)

lemma testKernel_createBrush:
  "createBrush (testKernel t bb) g = (Some (Brush g), [Normalized g])"
  by (simp add: createBrush_def testKernel_fields)

section \<open>Grid partition\<close>










section \<open>The part-count limit\<close>

text \<open>
  C3. With non-zero envelope sizes, a grid run whose cell count
  \<open>stepsX * stepsY * stepsZ\<close> exceeds 500 ends with the fatal error for the part count.
  Its list of events is empty: no mesh was normalized, the evaluator was never called,
  no progress was reported; and it answers no parts.
\<close>

theorem grid_part_count_limit:
  assumes "printerX config \<noteq> 0" and "printerY config \<noteq> 0" and "printerZ config \<noteq> 0"
    and "500 < gridSteps (vx (getSize bounds)) (printerX config)
                * gridSteps (vy (getSize bounds)) (printerY config)
                * gridSteps (vz (getSize bounds)) (printerZ config)"
  shows "performGridSlice k g bounds config connectors hollow labels baseName
           = (Inl PartCountExceeded, [])"
  using assms(4) by (simp add: performGridSlice_def Let_def)

lemma getSize_cube: "0 \<le> a \<Longrightarrow> getSize (cube a) = Vector3 a a a"
  by (simp add: getSize_def isEmpty_def cube_def)

lemma getCenter_cube: "0 \<le> a \<Longrightarrow> getCenter (cube a) = Vector3 (a / 2) (a / 2) (a / 2)"
  by (simp add: getCenter_def isEmpty_def cube_def)

text \<open>A 1000 unit cube with a 100 unit envelope: 10 * 10 * 10 = 1000 cells.\<close>

theorem grid_part_count_limit_witness:
  "printerX (gridConfig 100) \<noteq> 0 \<and> printerY (gridConfig 100) \<noteq> 0
     \<and> printerZ (gridConfig 100) \<noteq> 0
     \<and> 500 < gridSteps (vx (getSize (cube 1000))) (printerX (gridConfig 100))
              * gridSteps (vy (getSize (cube 1000))) (printerY (gridConfig 100))
              * gridSteps (vz (getSize (cube 1000))) (printerZ (gridConfig 100))
     \<and> performGridSlice (testKernel (\<lambda>a b op. False) (cube 1000)) Model (cube 1000)
         (gridConfig 100) connectorDefaults hollowDefaults labelDefaults ''model''
         = (Inl PartCountExceeded, [])"
proof -
  have p: "printerX (gridConfig 100) \<noteq> 0" "printerY (gridConfig 100) \<noteq> 0"
    "printerZ (gridConfig 100) \<noteq> 0"
    by (simp_all add: gridConfig_def)
  have n: "500 < gridSteps (vx (getSize (cube 1000))) (printerX (gridConfig 100))
              * gridSteps (vy (getSize (cube 1000))) (printerY (gridConfig 100))
              * gridSteps (vz (getSize (cube 1000))) (printerZ (gridConfig 100))"
    by (simp add: getSize_cube gridConfig_def gridSteps_def)
  from p n grid_part_count_limit[OF p n] show ?thesis by simp
qed

section \<open>Hollowing\<close>

lemma hollowScale_clamp:
  assumes "0 < extent" and "extent / 2 \<le> w"
  shows "hollowScale extent w = 0.01"
proof -
  from assms have "extent - w * 2 \<le> 0" by simp
  with assms have "(extent - w * 2) / extent \<le> 0" by (simp add: divide_le_0_iff)
  then have "(extent - w * 2) / extent \<le> 0.01" by (rule order_trans) simp
  then show ?thesis unfolding hollowScale_def by (rule max.absorb1)
qed

lemma hollowScale_pos: "0 < hollowScale extent w"
  unfolding hollowScale_def by (simp only: less_max_iff_disj) simp

lemma hollowScale_formula: "hollowScale extent w = max 0.01 ((extent - 2 * w) / extent)"
  by (simp add: hollowScale_def mult.commute)

lemma innerShell_scales:
  "innerShell k b bounds config =
     translate k (vx (getCenter bounds)) (vy (getCenter bounds)) (vz (getCenter bounds))
       (scale k (hollowScale (vx (getSize bounds)) (wallThickness config))
          (hollowScale (vy (getSize bounds)) (wallThickness config))
          (hollowScale (vz (getSize bounds)) (wallThickness config))
          (translate k (- vx (getCenter bounds)) (- vy (getCenter bounds))
             (- vz (getCenter bounds)) (geometry b)))"
  by (simp add: innerShell_def Let_def)

lemma applyHollowing_first_event:
  "hollow_enabled config \<Longrightarrow>
     \<exists>es. snd (applyHollowing k b bounds config) = Normalized (innerShell k b bounds config) # es"
  by (auto simp: applyHollowing_def createBrush_def Let_def
      split: option.splits prod.splits sum.splits if_splits)

lemma createBrush_geometry:
  "createBrush k g = (Some b, e) \<Longrightarrow> ensureValidForCSG k g = Some (geometry b)"
  by (auto simp: createBrush_def split: option.splits if_splits)

lemma createBrush_empty:
  assumes "\<not> hasPosition k (emptyGeometry k)"
    and "\<not> hasPosition k geo \<or> positionCount k geo = 0"
  shows "createBrush k geo = (None, [Normalized geo, ConsoleError BrushPreparationFailed])"
  using assms by (auto simp: createBrush_def ensureValidForCSG_def)

lemma applyHollowing_shell_evaluated:
  assumes "hollow_enabled config"
    and "createBrush k (innerShell k b bounds config) = (Some ib, e1)"
  shows "\<exists>r es. snd (applyHollowing k b bounds config)
                  = e1 @ Evaluated (geometry b) (geometry ib) SUBTRACTION r # es"
  using assms
  by (auto simp: applyHollowing_def Let_def split: option.splits prod.splits sum.splits)

text \<open>
  C6. For a bounding box with positive extents, the shell that applyHollowing hands to
  the evaluator is the solid moved to the origin, scaled along each axis by
  \<open>max(0.01, (size - 2 * wall) / size)\<close> and moved back; it is the first mesh the
  function normalizes. Where the wall is at least half the extent the factor is 0.01, and
  the factor is positive for every wall thickness. When the brush of the shell is built,
  its geometry is the normalized shell and the next call is the evaluator's, subtracting
  it from the solid.
\<close>

theorem hollow_scale_factor:
  assumes "0 < vx (getSize bounds)" and "0 < vy (getSize bounds)" and "0 < vz (getSize bounds)"
  shows "innerShell k b bounds config =
           translate k (vx (getCenter bounds)) (vy (getCenter bounds)) (vz (getCenter bounds))
             (scale k
                (max 0.01 ((vx (getSize bounds) - 2 * wallThickness config) / vx (getSize bounds)))
                (max 0.01 ((vy (getSize bounds) - 2 * wallThickness config) / vy (getSize bounds)))
                (max 0.01 ((vz (getSize bounds) - 2 * wallThickness config) / vz (getSize bounds)))
                (translate k (- vx (getCenter bounds)) (- vy (getCenter bounds))
                   (- vz (getCenter bounds)) (geometry b)))
       \<and> (hollow_enabled config \<longrightarrow>
            (\<exists>es. snd (applyHollowing k b bounds config)
                    = Normalized (innerShell k b bounds config) # es))
       \<and> (vx (getSize bounds) / 2 \<le> wallThickness config \<longrightarrow>
            hollowScale (vx (getSize bounds)) (wallThickness config) = 0.01)
       \<and> (vy (getSize bounds) / 2 \<le> wallThickness config \<longrightarrow>
            hollowScale (vy (getSize bounds)) (wallThickness config) = 0.01)
       \<and> (vz (getSize bounds) / 2 \<le> wallThickness config \<longrightarrow>
            hollowScale (vz (getSize bounds)) (wallThickness config) = 0.01)
       \<and> 0 < hollowScale (vx (getSize bounds)) (wallThickness config)
       \<and> 0 < hollowScale (vy (getSize bounds)) (wallThickness config)
       \<and> 0 < hollowScale (vz (getSize bounds)) (wallThickness config)
       \<and> (hollow_enabled config
            \<and> createBrush k (innerShell k b bounds config) = (Some ib, e1) \<longrightarrow>
            ensureValidForCSG k (innerShell k b bounds config) = Some (geometry ib)
            \<and> (\<exists>r es. snd (applyHollowing k b bounds config)
                         = e1 @ Evaluated (geometry b) (geometry ib) SUBTRACTION r # es))"
proof -
  have 1: "innerShell k b bounds config =
           translate k (vx (getCenter bounds)) (vy (getCenter bounds)) (vz (getCenter bounds))
             (scale k
                (max 0.01 ((vx (getSize bounds) - 2 * wallThickness config) / vx (getSize bounds)))
                (max 0.01 ((vy (getSize bounds) - 2 * wallThickness config) / vy (getSize bounds)))
                (max 0.01 ((vz (getSize bounds) - 2 * wallThickness config) / vz (getSize bounds)))
                (translate k (- vx (getCenter bounds)) (- vy (getCenter bounds))
                   (- vz (getCenter bounds)) (geometry b)))"
    by (simp only: innerShell_scales hollowScale_formula)
  have 2: "hollow_enabled config \<longrightarrow>
            (\<exists>es. snd (applyHollowing k b bounds config)
                    = Normalized (innerShell k b bounds config) # es)"
    using applyHollowing_first_event by blast
  have 3: "hollow_enabled config
            \<and> createBrush k (innerShell k b bounds config) = (Some ib, e1) \<longrightarrow>
            ensureValidForCSG k (innerShell k b bounds config) = Some (geometry ib)
            \<and> (\<exists>r es. snd (applyHollowing k b bounds config)
                         = e1 @ Evaluated (geometry b) (geometry ib) SUBTRACTION r # es)"
  proof (intro impI conjI; elim conjE)
    assume e: "hollow_enabled config"
      and cbr: "createBrush k (innerShell k b bounds config) = (Some ib, e1)"
    from cbr show "ensureValidForCSG k (innerShell k b bounds config) = Some (geometry ib)"
      by (rule createBrush_geometry)
    from e cbr show "\<exists>r es. snd (applyHollowing k b bounds config)
                         = e1 @ Evaluated (geometry b) (geometry ib) SUBTRACTION r # es"
      by (rule applyHollowing_shell_evaluated)
  qed
  have 4: "vx (getSize bounds) / 2 \<le> wallThickness config \<longrightarrow>
            hollowScale (vx (getSize bounds)) (wallThickness config) = 0.01"
    "vy (getSize bounds) / 2 \<le> wallThickness config \<longrightarrow>
            hollowScale (vy (getSize bounds)) (wallThickness config) = 0.01"
    "vz (getSize bounds) / 2 \<le> wallThickness config \<longrightarrow>
            hollowScale (vz (getSize bounds)) (wallThickness config) = 0.01"
    using assms hollowScale_clamp by blast+
  show ?thesis
    by (intro conjI; (rule 1 2 3 4 hollowScale_pos))
qed

text \<open>
  A 100 unit cube: the wall of 2.5 gives the factor 0.95, a wall of 50 (half the extent)
  gives 0.01. With hollowing enabled and no drain hole, the shell is subtracted from the
  solid.
\<close>

theorem hollow_scale_factor_witness:
  "0 < vx (getSize (cube 100)) \<and> 0 < vy (getSize (cube 100)) \<and> 0 < vz (getSize (cube 100))
   \<and> innerShell (testKernel (\<lambda>a b op. False) (cube 100)) (Brush Model) (cube 100)
       hollowDefaults = Model
   \<and> hollowScale (vx (getSize (cube 100))) (wallThickness hollowDefaults) = 0.95
   \<and> hollowScale (vx (getSize (cube 100)))
       (wallThickness (hollowDefaults\<lparr>wallThickness := 50\<rparr>)) = 0.01
   \<and> 0 < hollowScale (vx (getSize (cube 100)))
           (wallThickness (hollowDefaults\<lparr>wallThickness := 50\<rparr>))
   \<and> hollow_enabled (hollowDefaults\<lparr>hollow_enabled := True, drainHoleEnabled := False\<rparr>)
   \<and> createBrush (testKernel (\<lambda>a b op. False) (cube 100))
         (innerShell (testKernel (\<lambda>a b op. False) (cube 100)) (Brush Model) (cube 100)
            (hollowDefaults\<lparr>hollow_enabled := True, drainHoleEnabled := False\<rparr>))
       = (Some (Brush Model), [Normalized Model])
   \<and> applyHollowing (testKernel (\<lambda>a b op. False) (cube 100)) (Brush Model) (cube 100)
         (hollowDefaults\<lparr>hollow_enabled := True, drainHoleEnabled := False\<rparr>)
       = (Brush (Csg SUBTRACTION Model Model),
          [Normalized Model, Evaluated Model Model SUBTRACTION True,
           Normalized (Csg SUBTRACTION Model Model)])"
proof -
  let ?k = "testKernel (\<lambda>a b op. False) (cube 100)"
  let ?on = "hollowDefaults\<lparr>hollow_enabled := True, drainHoleEnabled := False\<rparr>"
  have h: "0 < vx (getSize (cube 100))" "0 < vy (getSize (cube 100))"
    "0 < vz (getSize (cube 100))"
    by (simp_all add: getSize_cube)
  have a: "hollowScale (vx (getSize (cube 100))) (wallThickness hollowDefaults) = 0.95"
    by (simp add: getSize_cube hollowDefaults_def hollowScale_def)
  have b: "innerShell (testKernel (\<lambda>a b op. False) (cube 100)) (Brush Model) (cube 100)
             hollowDefaults = Model"
    by (simp add: innerShell_def testKernel_def)
  have c: "vx (getSize (cube 100)) / 2 \<le> wallThickness (hollowDefaults\<lparr>wallThickness := 50\<rparr>)"
    by (simp add: getSize_cube)
  from hollow_scale_factor[OF h, of "testKernel (\<lambda>a b op. False) (cube 100)" "Brush Model"
      "hollowDefaults\<lparr>wallThickness := 50\<rparr>"] c
  have d: "hollowScale (vx (getSize (cube 100)))
          (wallThickness (hollowDefaults\<lparr>wallThickness := 50\<rparr>)) = 0.01
     \<and> 0 < hollowScale (vx (getSize (cube 100)))
             (wallThickness (hollowDefaults\<lparr>wallThickness := 50\<rparr>))"
    by blast
  have on: "hollow_enabled ?on" by simp
  have b': "innerShell ?k (Brush Model) (cube 100) ?on = Model"
    by (simp add: innerShell_def testKernel_def)
  have sh: "createBrush ?k (innerShell ?k (Brush Model) (cube 100) ?on)
              = (Some (Brush Model), [Normalized Model])"
    by (simp only: b' testKernel_createBrush)
  have run: "applyHollowing ?k (Brush Model) (cube 100) ?on
       = (Brush (Csg SUBTRACTION Model Model),
          [Normalized Model, Evaluated Model Model SUBTRACTION True,
           Normalized (Csg SUBTRACTION Model Model)])"
    unfolding applyHollowing_def sh
    by (simp add: addDrain_def testKernel_createBrush testKernel_fields hollowDefaults_def
        Let_def)
  from h a b d on sh run show ?thesis by blast
qed

text \<open>
  The drain hole. When the brush of the hole cannot be built, or the brush of the drained
  result cannot, applyHollowing answers the solid as it was after the shell subtraction.
  When the evaluator throws on the drain subtraction, the exception reaches the catch
  clause of the whole try block, which answers the base brush: the shell subtraction is
  lost.
\<close>

lemma applyHollowing_hole_brush_fails:
  assumes "hollow_enabled config" and "drainHoleEnabled config"
    and "createBrush k (innerShell k b bounds config) = (Some ib, e1)"
    and "evaluate k (geometry b) (geometry ib) SUBTRACTION = Some result"
    and "createBrush k result = (Some rb, e2)"
    and "createBrush k (drainHole k bounds config) = (None, e3)"
  shows "fst (applyHollowing k b bounds config) = rb"
  using assms by (simp add: applyHollowing_def addDrain_def Let_def)

lemma applyHollowing_drained_brush_fails:
  assumes "hollow_enabled config" and "drainHoleEnabled config"
    and "createBrush k (innerShell k b bounds config) = (Some ib, e1)"
    and "evaluate k (geometry b) (geometry ib) SUBTRACTION = Some result"
    and "createBrush k result = (Some rb, e2)"
    and "createBrush k (drainHole k bounds config) = (Some hb, e3)"
    and "evaluate k (geometry rb) (geometry hb) SUBTRACTION = Some withDrain"
    and "createBrush k withDrain = (None, e4)"
  shows "fst (applyHollowing k b bounds config) = rb"
  using assms by (simp add: applyHollowing_def addDrain_def Let_def)

lemma applyHollowing_drain_throws:
  assumes "hollow_enabled config" and "drainHoleEnabled config"
    and "createBrush k (innerShell k b bounds config) = (Some ib, e1)"
    and "evaluate k (geometry b) (geometry ib) SUBTRACTION = Some result"
    and "createBrush k result = (Some rb, e2)"
    and "createBrush k (drainHole k bounds config) = (Some hb, e3)"
    and "evaluate k (geometry rb) (geometry hb) SUBTRACTION = None"
  shows "fst (applyHollowing k b bounds config) = b"
  using assms by (simp add: applyHollowing_def addDrain_def Let_def)

text \<open>
  C7, at an evaluator that throws exactly on the subtraction of the drain cylinder: the
  shell subtraction returns \<open>Csg SUBTRACTION Model Model\<close>, the drain subtraction throws,
  and applyHollowing answers the brush of \<open>Model\<close>, the solid before any subtraction,
  where the claim promises the brush of \<open>Csg SUBTRACTION Model Model\<close>.
\<close>

theorem applyHollowing_drain_exception:
  "applyHollowing (testKernel (\<lambda>a b op. op = SUBTRACTION \<and> b = CylinderSolid) (cube 100))
     (Brush Model) (cube 100) (hollowDefaults\<lparr>hollow_enabled := True\<rparr>)
   = (Brush Model,
      [Normalized Model, Evaluated Model Model SUBTRACTION True,
       Normalized (Csg SUBTRACTION Model Model), Normalized CylinderSolid,
       Evaluated (Csg SUBTRACTION Model Model) CylinderSolid SUBTRACTION False,
       ConsoleError HollowingFailure])"
  by (simp add: applyHollowing_def addDrain_def createBrush_def ensureValidForCSG_def
      testKernel_def hollowDefaults_def innerShell_def drainHole_def Let_def)

section \<open>Manual splits\<close>

lemma manualSplits_facts:
  "\<not> show' \<longrightarrow> manualSplits show' offset extent = [extent]"
  "show' \<longrightarrow> manualSplits show' offset extent = [offset, extent - offset]"
  "length (manualSplits show' offset extent) = (if show' then 2 else 1)"
  "sum_list (manualSplits show' offset extent) = extent"
  by (simp_all add: manualSplits_def)

section \<open>Connector candidates\<close>

lemma fold_append_concat: "fold (\<lambda>x acc. acc @ g x) xs acc = acc @ concat (map g xs)"
  by (induction xs arbitrary: acc) simp_all

lemma faceLoop_append:
  "faceLoop countH countV (\<lambda>dh dv acc. acc @ g dh dv)
     = concat (map (\<lambda>dh. concat (map (g dh) [0..<Suc countV])) [0..<Suc countH])"
proof -
  have inner: "\<And>dh acc. fold (\<lambda>dv acc. acc @ g dh dv) [0..<Suc countV] acc
                  = acc @ concat (map (g dh) [0..<Suc countV])"
    by (rule fold_append_concat)
  have "faceLoop countH countV (\<lambda>dh dv acc. acc @ g dh dv)
          = fold (\<lambda>dh acc. acc @ concat (map (g dh) [0..<Suc countV])) [0..<Suc countH] []"
    unfolding faceLoop_def using inner by presburger
  also have "\<dots> = concat (map (\<lambda>dh. concat (map (g dh) [0..<Suc countV])) [0..<Suc countH])"
    by (simp only: fold_append_concat append_Nil)
  finally show ?thesis .
qed

lemma concat_singletons: "concat (map (\<lambda>x. [f x]) xs) = map f xs"
  by (induction xs) simp_all

lemma concat_filtered: "concat (map (\<lambda>x. if P (f x) then [t (f x)] else []) xs) = map t (filter P (map f xs))"
  by (induction xs) simp_all


lemma length_gridList: "length (gridList m n f) = m * n"
  by (induction m) (simp_all add: gridList_def)

lemma nth_gridList: "i < m \<Longrightarrow> j < n \<Longrightarrow> gridList m n f ! (i * n + j) = f i j"
proof (induction m)
  case 0
  then show ?case by simp
next
  case (Suc m)
  have split: "gridList (Suc m) n f = gridList m n f @ map (f m) [0..<n]"
    by (simp add: gridList_def)
  show ?case
  proof (cases "i < m")
    case True
    then have "i * n + j < m * n"
      using Suc.prems(2) by (metis add.commute add_less_cancel_left less_le_trans mult_Suc Suc_leI mult_le_mono1)
    with True Suc show ?thesis by (simp add: split nth_append length_gridList)
  next
    case False
    with Suc.prems have "i = m" by simp
    with Suc.prems show ?thesis by (simp add: split nth_append length_gridList)
  qed
qed

lemma faceCandidates_gridList:
  "faceCandidates c box a p =
     gridList (Suc (layoutCount (faceW a (getSize box)) (edgeMargin c) (max 5 (spacing c))))
       (Suc (layoutCount (faceH a (getSize box)) (edgeMargin c) (max 5 (spacing c))))
       (\<lambda>dh dv. worldPos a p box (getCenter box)
          (layoutOffset dh (layoutCount (faceW a (getSize box)) (edgeMargin c) (max 5 (spacing c))) (max 5 (spacing c)))
          (layoutOffset dv (layoutCount (faceH a (getSize box)) (edgeMargin c) (max 5 (spacing c))) (max 5 (spacing c))))"
  unfolding faceCandidates_def Let_def gridList_def
  by (simp only: faceLoop_append[where g="\<lambda>dh dv. [f dh dv]" for f] concat_singletons)

lemma concat_gridList_filtered:
  "concat (map (\<lambda>dh. concat (map (\<lambda>dv. if P (f dh dv) then [t (f dh dv)] else []) [0..<n])) [0..<m])
     = map t (filter P (gridList m n f))"
  by (induction m) (simp_all add: gridList_def concat_filtered)

lemma acceptedFeatures_filter:
  "acceptedFeatures k c box tempMesh a p =
     map (\<lambda>pos. translate k (vx pos) (vy pos) (vz pos) (featureCylinder k c a p))
       (filter (\<lambda>pos. isValidPlacement k tempMesh pos (faceNormal a p) (connector_length c * 0.7))
          (faceCandidates c box a p))"
proof -
  define cH where "cH = layoutCount (faceW a (getSize box)) (edgeMargin c) (max 5 (spacing c))"
  define cV where "cV = layoutCount (faceH a (getSize box)) (edgeMargin c) (max 5 (spacing c))"
  define pos where "pos = (\<lambda>dh dv. worldPos a p box (getCenter box)
      (layoutOffset dh cH (max 5 (spacing c))) (layoutOffset dv cV (max 5 (spacing c))))"
  define P where
    "P = (\<lambda>q. isValidPlacement k tempMesh q (faceNormal a p) (connector_length c * 0.7))"
  define t where "t = (\<lambda>q. translate k (vx q) (vy q) (vz q) (featureCylinder k c a p))"
  have "acceptedFeatures k c box tempMesh a p
          = faceLoop cH cV (\<lambda>dh dv acc. acc @ (if P (pos dh dv) then [t (pos dh dv)] else []))"
    unfolding acceptedFeatures_def Let_def cH_def cV_def pos_def P_def t_def
    by (rule arg_cong[where f = "faceLoop _ _"]) (intro ext, simp)
  also have "\<dots> = map t (filter P (gridList (Suc cH) (Suc cV) pos))"
    by (simp only: faceLoop_append concat_gridList_filtered)
  also have "gridList (Suc cH) (Suc cV) pos = faceCandidates c box a p"
    unfolding faceCandidates_gridList cH_def cV_def pos_def ..
  finally show ?thesis unfolding P_def t_def .
qed

lemma isValidPlacement_iff:
  assumes "sorted (intersectObject k mesh (addScaledVector C N (- 0.1)) (negate N) d)"
  shows "isValidPlacement k mesh C N d \<longleftrightarrow>
           intersectObject k mesh (addScaledVector C N 0.5) (negate N) 1.0 \<noteq> []
           \<and> (\<forall>t \<in> set (intersectObject k mesh (addScaledVector C N (- 0.1)) (negate N) d). d < t)"
proof -
  let ?hs = "intersectObject k mesh (addScaledVector C N (- 0.1)) (negate N) d"
  have "(?hs = [] \<or> d < hd ?hs) \<longleftrightarrow> (\<forall>t \<in> set ?hs. d < t)"
  proof (cases ?hs)
    case Nil
    then show ?thesis by simp
  next
    case (Cons h hs)
    with assms have "\<forall>t \<in> set hs. h \<le> t" by simp
    with Cons show ?thesis by auto
  qed
  then show ?thesis by (simp add: isValidPlacement_def Let_def)
qed

lemma drawConnector_positions:
  "map pm_position (drawConnector k c facePos a p fw fh) =
     gridList (Suc (layoutCount fw (edgeMargin c) (max 5 (spacing c))))
       (Suc (layoutCount fh (edgeMargin c) (max 5 (spacing c))))
       (\<lambda>dh dv.
          let hOff = layoutOffset dh (layoutCount fw (edgeMargin c) (max 5 (spacing c))) (max 5 (spacing c));
              vOff = layoutOffset dv (layoutCount fh (edgeMargin c) (max 5 (spacing c))) (max 5 (spacing c))
          in if a = AxisX then Vector3 (vx facePos) (vy facePos + vOff) (vz facePos + hOff)
             else if a = AxisY then Vector3 (vx facePos + hOff) (vy facePos) (vz facePos + vOff)
             else Vector3 (vx facePos + hOff) (vy facePos + vOff) (vz facePos))"
  unfolding drawConnector_def Let_def gridList_def
  by (simp only: faceLoop_append[where g="\<lambda>dh dv. [f dh dv]" for f] concat_singletons)
     (simp add: map_concat comp_def)

lemma layoutOffset_symmetric: "dh \<le> n \<Longrightarrow> layoutOffset (n - dh) n s = - layoutOffset dh n s"
  by (simp add: layoutOffset_def of_nat_diff algebra_simps)

lemma layoutOffset_step: "layoutOffset (Suc dh) n s - layoutOffset dh n s = s"
  by (simp add: layoutOffset_def algebra_simps)

lemma layoutCount_formula:
  "layoutCount face margin s = nat (max 0 \<lfloor>(face - 2 * margin) / s\<rfloor>)"
  by (simp add: layoutCount_def mult.commute)

lemma layoutOffset_formula: "layoutOffset d n s = real d * s - real n * s / 2"
  by (simp add: layoutOffset_def)

lemma distinct_gridList:
  assumes inj: "\<And>i j i' j'. i < m \<Longrightarrow> i' < m \<Longrightarrow> j < n \<Longrightarrow> j' < n \<Longrightarrow> f i j = f i' j' \<Longrightarrow> i = i' \<and> j = j'"
  shows "distinct (gridList m n f)"
proof (cases "n = 0")
  case True
  then have "length (gridList m n f) = 0" by (simp add: length_gridList)
  then show ?thesis by simp
next
  case False
  then have n: "0 < n" by simp
  show ?thesis
  proof (rule iffD2[OF distinct_conv_nth], intro allI impI)
    fix a b
    assume a: "a < length (gridList m n f)" and b: "b < length (gridList m n f)" and ne: "a \<noteq> b"
    from a have am: "a div n < m" by (simp add: length_gridList less_mult_imp_div_less)
    from b have bm: "b div n < m" by (simp add: length_gridList less_mult_imp_div_less)
    have an: "a mod n < n" and bn: "b mod n < n" using n by simp_all
    have ea: "gridList m n f ! a = f (a div n) (a mod n)"
      using nth_gridList[OF am an, of f] by simp
    have eb: "gridList m n f ! b = f (b div n) (b mod n)"
      using nth_gridList[OF bm bn, of f] by simp
    show "gridList m n f ! a \<noteq> gridList m n f ! b"
    proof
      assume "gridList m n f ! a = gridList m n f ! b"
      with ea eb have "f (a div n) (a mod n) = f (b div n) (b mod n)" by simp
      from inj[OF am bm an bn this] have "a div n = b div n" "a mod n = b mod n" by simp_all
      then have "a = b" by (metis div_mult_mod_eq)
      with ne show False by simp
    qed
  qed
qed

lemma worldPos_inj:
  "worldPos a p box c h v = worldPos a p box c h' v' \<Longrightarrow> h = h' \<and> v = v'"
  by (cases a) (auto simp: worldPos_def)

lemma layoutOffset_inj: "0 < s \<Longrightarrow> layoutOffset d n s = layoutOffset d' n s \<Longrightarrow> d = d'"
  by (simp add: layoutOffset_def)

lemma distinct_faceCandidates: "distinct (faceCandidates c box a p)"
proof -
  have s: "(0::real) < max 5 (spacing c)" by simp
  show ?thesis
    unfolding faceCandidates_gridList
    by (rule distinct_gridList) (metis worldPos_inj layoutOffset_inj[OF s])
qed

text \<open>
  C4, with the spacing the code uses. Let \<open>s = max(5, configured spacing)\<close>,
  \<open>countH = max(0, floor((faceW - 2 * margin) / s))\<close> and \<open>countV\<close> likewise from
  \<open>faceH\<close>. The candidate centres of a face are \<open>(countH + 1) * (countV + 1)\<close> distinct
  positions; the one with the indices \<open>dh\<close>, \<open>dv\<close> lies at the offsets
  \<open>dh * s - countH * s / 2\<close> and \<open>dv * s - countV * s / 2\<close> from the centre of the
  face, so the centres are \<open>s\<close> apart, and the centre with the indices \<open>countH - dh\<close>,
  \<open>countV - dv\<close> lies at the negated offsets: the grid is symmetric about the centre.
  The viewer's drawConnector lays its preview cylinders out in the same way, from the
  extents it is given.
\<close>

theorem connector_candidate_grid:
  fixes c :: ConnectorConfig and box :: Box3 and a :: axis and p :: bool and fw fh :: real
  defines "s \<equiv> max 5 (spacing c)"
  defines "countH \<equiv> nat (max 0 \<lfloor>(faceW a (getSize box) - 2 * edgeMargin c) / s\<rfloor>)"
  defines "countV \<equiv> nat (max 0 \<lfloor>(faceH a (getSize box) - 2 * edgeMargin c) / s\<rfloor>)"
  defines "previewH \<equiv> nat (max 0 \<lfloor>(fw - 2 * edgeMargin c) / s\<rfloor>)"
  defines "previewV \<equiv> nat (max 0 \<lfloor>(fh - 2 * edgeMargin c) / s\<rfloor>)"
  shows "length (faceCandidates c box a p) = (countH + 1) * (countV + 1)
       \<and> distinct (faceCandidates c box a p)
       \<and> (\<forall>dh dv. dh \<le> countH \<and> dv \<le> countV \<longrightarrow>
            faceCandidates c box a p ! (dh * (countV + 1) + dv)
              = worldPos a p box (getCenter box) (real dh * s - real countH * s / 2)
                  (real dv * s - real countV * s / 2))
       \<and> (\<forall>dh dv. dh \<le> countH \<and> dv \<le> countV \<longrightarrow>
            faceCandidates c box a p ! ((countH - dh) * (countV + 1) + (countV - dv))
              = worldPos a p box (getCenter box) (- (real dh * s - real countH * s / 2))
                  (- (real dv * s - real countV * s / 2)))
       \<and> length (drawConnector k c facePos a p fw fh) = (previewH + 1) * (previewV + 1)
       \<and> (\<forall>dh dv. dh \<le> previewH \<and> dv \<le> previewV \<longrightarrow>
            pm_position (drawConnector k c facePos a p fw fh ! (dh * (previewV + 1) + dv))
              = (if a = AxisX then
                   Vector3 (vx facePos) (vy facePos + (real dv * s - real previewV * s / 2))
                     (vz facePos + (real dh * s - real previewH * s / 2))
                 else if a = AxisY then
                   Vector3 (vx facePos + (real dh * s - real previewH * s / 2)) (vy facePos)
                     (vz facePos + (real dv * s - real previewV * s / 2))
                 else
                   Vector3 (vx facePos + (real dh * s - real previewH * s / 2))
                     (vy facePos + (real dv * s - real previewV * s / 2)) (vz facePos)))"
proof -
  have cH: "countH = layoutCount (faceW a (getSize box)) (edgeMargin c) (max 5 (spacing c))"
    and cV: "countV = layoutCount (faceH a (getSize box)) (edgeMargin c) (max 5 (spacing c))"
    and pH: "previewH = layoutCount fw (edgeMargin c) (max 5 (spacing c))"
    and pV: "previewV = layoutCount fh (edgeMargin c) (max 5 (spacing c))"
    by (simp_all add: countH_def countV_def previewH_def previewV_def s_def layoutCount_formula)
  have 1: "length (faceCandidates c box a p) = (countH + 1) * (countV + 1)"
    by (simp add: faceCandidates_gridList length_gridList cH cV)
  have 2: "distinct (faceCandidates c box a p)" by (rule distinct_faceCandidates)
  have 3: "faceCandidates c box a p ! (dh * (countV + 1) + dv)
              = worldPos a p box (getCenter box) (real dh * s - real countH * s / 2)
                  (real dv * s - real countV * s / 2)"
    if "dh \<le> countH \<and> dv \<le> countV" for dh dv
  proof -
    from that have "dh < Suc countH" "dv < Suc countV" by simp_all
    from nth_gridList[OF this] show ?thesis
      by (simp add: faceCandidates_gridList cH[symmetric] cV[symmetric] layoutOffset_formula s_def)
  qed
  have 4: "faceCandidates c box a p ! ((countH - dh) * (countV + 1) + (countV - dv))
              = worldPos a p box (getCenter box) (- (real dh * s - real countH * s / 2))
                  (- (real dv * s - real countV * s / 2))"
    if "dh \<le> countH \<and> dv \<le> countV" for dh dv
  proof -
    from that have "countH - dh \<le> countH \<and> countV - dv \<le> countV" by simp
    from 3[OF this] that show ?thesis by (simp add: of_nat_diff algebra_simps)
  qed
  have 5: "length (drawConnector k c facePos a p fw fh) = (previewH + 1) * (previewV + 1)"
    using arg_cong[OF drawConnector_positions[of k c facePos a p fw fh], of length]
    by (simp add: length_gridList pH pV)
  have 6: "pm_position (drawConnector k c facePos a p fw fh ! (dh * (previewV + 1) + dv))
              = (if a = AxisX then
                   Vector3 (vx facePos) (vy facePos + (real dv * s - real previewV * s / 2))
                     (vz facePos + (real dh * s - real previewH * s / 2))
                 else if a = AxisY then
                   Vector3 (vx facePos + (real dh * s - real previewH * s / 2)) (vy facePos)
                     (vz facePos + (real dv * s - real previewV * s / 2))
                 else
                   Vector3 (vx facePos + (real dh * s - real previewH * s / 2))
                     (vy facePos + (real dv * s - real previewV * s / 2)) (vz facePos))"
    if "dh \<le> previewH \<and> dv \<le> previewV" for dh dv
  proof -
    from that have lt: "dh < Suc previewH" "dv < Suc previewV" by simp_all
    then have "dh * Suc previewV + dv < Suc previewH * Suc previewV"
      by (metis Suc_leI add.commute add_less_cancel_left less_le_trans mult_Suc mult_le_mono1)
    then have "dh * (previewV + 1) + dv < length (drawConnector k c facePos a p fw fh)"
      using 5 by simp
    then have "pm_position (drawConnector k c facePos a p fw fh ! (dh * (previewV + 1) + dv))
         = map pm_position (drawConnector k c facePos a p fw fh) ! (dh * (previewV + 1) + dv)"
      by simp
    also have "\<dots> = gridList (Suc previewH) (Suc previewV)
       (\<lambda>dh dv.
          let hOff = layoutOffset dh previewH s;
              vOff = layoutOffset dv previewV s
          in if a = AxisX then Vector3 (vx facePos) (vy facePos + vOff) (vz facePos + hOff)
             else if a = AxisY then Vector3 (vx facePos + hOff) (vy facePos) (vz facePos + vOff)
             else Vector3 (vx facePos + hOff) (vy facePos + vOff) (vz facePos)) ! (dh * Suc previewV + dv)"
      by (simp only: drawConnector_positions pH pV s_def Suc_eq_plus1)
    also have "\<dots> = (let hOff = layoutOffset dh previewH s;
              vOff = layoutOffset dv previewV s
          in if a = AxisX then Vector3 (vx facePos) (vy facePos + vOff) (vz facePos + hOff)
             else if a = AxisY then Vector3 (vx facePos + hOff) (vy facePos) (vz facePos + vOff)
             else Vector3 (vx facePos + hOff) (vy facePos + vOff) (vz facePos))"
      by (rule nth_gridList[OF lt])
    finally show ?thesis by (simp add: Let_def layoutOffset_formula)
  qed
  from 1 2 3 4 5 6 show ?thesis by blast
qed

lemma cube_corners: "box_min (cube a) = Vector3 0 0 0" "box_max (cube a) = Vector3 a a a"
  by (simp_all add: cube_def)

text \<open>
  Spacing 50 and margin 15 on the faces of a 100 unit cube: \<open>countH = countV = 1\<close>, two
  columns and two rows, at 25 units either side of the centre.
\<close>

theorem connector_candidate_grid_witness:
  "length (faceCandidates connectorDefaults (cube 100) AxisX True) = 4
   \<and> faceCandidates connectorDefaults (cube 100) AxisX True ! 0 = Vector3 100 25 25
   \<and> faceCandidates connectorDefaults (cube 100) AxisX True ! 3 = Vector3 100 75 75
   \<and> length (drawConnector (testKernel (\<lambda>a b op. False) (cube 100)) connectorDefaults
               (Vector3 100 50 50) AxisX True 100 100) = 4"
proof -
  have c: "nat (max 0 \<lfloor>(faceW AxisX (getSize (cube 100)) - 2 * edgeMargin connectorDefaults)
                  / max 5 (spacing connectorDefaults)\<rfloor>) = 1"
    "nat (max 0 \<lfloor>(faceH AxisX (getSize (cube 100)) - 2 * edgeMargin connectorDefaults)
                  / max 5 (spacing connectorDefaults)\<rfloor>) = 1"
    "nat (max 0 \<lfloor>(100 - 2 * edgeMargin connectorDefaults)
                  / max 5 (spacing connectorDefaults)\<rfloor>) = 1"
    by (simp_all add: getSize_cube faceW_def faceH_def connectorDefaults_def)
  have w: "worldPos AxisX True (cube 100) (getCenter (cube 100)) (- 25) (- 25) = Vector3 100 25 25"
    "worldPos AxisX True (cube 100) (getCenter (cube 100)) 25 25 = Vector3 100 75 75"
    by (simp_all add: worldPos_def getCenter_cube cube_corners)
  have s: "max 5 (spacing connectorDefaults) = 50" by (simp add: connectorDefaults_def)
  note t = connector_candidate_grid[of connectorDefaults "cube 100" AxisX True
      "testKernel (\<lambda>a b op. False) (cube 100)" "Vector3 100 50 50" 100 100, unfolded c, unfolded s]
  from t have 1: "length (faceCandidates connectorDefaults (cube 100) AxisX True) = 4"
    and 4: "length (drawConnector (testKernel (\<lambda>a b op. False) (cube 100)) connectorDefaults
               (Vector3 100 50 50) AxisX True 100 100) = 4"
    by simp_all
  from t have n: "\<And>dh dv. dh \<le> 1 \<and> dv \<le> 1 \<Longrightarrow>
      faceCandidates connectorDefaults (cube 100) AxisX True ! (dh * (1 + 1) + dv)
        = worldPos AxisX True (cube 100) (getCenter (cube 100)) (real dh * 50 - real 1 * 50 / 2)
            (real dv * 50 - real 1 * 50 / 2)"
    by blast
  from n[of 0 0] w have 2: "faceCandidates connectorDefaults (cube 100) AxisX True ! 0 = Vector3 100 25 25"
    by simp
  from n[of 1 1] w have 3: "faceCandidates connectorDefaults (cube 100) AxisX True ! 3 = Vector3 100 75 75"
    by (simp add: numeral_3_eq_3)
  from 1 2 3 4 show ?thesis by blast
qed

text \<open>
  C4 as the claim states it, with the configured spacing in the formula, fails for a
  spacing below 5. Spacing 2 and the margin 15 on a face of the 100 unit cube: the
  formula of the claim gives \<open>countH = countV = 35\<close> and 1296 centres, the code lays
  out 225.
\<close>

theorem candidate_count_configured_spacing_counterexample:
  "length (faceCandidates (connectorDefaults\<lparr>spacing := 2\<rparr>) (cube 100) AxisX True)
     \<noteq> (nat (max 0 \<lfloor>(faceW AxisX (getSize (cube 100))
                        - 2 * edgeMargin (connectorDefaults\<lparr>spacing := 2\<rparr>))
                      / spacing (connectorDefaults\<lparr>spacing := 2\<rparr>)\<rfloor>) + 1)
       * (nat (max 0 \<lfloor>(faceH AxisX (getSize (cube 100))
                        - 2 * edgeMargin (connectorDefaults\<lparr>spacing := 2\<rparr>))
                      / spacing (connectorDefaults\<lparr>spacing := 2\<rparr>)\<rfloor>) + 1)"
proof -
  have code: "length (faceCandidates (connectorDefaults\<lparr>spacing := 2\<rparr>) (cube 100) AxisX True)
                = 225"
    by (simp add: faceCandidates_gridList length_gridList layoutCount_def getSize_cube
        faceW_def faceH_def connectorDefaults_def)
  have formula:
    "(nat (max 0 \<lfloor>(faceW AxisX (getSize (cube 100))
                        - 2 * edgeMargin (connectorDefaults\<lparr>spacing := 2\<rparr>))
                      / spacing (connectorDefaults\<lparr>spacing := 2\<rparr>)\<rfloor>) + 1)
       * (nat (max 0 \<lfloor>(faceH AxisX (getSize (cube 100))
                        - 2 * edgeMargin (connectorDefaults\<lparr>spacing := 2\<rparr>))
                      / spacing (connectorDefaults\<lparr>spacing := 2\<rparr>)\<rfloor>) + 1) = 1296"
    by (simp add: getSize_cube faceW_def faceH_def connectorDefaults_def)
  show ?thesis unfolding code formula by simp
qed

section \<open>Placement validation\<close>

text \<open>
  C5. The raycaster reports its hits nearest first. Then isValidPlacement accepts a centre
  \<open>C\<close> with normal \<open>N\<close> and depth \<open>d\<close> exactly when the ray from \<open>C + 0.5 N\<close> along
  \<open>- N\<close> with far 1.0 reports a hit and the ray from \<open>C - 0.1 N\<close> along \<open>- N\<close> with
  far \<open>d\<close> reports no hit at a distance of \<open>d\<close> or less. The features a pass of
  addFeatures places are the cylinder moved to the candidates that pass both probes with
  \<open>d = 0.7 * length\<close>, in the order of the candidates: a candidate that fails is left
  out and the loops go on.
\<close>

theorem placement_validation:
  assumes "\<forall>origin dir far. sorted (intersectObject k mesh origin dir far)"
  shows "(\<forall>C N d. isValidPlacement k mesh C N d \<longleftrightarrow>
            intersectObject k mesh (addScaledVector C N 0.5) (negate N) 1.0 \<noteq> []
            \<and> (\<forall>t \<in> set (intersectObject k mesh (addScaledVector C N (- 0.1)) (negate N) d). d < t))
       \<and> acceptedFeatures k c box mesh a p =
           map (\<lambda>C. translate k (vx C) (vy C) (vz C) (featureCylinder k c a p))
             (filter (\<lambda>C. intersectObject k mesh (addScaledVector C (faceNormal a p) 0.5)
                             (negate (faceNormal a p)) 1.0 \<noteq> []
                         \<and> (\<forall>t \<in> set (intersectObject k mesh
                                          (addScaledVector C (faceNormal a p) (- 0.1))
                                          (negate (faceNormal a p)) (0.7 * connector_length c)).
                               0.7 * connector_length c < t))
                (faceCandidates c box a p))"
proof -
  have iff: "isValidPlacement k mesh C N d \<longleftrightarrow>
            intersectObject k mesh (addScaledVector C N 0.5) (negate N) 1.0 \<noteq> []
            \<and> (\<forall>t \<in> set (intersectObject k mesh (addScaledVector C N (- 0.1)) (negate N) d). d < t)"
    for C N d
    using assms by (intro isValidPlacement_iff) blast
  have d: "connector_length c * 0.7 = 0.7 * connector_length c" by simp
  show ?thesis
    unfolding acceptedFeatures_filter d using iff by presburger
qed

text \<open>
  The test double's raycaster: every list of hits is sorted, the four candidates of a
  face of the 100 unit cube are all accepted.
\<close>

theorem placement_validation_witness:
  "(\<forall>origin dir far. sorted (intersectObject (testKernel (\<lambda>a b op. False) (cube 100)) Model origin dir far))
   \<and> isValidPlacement (testKernel (\<lambda>a b op. False) (cube 100)) Model (Vector3 100 25 25) (Vector3 1 0 0) 8.4
   \<and> length (acceptedFeatures (testKernel (\<lambda>a b op. False) (cube 100)) connectorDefaults (cube 100) Model AxisX True) = 4"
proof -
  let ?k = "testKernel (\<lambda>a b op. False) (cube 100)"
  have h: "\<forall>origin dir far. sorted (intersectObject ?k Model origin dir far)"
    by (simp add: testKernel_def)
  have all: "filter (\<lambda>C. intersectObject ?k Model (addScaledVector C (faceNormal AxisX True) 0.5)
                             (negate (faceNormal AxisX True)) 1.0 \<noteq> []
                         \<and> (\<forall>t \<in> set (intersectObject ?k Model
                                          (addScaledVector C (faceNormal AxisX True) (- 0.1))
                                          (negate (faceNormal AxisX True)) (0.7 * connector_length connectorDefaults)).
                               0.7 * connector_length connectorDefaults < t))
                (faceCandidates connectorDefaults (cube 100) AxisX True) = faceCandidates connectorDefaults (cube 100) AxisX True"
    by (simp add: testKernel_def connectorDefaults_def)
  have len: "length (faceCandidates connectorDefaults (cube 100) AxisX True) = 4"
    by (simp add: faceCandidates_gridList length_gridList layoutCount_def getSize_cube
        faceW_def faceH_def connectorDefaults_def)
  note t = placement_validation[OF h, of connectorDefaults "cube 100" AxisX True]
  from t have "isValidPlacement ?k Model (Vector3 100 25 25) (Vector3 1 0 0) 8.4"
    by (simp add: testKernel_def)
  moreover from t have "length (acceptedFeatures ?k connectorDefaults (cube 100) Model AxisX True) = 4"
    by (simp only: all length_map len)
  ultimately show ?thesis using h by blast
qed

section \<open>The effective spacing\<close>

lemma featureCylinder_spacing:
  "featureCylinder k (c\<lparr>spacing := s\<rparr>) a p = featureCylinder k c a p"
  by (simp add: featureCylinder_def featureRadius_def)

lemma acceptedFeatures_spacing:
  "max 5 s = max 5 (spacing c) \<Longrightarrow>
     acceptedFeatures k (c\<lparr>spacing := s\<rparr>) box m a p = acceptedFeatures k c box m a p"
  by (simp add: acceptedFeatures_def featureCylinder_spacing)

lemma faceCandidates_spacing:
  "max 5 s = max 5 (spacing c) \<Longrightarrow> faceCandidates (c\<lparr>spacing := s\<rparr>) box a p = faceCandidates c box a p"
  by (simp add: faceCandidates_def)

lemma addFeatures_spacing:
  "max 5 s = max 5 (spacing c) \<Longrightarrow>
     addFeatures k (c\<lparr>spacing := s\<rparr>) box st a p = addFeatures k c box st a p"
  by (simp add: addFeatures_def acceptedFeatures_spacing)

lemma runPasses_spacing:
  "max 5 s = max 5 (spacing c) \<Longrightarrow>
     runPasses k (c\<lparr>spacing := s\<rparr>) box ps st = runPasses k c box ps st"
  by (induction ps arbitrary: st) (simp_all add: addFeatures_spacing split: prod.splits sum.splits)

lemma applyConnectors_spacing:
  "max 5 s = max 5 (spacing c) \<Longrightarrow>
     applyConnectors k geo ix iy iz sx sy sz (c\<lparr>spacing := s\<rparr>) = applyConnectors k geo ix iy iz sx sy sz c"
  by (simp add: applyConnectors_def runPasses_spacing split: prod.splits option.splits)

lemma drawConnector_spacing:
  "max 5 s = max 5 (spacing c) \<Longrightarrow>
     drawConnector k (c\<lparr>spacing := s\<rparr>) f a p fw fh = drawConnector k c f a p fw fh"
  by (simp add: drawConnector_def featureCylinder_spacing)

section \<open>Pegs and sockets\<close>





lemma worldPos_face:
  "vx (worldPos AxisX True box ctr h v) = vx (box_max box)"
  "vx (worldPos AxisX False box ctr h v) = vx (box_min box)"
  "vy (worldPos AxisY True box ctr h v) = vy (box_max box)"
  "vy (worldPos AxisY False box ctr h v) = vy (box_min box)"
  "vz (worldPos AxisZ True box ctr h v) = vz (box_max box)"
  "vz (worldPos AxisZ False box ctr h v) = vz (box_min box)"
  by (simp_all add: worldPos_def)


section \<open>Failure of one cell\<close>

lemma gridCell_parts:
  "parts (gridCell k b bounds config connectors labels baseName sx sy sz ix iy iz st)
     = parts st @ gridCellParts k b bounds config connectors labels baseName sx sy sz (ix, iy, iz)"
  by (simp add: gridCell_def gridCellParts_def Let_def split: option.splits prod.splits sum.splits)

lemma gridCell_current:
  "current (gridCell k b bounds config connectors labels baseName sx sy sz ix iy iz st)
     = current st + 1"
  by (simp add: gridCell_def Let_def split: option.splits prod.splits sum.splits)

lemma length_gridCellParts:
  "length (gridCellParts k b bounds config connectors labels baseName sx sy sz c) \<le> 1"
  by (simp add: gridCell_def gridCellParts_def Let_def split: option.splits prod.splits sum.splits)

lemma fold_parts:
  assumes "\<And>x st. parts (f x st) = parts st @ g x"
  shows "parts (fold f xs st) = parts st @ concat (map g xs)"
  using assms by (induction xs arbitrary: st) simp_all

lemma fold_current:
  assumes "\<And>x st. current (f x st) = current st + n"
  shows "current (fold f xs st) = current st + length xs * n"
  using assms by (induction xs arbitrary: st) simp_all

lemma concat_map_concat_map:
  "concat (map P (concat (map f xs))) = concat (map (\<lambda>x. concat (map P (f x))) xs)"
  by (induction xs) simp_all

lemma gridLoops_parts:
  "parts (gridLoops k b bounds config connectors labels baseName sx sy sz st)
     = parts st @ concat (map (gridCellParts k b bounds config connectors labels baseName sx sy sz)
                            (gridCells sx sy sz))"
proof -
  let ?P = "gridCellParts k b bounds config connectors labels baseName sx sy sz"
  let ?cell = "gridCell k b bounds config connectors labels baseName sx sy sz"
  have z: "parts (fold (\<lambda>iz. ?cell ix iy iz) [0..<sz] st)
             = parts st @ concat (map (\<lambda>iz. ?P (ix, iy, iz)) [0..<sz])" for ix iy st
    by (rule fold_parts) (rule gridCell_parts)
  have y: "parts (fold (\<lambda>iy. fold (\<lambda>iz. ?cell ix iy iz) [0..<sz]) [0..<sy] st)
             = parts st @ concat (map (\<lambda>iy. concat (map (\<lambda>iz. ?P (ix, iy, iz)) [0..<sz])) [0..<sy])"
    for ix st
    by (rule fold_parts) (rule z)
  have x: "parts (fold (\<lambda>ix. fold (\<lambda>iy. fold (\<lambda>iz. ?cell ix iy iz) [0..<sz]) [0..<sy]) [0..<sx] st)
             = parts st @ concat (map (\<lambda>ix. concat (map (\<lambda>iy. concat (map (\<lambda>iz. ?P (ix, iy, iz)) [0..<sz])) [0..<sy])) [0..<sx])"
    by (rule fold_parts) (rule y)
  have c: "concat (map ?P (gridCells sx sy sz))
         = concat (map (\<lambda>ix. concat (map (\<lambda>iy. concat (map (\<lambda>iz. ?P (ix, iy, iz)) [0..<sz])) [0..<sy])) [0..<sx])"
    by (simp only: gridCells_def concat_map_concat_map map_map comp_def)
  show ?thesis unfolding gridLoops_def c by (rule x)
qed

lemma gridLoops_current:
  "current (gridLoops k b bounds config connectors labels baseName sx sy sz st)
     = current st + sx * sy * sz"
proof -
  let ?cell = "gridCell k b bounds config connectors labels baseName sx sy sz"
  have z: "current (fold (\<lambda>iz. ?cell ix iy iz) [0..<sz] st) = current st + sz" for ix iy st
    using fold_current[of "\<lambda>iz. ?cell ix iy iz" 1 "[0..<sz]" st] by (simp add: gridCell_current)
  have y: "current (fold (\<lambda>iy. fold (\<lambda>iz. ?cell ix iy iz) [0..<sz]) [0..<sy] st)
             = current st + sy * sz" for ix st
    using fold_current[of "\<lambda>iy. fold (\<lambda>iz. ?cell ix iy iz) [0..<sz]" sz "[0..<sy]" st] z by simp
  show ?thesis
    unfolding gridLoops_def
    using fold_current[of "\<lambda>ix. fold (\<lambda>iy. fold (\<lambda>iz. ?cell ix iy iz) [0..<sz]) [0..<sy]" "sy * sz" "[0..<sx]" st] y
    by simp
qed


lemma manualCell_parts:
  "parts (manualCell k b bounds baseName ix iy iz w h d st)
     = parts st @ manualCellParts k b bounds baseName ix iy iz w h d
                    (offsetX st) (offsetY st) (offsetZ st)"
  by (simp add: manualCell_def manualCellParts_def Let_def
      split: option.splits prod.splits sum.splits)

lemma manualCell_frame:
  "current (manualCell k b bounds baseName ix iy iz w h d st) = current st + 1"
  "offsetX (manualCell k b bounds baseName ix iy iz w h d st) = offsetX st"
  "offsetY (manualCell k b bounds baseName ix iy iz w h d st) = offsetY st"
  "offsetZ (manualCell k b bounds baseName ix iy iz w h d st) = offsetZ st + d"
  by (simp_all add: manualCell_def Let_def split: option.splits prod.splits sum.splits)

lemma length_manualCellParts:
  "length (manualCellParts k b bounds baseName ix iy iz w h d ox oy oz) \<le> 1"
  by (simp add: manualCell_def manualCellParts_def Let_def
      split: option.splits prod.splits sum.splits)

lemma sum_list_take_Suc: "n < length xs \<Longrightarrow> sum_list (take (Suc n) xs) = sum_list (take n xs) + (xs ! n :: real)"
  by (simp add: take_Suc_conv_app_nth)

lemma manual_z_loop:
  assumes "n \<le> length Z"
  shows "parts (fold (\<lambda>iz. manualCell k b bounds baseName ix iy iz w h (Z ! iz)) [0..<n] st)
           = parts st @ concat (map (\<lambda>iz. manualCellParts k b bounds baseName ix iy iz w h (Z ! iz)
                                   (offsetX st) (offsetY st) (offsetZ st + sum_list (take iz Z))) [0..<n])
       \<and> current (fold (\<lambda>iz. manualCell k b bounds baseName ix iy iz w h (Z ! iz)) [0..<n] st)
           = current st + n
       \<and> offsetX (fold (\<lambda>iz. manualCell k b bounds baseName ix iy iz w h (Z ! iz)) [0..<n] st)
           = offsetX st
       \<and> offsetY (fold (\<lambda>iz. manualCell k b bounds baseName ix iy iz w h (Z ! iz)) [0..<n] st)
           = offsetY st
       \<and> offsetZ (fold (\<lambda>iz. manualCell k b bounds baseName ix iy iz w h (Z ! iz)) [0..<n] st)
           = offsetZ st + sum_list (take n Z)"
  using assms
proof (induction n)
  case 0
  then show ?case by simp
next
  case (Suc n)
  then have n: "n < length Z" and IH: "n \<le> length Z" by simp_all
  from Suc.IH[OF IH] show ?case
    by (simp add: manualCell_parts manualCell_frame sum_list_take_Suc[OF n])
qed

lemma manualLoopY_facts:
  "parts (manualLoopY k b bounds baseName Y Z ix w iy st)
     = parts st @ concat (map (\<lambda>iz. manualCellParts k b bounds baseName ix iy iz w (Y ! iy) (Z ! iz)
                             (offsetX st) (offsetY st) (sum_list (take iz Z))) [0..<length Z])"
  "current (manualLoopY k b bounds baseName Y Z ix w iy st) = current st + length Z"
  "offsetX (manualLoopY k b bounds baseName Y Z ix w iy st) = offsetX st"
  "offsetY (manualLoopY k b bounds baseName Y Z ix w iy st) = offsetY st + Y ! iy"
  using manual_z_loop[of "length Z" Z k b bounds baseName ix iy w "Y ! iy" "st\<lparr>offsetZ := 0\<rparr>"]
  by (simp_all add: manualLoopY_def Let_def)

lemma manual_y_loop:
  assumes "n \<le> length Y"
  shows "parts (fold (manualLoopY k b bounds baseName Y Z ix w) [0..<n] st)
           = parts st @ concat (map (\<lambda>iy. concat (map (\<lambda>iz.
                 manualCellParts k b bounds baseName ix iy iz w (Y ! iy) (Z ! iz)
                   (offsetX st) (offsetY st + sum_list (take iy Y)) (sum_list (take iz Z)))
                 [0..<length Z])) [0..<n])
       \<and> current (fold (manualLoopY k b bounds baseName Y Z ix w) [0..<n] st) = current st + n * length Z
       \<and> offsetX (fold (manualLoopY k b bounds baseName Y Z ix w) [0..<n] st) = offsetX st
       \<and> offsetY (fold (manualLoopY k b bounds baseName Y Z ix w) [0..<n] st)
           = offsetY st + sum_list (take n Y)"
  using assms
proof (induction n)
  case 0
  then show ?case by simp
next
  case (Suc n)
  then have n: "n < length Y" and IH: "n \<le> length Y" by simp_all
  from Suc.IH[OF IH] show ?case
    by (simp add: manualLoopY_facts sum_list_take_Suc[OF n])
qed

lemma manualLoopX_facts:
  "parts (manualLoopX k b bounds baseName X Y Z ix st)
     = parts st @ concat (map (\<lambda>iy. concat (map (\<lambda>iz.
                 manualCellParts k b bounds baseName ix iy iz (X ! ix) (Y ! iy) (Z ! iz)
                   (offsetX st) (sum_list (take iy Y)) (sum_list (take iz Z)))
                 [0..<length Z])) [0..<length Y])"
  "current (manualLoopX k b bounds baseName X Y Z ix st) = current st + length Y * length Z"
  "offsetX (manualLoopX k b bounds baseName X Y Z ix st) = offsetX st + X ! ix"
  using manual_y_loop[of "length Y" Y k b bounds baseName Z ix "X ! ix" "st\<lparr>offsetY := 0\<rparr>"]
  by (simp_all add: manualLoopX_def Let_def)

lemma manual_x_loop:
  assumes "n \<le> length X"
  shows "parts (fold (manualLoopX k b bounds baseName X Y Z) [0..<n] st)
           = parts st @ concat (map (\<lambda>ix. concat (map (\<lambda>iy. concat (map (\<lambda>iz.
                 manualCellParts k b bounds baseName ix iy iz (X ! ix) (Y ! iy) (Z ! iz)
                   (offsetX st + sum_list (take ix X)) (sum_list (take iy Y)) (sum_list (take iz Z)))
                 [0..<length Z])) [0..<length Y])) [0..<n])
       \<and> current (fold (manualLoopX k b bounds baseName X Y Z) [0..<n] st)
           = current st + n * (length Y * length Z)
       \<and> offsetX (fold (manualLoopX k b bounds baseName X Y Z) [0..<n] st)
           = offsetX st + sum_list (take n X)"
  using assms
proof (induction n)
  case 0
  then show ?case by simp
next
  case (Suc n)
  then have n: "n < length X" and IH: "n \<le> length X" by simp_all
  from Suc.IH[OF IH] show ?case
    by (simp add: manualLoopX_facts sum_list_take_Suc[OF n])
qed

lemma manualLoops_parts:
  "offsetX st = 0 \<Longrightarrow>
   parts (manualLoops k b bounds baseName X Y Z st)
     = parts st @ manualRunParts k b bounds baseName X Y Z"
  using manual_x_loop[of "length X" X k b bounds baseName Y Z st]
  by (simp add: manualLoops_def manualRunParts_def)

lemma manualLoops_current:
  "current (manualLoops k b bounds baseName X Y Z st)
     = current st + length X * length Y * length Z"
  using manual_x_loop[of "length X" X k b bounds baseName Y Z st]
  by (simp add: manualLoops_def)

lemma gridCell_unfold:
  "gridCell k b bounds config connectors labels baseName sx sy sz ix iy iz st =
     (let current' = current st + 1;
          st = st\<lparr>current := current',
                  events := events st @ [Progress (SlicingFragment current' (sx * sy * sz))]\<rparr>
      in if gridCellSkipped bounds config sx sy sz ix iy iz then st
         else
           (let (boxBrush, e) = createBrush k (gridBox k bounds config sx sy sz ix iy iz)
            in case boxBrush of
                 None \<Rightarrow> st\<lparr>events := events st @ e\<rparr>
               | Some bb \<Rightarrow>
                   (case gridFragment k b bb ix iy iz sx sy sz connectors labels baseName of
                      (Inl u, e') \<Rightarrow>
                        st\<lparr>events := events st @ e @ e' @ [ConsoleError (FragmentFailed current')]\<rparr>
                    | (Inr None, e') \<Rightarrow> st\<lparr>events := events st @ e @ e'\<rparr>
                    | (Inr (Some p), e') \<Rightarrow>
                        st\<lparr>parts := parts st @ [p], events := events st @ e @ e'\<rparr>)))"
  by (simp add: gridCell_def gridCellSkipped_def gridBox_def Let_def)

lemma gridCell_exception:
  assumes "\<not> gridCellSkipped bounds config sx sy sz ix iy iz"
    and "createBrush k (gridBox k bounds config sx sy sz ix iy iz) = (Some bb, e)"
    and "gridFragment k b bb ix iy iz sx sy sz connectors labels baseName = (Inl u, e')"
  shows "gridCell k b bounds config connectors labels baseName sx sy sz ix iy iz st
           = st\<lparr>current := current st + 1,
                events := events st @ [Progress (SlicingFragment (current st + 1) (sx * sy * sz))]
                            @ e @ e' @ [ConsoleError (FragmentFailed (current st + 1))]\<rparr>"
    and "gridCellParts k b bounds config connectors labels baseName sx sy sz (ix, iy, iz) = []"
  using assms by (simp_all add: gridCell_unfold gridCellParts_def Let_def)

lemma manualCell_exception:
  assumes "\<not> (w < 0.1 \<or> h < 0.1 \<or> d < 0.1)"
    and "createBrush k (manualBox k bounds (offsetX st) (offsetY st) (offsetZ st) w h d) = (Some bb, e)"
    and "manualFragment k b bb ix iy iz baseName = (Inl u, e')"
  shows "manualCell k b bounds baseName ix iy iz w h d st
           = st\<lparr>current := current st + 1,
                events := events st @ [Progress (CuttingFragment (current st + 1))]
                            @ e @ e' @ [ConsoleError ManualCutFailure],
                offsetZ := offsetZ st + d\<rparr>"
    and "manualCellParts k b bounds baseName ix iy iz w h d (offsetX st) (offsetY st) (offsetZ st) = []"
  using assms by (simp_all add: manualCell_def manualCellParts_def manualBox_def Let_def)

lemma fragment_intersection_throws:
  assumes "evaluate k (geometry b) (geometry bb) INTERSECTION = None"
  shows "gridFragment k b bb ix iy iz sx sy sz connectors labels baseName
           = (Inl (), [Evaluated (geometry b) (geometry bb) INTERSECTION False])"
    and "manualFragment k b bb ix iy iz baseName
           = (Inl (), [Evaluated (geometry b) (geometry bb) INTERSECTION False])"
  using assms by (simp_all add: gridFragment_def manualFragment_def)

lemma gridFragment_connectors_throw:
  assumes "evaluate k (geometry b) (geometry bb) INTERSECTION = Some res"
    and "0 < positionCount k res" and "connector_enabled connectors"
    and "applyConnectors k res ix iy iz sx sy sz connectors = (Inl u, e1)"
  shows "gridFragment k b bb ix iy iz sx sy sz connectors labels baseName
           = (Inl u, Evaluated (geometry b) (geometry bb) INTERSECTION True # e1)"
  using assms by (simp add: gridFragment_def)

lemma applyLabel_throws:
  assumes "createBrush k geo = (Some bb, e1)"
    and "createBrush k (labelPlate k geo labels) = (Some lb, e2)"
    and "evaluate k (geometry bb) (geometry lb) ADDITION = None"
  shows "applyLabel k geo labels
           = (geo, e1 @ e2 @ [Evaluated (geometry bb) (geometry lb) ADDITION False])"
  using assms by (simp add: applyLabel_def labelPlate_def Let_def)

lemma performGridSlice_run:
  assumes "gridSteps (vx (getSize bounds)) (printerX config)
             * gridSteps (vy (getSize bounds)) (printerY config)
             * gridSteps (vz (getSize bounds)) (printerZ config) \<le> 500"
    and "createBrush k g = (Some b0, e0)"
  shows "fst (performGridSlice k g bounds config connectors hollow labels baseName)
           = Inr (concat (map (gridCellParts k
                    (if hollow_enabled hollow then fst (applyHollowing k b0 bounds hollow) else b0)
                    bounds config connectors labels baseName
                    (gridSteps (vx (getSize bounds)) (printerX config))
                    (gridSteps (vy (getSize bounds)) (printerY config))
                    (gridSteps (vz (getSize bounds)) (printerZ config)))
                  (gridCells (gridSteps (vx (getSize bounds)) (printerX config))
                    (gridSteps (vy (getSize bounds)) (printerY config))
                    (gridSteps (vz (getSize bounds)) (printerZ config)))))"
  using assms
  by (simp add: performGridSlice_def Let_def gridLoops_parts split: prod.splits)

lemma performGridSlice_fatal:
  assumes "fst (performGridSlice k g bounds config connectors hollow labels baseName) = Inl err"
  shows "(err = PartCountExceeded
            \<and> 500 < gridSteps (vx (getSize bounds)) (printerX config)
                      * gridSteps (vy (getSize bounds)) (printerY config)
                      * gridSteps (vz (getSize bounds)) (printerZ config))
         \<or> (err = CouldNotInitialize \<and> fst (createBrush k g) = None)"
  using assms
  by (auto simp: performGridSlice_def Let_def split: prod.splits option.splits if_splits)

lemma performManualSlice_run:
  assumes "createBrush k g = (Some b0, e0)"
  shows "fst (performManualSlice k g bounds config connectors hollow labels baseName)
           = Inr (manualRunParts k
                    (if hollow_enabled hollow then fst (applyHollowing k b0 bounds hollow) else b0)
                    bounds baseName
                    (manualSplits (showX config) (manualX config) (vx (getSize bounds)))
                    (manualSplits (showY config) (manualY config) (vy (getSize bounds)))
                    (manualSplits (showZ config) (manualZ config) (vz (getSize bounds))))"
  using assms
  by (simp add: performManualSlice_def Let_def manualLoops_parts split: prod.splits)

lemma performManualSlice_fatal:
  assumes "fst (performManualSlice k g bounds config connectors hollow labels baseName) = Inl err"
  shows "err = GeometryInitFailed \<and> fst (createBrush k g) = None"
  using assms
  by (auto simp: performManualSlice_def Let_def split: prod.splits option.splits if_splits)

text \<open>
  C8, as the code isolates a cell. An exception of the evaluator in the intersection of
  a cell reaches the catch clause of the cell, in grid and in manual mode (in grid mode
  an exception of a connector pass does too). The catch clause logs the failure
  (\<open>FragmentFailed\<close> with the number of the cell, \<open>ManualCutFailure\<close>), the cell adds
  no part, the counter advances (and in manual mode the offset along z), and the list of
  parts is left as it was. In either mode a cell only appends to the list of parts, and
  what it appends depends on the cell alone (its indices, and in manual mode its extents
  and the offsets, which are the sums of the splits before it), not on the state the
  loops have reached: the parts of a run are the parts of its cells in the order of the
  loops, the loops visit every cell, and after the base brush is built the run answers a
  list of parts whatever the evaluator does. An exception of the label union does not
  reach the catch clause of the cell: applyLabel catches it and answers the unlabelled
  geometry, which becomes the part of the cell.
\<close>

theorem cell_failure_isolated:
  "(evaluate k (geometry b) (geometry bb) INTERSECTION = None \<longrightarrow>
      gridFragment k b bb ix iy iz sx sy sz connectors labels baseName
        = (Inl (), [Evaluated (geometry b) (geometry bb) INTERSECTION False])
      \<and> manualFragment k b bb ix iy iz baseName
        = (Inl (), [Evaluated (geometry b) (geometry bb) INTERSECTION False]))
   \<and> (\<not> gridCellSkipped bounds config sx sy sz ix iy iz
        \<and> createBrush k (gridBox k bounds config sx sy sz ix iy iz) = (Some bb, e)
        \<and> gridFragment k b bb ix iy iz sx sy sz connectors labels baseName = (Inl u, e') \<longrightarrow>
      gridCell k b bounds config connectors labels baseName sx sy sz ix iy iz st
        = st\<lparr>current := current st + 1,
             events := events st @ [Progress (SlicingFragment (current st + 1) (sx * sy * sz))]
                         @ e @ e' @ [ConsoleError (FragmentFailed (current st + 1))]\<rparr>
      \<and> gridCellParts k b bounds config connectors labels baseName sx sy sz (ix, iy, iz) = [])
   \<and> parts (gridCell k b bounds config connectors labels baseName sx sy sz ix iy iz st)
       = parts st @ gridCellParts k b bounds config connectors labels baseName sx sy sz (ix, iy, iz)
   \<and> parts (gridLoops k b bounds config connectors labels baseName sx sy sz st)
       = parts st @ concat (map (gridCellParts k b bounds config connectors labels baseName sx sy sz)
                              (gridCells sx sy sz))
   \<and> current (gridLoops k b bounds config connectors labels baseName sx sy sz st)
       = current st + sx * sy * sz
   \<and> (gridSteps (vx (getSize bounds)) (printerX config)
         * gridSteps (vy (getSize bounds)) (printerY config)
         * gridSteps (vz (getSize bounds)) (printerZ config) \<le> 500
       \<and> createBrush k g = (Some b0, e0) \<longrightarrow>
      fst (performGridSlice k g bounds config connectors hollow labels baseName)
        = Inr (concat (map (gridCellParts k
                 (if hollow_enabled hollow then fst (applyHollowing k b0 bounds hollow) else b0)
                 bounds config connectors labels baseName
                 (gridSteps (vx (getSize bounds)) (printerX config))
                 (gridSteps (vy (getSize bounds)) (printerY config))
                 (gridSteps (vz (getSize bounds)) (printerZ config)))
               (gridCells (gridSteps (vx (getSize bounds)) (printerX config))
                 (gridSteps (vy (getSize bounds)) (printerY config))
                 (gridSteps (vz (getSize bounds)) (printerZ config))))))
   \<and> (\<not> (w < 0.1 \<or> h < 0.1 \<or> d < 0.1)
        \<and> createBrush k (manualBox k bounds (offsetX mst) (offsetY mst) (offsetZ mst) w h d)
            = (Some bb, e)
        \<and> manualFragment k b bb ix iy iz baseName = (Inl u, e') \<longrightarrow>
      manualCell k b bounds baseName ix iy iz w h d mst
        = mst\<lparr>current := current mst + 1,
              events := events mst @ [Progress (CuttingFragment (current mst + 1))]
                          @ e @ e' @ [ConsoleError ManualCutFailure],
              offsetZ := offsetZ mst + d\<rparr>
      \<and> manualCellParts k b bounds baseName ix iy iz w h d
          (offsetX mst) (offsetY mst) (offsetZ mst) = [])
   \<and> parts (manualCell k b bounds baseName ix iy iz w h d mst)
       = parts mst @ manualCellParts k b bounds baseName ix iy iz w h d
                       (offsetX mst) (offsetY mst) (offsetZ mst)
   \<and> offsetZ (manualCell k b bounds baseName ix iy iz w h d mst) = offsetZ mst + d
   \<and> (offsetX mst = 0 \<longrightarrow>
        parts (manualLoops k b bounds baseName X Y Z mst)
          = parts mst @ manualRunParts k b bounds baseName X Y Z)
   \<and> current (manualLoops k b bounds baseName X Y Z mst)
       = current mst + length X * length Y * length Z
   \<and> (createBrush k g = (Some b0, e0) \<longrightarrow>
      fst (performManualSlice k g bounds config connectors hollow labels baseName)
        = Inr (manualRunParts k
                 (if hollow_enabled hollow then fst (applyHollowing k b0 bounds hollow) else b0)
                 bounds baseName
                 (manualSplits (showX config) (manualX config) (vx (getSize bounds)))
                 (manualSplits (showY config) (manualY config) (vy (getSize bounds)))
                 (manualSplits (showZ config) (manualZ config) (vz (getSize bounds)))))
   \<and> (evaluate k (geometry b) (geometry bb) INTERSECTION = Some res
        \<and> 0 < positionCount k res \<and> connector_enabled connectors
        \<and> applyConnectors k res ix iy iz sx sy sz connectors = (Inl u, e1) \<longrightarrow>
      gridFragment k b bb ix iy iz sx sy sz connectors labels baseName
        = (Inl u, Evaluated (geometry b) (geometry bb) INTERSECTION True # e1))
   \<and> (createBrush k geo = (Some gb, e1)
        \<and> createBrush k (labelPlate k geo labels) = (Some lb, e2)
        \<and> evaluate k (geometry gb) (geometry lb) ADDITION = None \<longrightarrow>
      applyLabel k geo labels
        = (geo, e1 @ e2 @ [Evaluated (geometry gb) (geometry lb) ADDITION False]))"
  by (intro conjI impI;
      (elim conjE)?;
      (rule fragment_intersection_throws gridCell_exception gridCell_parts gridLoops_parts
            gridLoops_current performGridSlice_run manualCell_exception manualCell_parts
            manualCell_frame manualLoops_parts manualLoops_current performManualSlice_run
            gridFragment_connectors_throw applyLabel_throws; assumption))

lemma getSize_slab: "getSize slab = Vector3 200 100 100"
  by (simp add: getSize_def isEmpty_def slab_def)


lemma steps_values: "gridSteps 200 120 = 2" "gridSteps 100 120 = 1"
  by (simp_all add: gridSteps_def)

lemma upt_values: "[0..<2] = [0, 1]" "[0..<1] = [0]"
  by (simp_all add: upt_rec)

lemma label_throw_fragment:
  "gridFragment (testKernel (\<lambda>a b op. op = ADDITION) (cube 100)) (Brush Model)
     (Brush (BoxSolid 100 100 100)) 0 0 0 1 1 1
     (connectorDefaults\<lparr>connector_enabled := False\<rparr>) labelDefaults ''model''
   = (Inr (Some \<lparr>part_geometry = Csg INTERSECTION Model (BoxSolid 100 100 100),
                 name = GridPart ''model'' 0 0 0, index = (0, 0, 0)\<rparr>),
      [Evaluated Model (BoxSolid 100 100 100) INTERSECTION True,
       Normalized (Csg INTERSECTION Model (BoxSolid 100 100 100)),
       Normalized (BoxSolid 15 2 (15 / 2)),
       Evaluated (Csg INTERSECTION Model (BoxSolid 100 100 100)) (BoxSolid 15 2 (15 / 2))
         ADDITION False,
       Normalized (Csg INTERSECTION Model (BoxSolid 100 100 100))])"
  by (simp add: gridFragment_def applyLabel_def testKernel_fields testKernel_createBrush
      labelDefaults_def Let_def)

lemma label_throw_box:
  "\<not> gridCellSkipped (cube 100) (gridConfig 120) 1 1 1 0 0 0"
  "gridBox (testKernel t (cube 100)) (cube 100) (gridConfig 120) 1 1 1 0 0 0 = BoxSolid 100 100 100"
  by (simp_all add: gridCellSkipped_def gridBox_def cellExtent_def getSize_cube testKernel_fields)

text \<open>
  C8 as the claim states it, for every exception of the evaluator raised while a cell is
  processed, fails for the label union. One cell, labels enabled, an evaluator that
  throws on every ADDITION: the exception is raised (\<open>Evaluated ... ADDITION False\<close>),
  nothing is logged on the console, and the cell contributes its part.
\<close>

theorem label_exception_keeps_part:
  "performGridSlice (testKernel (\<lambda>a b op. op = ADDITION) (cube 100)) Model (cube 100)
     (gridConfig 120) (connectorDefaults\<lparr>connector_enabled := False\<rparr>) hollowDefaults
     labelDefaults ''model''
   = (Inr [\<lparr>part_geometry = Csg INTERSECTION Model (BoxSolid 100 100 100),
            name = GridPart ''model'' 0 0 0, index = (0, 0, 0)\<rparr>],
      [Normalized Model, Progress (SlicingFragment 1 1), Normalized (BoxSolid 100 100 100),
       Evaluated Model (BoxSolid 100 100 100) INTERSECTION True,
       Normalized (Csg INTERSECTION Model (BoxSolid 100 100 100)),
       Normalized (BoxSolid 15 2 (15 / 2)),
       Evaluated (Csg INTERSECTION Model (BoxSolid 100 100 100)) (BoxSolid 15 2 (15 / 2))
         ADDITION False,
       Normalized (Csg INTERSECTION Model (BoxSolid 100 100 100))])"
proof -
  let ?k = "testKernel (\<lambda>a b op. op = ADDITION) (cube 100)"
  have s: "gridSteps (vx (getSize (cube 100))) (printerX (gridConfig 120)) = 1"
    "gridSteps (vy (getSize (cube 100))) (printerY (gridConfig 120)) = 1"
    "gridSteps (vz (getSize (cube 100))) (printerZ (gridConfig 120)) = 1"
    by (simp_all add: getSize_cube gridConfig_def steps_values)
  have cell: "gridCell ?k (Brush Model) (cube 100) (gridConfig 120)
          (connectorDefaults\<lparr>connector_enabled := False\<rparr>) labelDefaults ''model'' 1 1 1 0 0 0
          \<lparr>parts = [], current = 0, events = [Normalized Model]\<rparr>
        = \<lparr>parts = [\<lparr>part_geometry = Csg INTERSECTION Model (BoxSolid 100 100 100),
            name = GridPart ''model'' 0 0 0, index = (0, 0, 0)\<rparr>], current = 1,
           events = [Normalized Model, Progress (SlicingFragment 1 1), Normalized (BoxSolid 100 100 100),
       Evaluated Model (BoxSolid 100 100 100) INTERSECTION True,
       Normalized (Csg INTERSECTION Model (BoxSolid 100 100 100)),
       Normalized (BoxSolid 15 2 (15 / 2)),
       Evaluated (Csg INTERSECTION Model (BoxSolid 100 100 100)) (BoxSolid 15 2 (15 / 2))
         ADDITION False,
       Normalized (Csg INTERSECTION Model (BoxSolid 100 100 100))]\<rparr>"
    unfolding gridCell_unfold
    by (simp add: label_throw_box testKernel_createBrush label_throw_fragment
        del: One_nat_def)
  show ?thesis
    unfolding performGridSlice_def s Let_def gridLoops_def upt_values
    by (simp add: testKernel_createBrush hollowDefaults_def cell del: One_nat_def)
qed

text \<open>
  A grid run of two cells along x whose first intersection throws, and a manual run split
  at x = 60 whose first intersection throws: the failure is logged, the first cell adds
  no part, the second cell is processed and adds its part.
\<close>

theorem cell_failure_isolated_witness:
  "evaluate (testKernel (\<lambda>a b op. op = INTERSECTION \<and> b = BoxSolid 120 100 100) slab)
     (geometry (Brush Model)) (geometry (Brush (BoxSolid 120 100 100))) INTERSECTION = None
   \<and> \<not> gridCellSkipped slab (gridConfig 120) 2 1 1 0 0 0
   \<and> createBrush (testKernel (\<lambda>a b op. op = INTERSECTION \<and> b = BoxSolid 120 100 100) slab)
         (gridBox (testKernel (\<lambda>a b op. op = INTERSECTION \<and> b = BoxSolid 120 100 100) slab)
            slab (gridConfig 120) 2 1 1 0 0 0)
       = (Some (Brush (BoxSolid 120 100 100)), [Normalized (BoxSolid 120 100 100)])
   \<and> gridFragment (testKernel (\<lambda>a b op. op = INTERSECTION \<and> b = BoxSolid 120 100 100) slab)
         (Brush Model) (Brush (BoxSolid 120 100 100)) 0 0 0 2 1 1
         (connectorDefaults\<lparr>connector_enabled := False\<rparr>) (labelDefaults\<lparr>label_enabled := False\<rparr>)
         ''model''
       = (Inl (), [Evaluated Model (BoxSolid 120 100 100) INTERSECTION False])
   \<and> gridCellParts (testKernel (\<lambda>a b op. op = INTERSECTION \<and> b = BoxSolid 120 100 100) slab)
         (Brush Model) slab (gridConfig 120) (connectorDefaults\<lparr>connector_enabled := False\<rparr>)
         (labelDefaults\<lparr>label_enabled := False\<rparr>) ''model'' 2 1 1 (0, 0, 0) = []
   \<and> performGridSlice (testKernel (\<lambda>a b op. op = INTERSECTION \<and> b = BoxSolid 120 100 100) slab)
         Model slab (gridConfig 120) (connectorDefaults\<lparr>connector_enabled := False\<rparr>)
         hollowDefaults (labelDefaults\<lparr>label_enabled := False\<rparr>) ''model''
       = (Inr [\<lparr>part_geometry = Csg INTERSECTION Model (BoxSolid 80 100 100),
                name = GridPart ''model'' 1 0 0, index = (1, 0, 0)\<rparr>],
          [Normalized Model,
           Progress (SlicingFragment 1 2), Normalized (BoxSolid 120 100 100),
           Evaluated Model (BoxSolid 120 100 100) INTERSECTION False,
           ConsoleError (FragmentFailed 1),
           Progress (SlicingFragment 2 2), Normalized (BoxSolid 80 100 100),
           Evaluated Model (BoxSolid 80 100 100) INTERSECTION True,
           Normalized (Csg INTERSECTION Model (BoxSolid 80 100 100))])
   \<and> \<not> ((60::real) < 0.1 \<or> (100::real) < 0.1 \<or> (100::real) < 0.1)
   \<and> manualFragment (testKernel (\<lambda>a b op. op = INTERSECTION \<and> b = BoxSolid 60 100 100) slab)
         (Brush Model) (Brush (BoxSolid 60 100 100)) 0 0 0 ''model''
       = (Inl (), [Evaluated Model (BoxSolid 60 100 100) INTERSECTION False])
   \<and> manualCellParts (testKernel (\<lambda>a b op. op = INTERSECTION \<and> b = BoxSolid 60 100 100) slab)
         (Brush Model) slab ''model'' 0 0 0 60 100 100 0 0 0 = []
   \<and> performManualSlice (testKernel (\<lambda>a b op. op = INTERSECTION \<and> b = BoxSolid 60 100 100) slab)
         Model slab manualConfig (connectorDefaults\<lparr>connector_enabled := False\<rparr>)
         hollowDefaults (labelDefaults\<lparr>label_enabled := False\<rparr>) ''model''
       = (Inr [\<lparr>part_geometry = Csg INTERSECTION Model (BoxSolid 140 100 100),
                name = ManualPart ''model'' 1 0 0, index = (1, 0, 0)\<rparr>],
          [Normalized Model, Progress (CuttingFragment 1), Normalized (BoxSolid 60 100 100),
           Evaluated Model (BoxSolid 60 100 100) INTERSECTION False,
           ConsoleError ManualCutFailure, Progress (CuttingFragment 2),
           Normalized (BoxSolid 140 100 100),
           Evaluated Model (BoxSolid 140 100 100) INTERSECTION True,
           Normalized (Csg INTERSECTION Model (BoxSolid 140 100 100))])"
proof -
  let ?k = "testKernel (\<lambda>a b op. op = INTERSECTION \<and> b = BoxSolid 120 100 100) slab"
  let ?c = "connectorDefaults\<lparr>connector_enabled := False\<rparr>"
  let ?l = "labelDefaults\<lparr>label_enabled := False\<rparr>"
  let ?st = "\<lparr>parts = [], current = 0, events = [Normalized Model]\<rparr> :: solid slice_state"
  have h1: "evaluate ?k (geometry (Brush Model)) (geometry (Brush (BoxSolid 120 100 100)))
              INTERSECTION = None"
    by (simp add: testKernel_fields)
  have h2: "\<not> gridCellSkipped slab (gridConfig 120) 2 1 1 0 0 0"
    by (simp add: gridCellSkipped_def cellExtent_def getSize_slab gridConfig_def)
  have box0: "gridBox ?k slab (gridConfig 120) 2 1 1 0 0 0 = BoxSolid 120 100 100"
    by (simp add: gridBox_def cellExtent_def getSize_slab gridConfig_def testKernel_fields)
  have h3: "createBrush ?k (gridBox ?k slab (gridConfig 120) 2 1 1 0 0 0)
              = (Some (Brush (BoxSolid 120 100 100)), [Normalized (BoxSolid 120 100 100)])"
    by (simp only: box0 testKernel_createBrush)
  note t = cell_failure_isolated[where k = ?k and b = "Brush Model"
      and bb = "Brush (BoxSolid 120 100 100)" and ix = 0 and iy = 0 and iz = 0
      and sx = 2 and sy = 1 and sz = 1 and connectors = ?c and labels = ?l
      and baseName = "''model''" and bounds = slab and config = "gridConfig 120"
      and e = "[Normalized (BoxSolid 120 100 100)]" and u = "()"
      and e' = "[Evaluated Model (BoxSolid 120 100 100) INTERSECTION False]" and st = ?st]
  from t h1 have h4: "gridFragment ?k (Brush Model) (Brush (BoxSolid 120 100 100)) 0 0 0 2 1 1
         ?c ?l ''model'' = (Inl (), [Evaluated Model (BoxSolid 120 100 100) INTERSECTION False])"
    by simp
  from t h2 h3 h4
  have cell0: "gridCell ?k (Brush Model) slab (gridConfig 120) ?c ?l ''model'' 2 1 1 0 0 0 ?st
        = ?st\<lparr>current := current ?st + 1,
             events := events ?st @ [Progress (SlicingFragment (current ?st + 1) (2 * 1 * 1))]
                         @ [Normalized (BoxSolid 120 100 100)]
                         @ [Evaluated Model (BoxSolid 120 100 100) INTERSECTION False]
                         @ [ConsoleError (FragmentFailed (current ?st + 1))]\<rparr>"
    and parts0: "gridCellParts ?k (Brush Model) slab (gridConfig 120) ?c ?l ''model'' 2 1 1 (0, 0, 0) = []"
    by blast+
  have h5: "\<not> gridCellSkipped slab (gridConfig 120) 2 1 1 1 0 0"
    by (simp add: gridCellSkipped_def cellExtent_def getSize_slab gridConfig_def)
  have box1: "gridBox ?k slab (gridConfig 120) 2 1 1 1 0 0 = BoxSolid 80 100 100"
    by (simp add: gridBox_def cellExtent_def getSize_slab gridConfig_def testKernel_fields)
  have frag1: "gridFragment ?k (Brush Model) (Brush (BoxSolid 80 100 100)) 1 0 0 2 1 1 ?c ?l ''model''
        = (Inr (Some \<lparr>part_geometry = Csg INTERSECTION Model (BoxSolid 80 100 100),
                name = GridPart ''model'' 1 0 0, index = (1, 0, 0)\<rparr>),
           [Evaluated Model (BoxSolid 80 100 100) INTERSECTION True,
            Normalized (Csg INTERSECTION Model (BoxSolid 80 100 100))])"
    by (simp add: gridFragment_def testKernel_fields)
  have cell1: "gridCell ?k (Brush Model) slab (gridConfig 120) ?c ?l ''model'' 2 1 1 1 0 0
         \<lparr>parts = [], current = 1, events = es\<rparr>
        = \<lparr>parts = [\<lparr>part_geometry = Csg INTERSECTION Model (BoxSolid 80 100 100),
                name = GridPart ''model'' 1 0 0, index = (1, 0, 0)\<rparr>], current = 2,
           events = es @ [Progress (SlicingFragment 2 2), Normalized (BoxSolid 80 100 100),
             Evaluated Model (BoxSolid 80 100 100) INTERSECTION True,
             Normalized (Csg INTERSECTION Model (BoxSolid 80 100 100))]\<rparr>" for es
    unfolding gridCell_unfold
    by (simp add: h5 box1 testKernel_createBrush frag1 del: One_nat_def)
  have s: "gridSteps (vx (getSize slab)) (printerX (gridConfig 120)) = 2"
    "gridSteps (vy (getSize slab)) (printerY (gridConfig 120)) = 1"
    "gridSteps (vz (getSize slab)) (printerZ (gridConfig 120)) = 1"
    by (simp_all add: getSize_slab gridConfig_def steps_values)
  have run: "performGridSlice ?k Model slab (gridConfig 120) ?c hollowDefaults ?l ''model''
       = (Inr [\<lparr>part_geometry = Csg INTERSECTION Model (BoxSolid 80 100 100),
                name = GridPart ''model'' 1 0 0, index = (1, 0, 0)\<rparr>],
          [Normalized Model,
           Progress (SlicingFragment 1 2), Normalized (BoxSolid 120 100 100),
           Evaluated Model (BoxSolid 120 100 100) INTERSECTION False,
           ConsoleError (FragmentFailed 1),
           Progress (SlicingFragment 2 2), Normalized (BoxSolid 80 100 100),
           Evaluated Model (BoxSolid 80 100 100) INTERSECTION True,
           Normalized (Csg INTERSECTION Model (BoxSolid 80 100 100))])"
    unfolding performGridSlice_def s Let_def gridLoops_def upt_values
    by (simp add: testKernel_createBrush hollowDefaults_def cell0 cell1 del: One_nat_def)
  let ?km = "testKernel (\<lambda>a b op. op = INTERSECTION \<and> b = BoxSolid 60 100 100) slab"
      let ?mst = "\<lparr>parts = [], current = 0, events = [Normalized Model],
              offsetX = 0, offsetY = 0, offsetZ = 0\<rparr> :: solid manual_state"
  have m1: "evaluate ?km (geometry (Brush Model)) (geometry (Brush (BoxSolid 60 100 100)))
              INTERSECTION = None"
    by (simp add: testKernel_fields)
  have m2: "\<not> ((60::real) < 0.1 \<or> (100::real) < 0.1 \<or> (100::real) < 0.1)" by simp
  have m3: "createBrush ?km (manualBox ?km slab (offsetX ?mst) (offsetY ?mst) (offsetZ ?mst) 60 100 100)
              = (Some (Brush (BoxSolid 60 100 100)), [Normalized (BoxSolid 60 100 100)])"
    by (simp add: manualBox_def testKernel_fields testKernel_createBrush)
  note mt = cell_failure_isolated[where k = ?km and b = "Brush Model"
      and bb = "Brush (BoxSolid 60 100 100)" and ix = 0 and iy = 0 and iz = 0
      and baseName = "''model''" and bounds = slab and w = 60 and h = 100 and d = 100
      and e = "[Normalized (BoxSolid 60 100 100)]" and u = "()"
      and e' = "[Evaluated Model (BoxSolid 60 100 100) INTERSECTION False]" and mst = ?mst]
  from mt m1 have m4: "manualFragment ?km (Brush Model) (Brush (BoxSolid 60 100 100)) 0 0 0 ''model''
       = (Inl (), [Evaluated Model (BoxSolid 60 100 100) INTERSECTION False])"
    by simp
  from mt m2 m3 m4
  have mcell0: "manualCell ?km (Brush Model) slab ''model'' 0 0 0 60 100 100 ?mst
        = ?mst\<lparr>current := current ?mst + 1,
              events := events ?mst @ [Progress (CuttingFragment (current ?mst + 1))]
                          @ [Normalized (BoxSolid 60 100 100)]
                          @ [Evaluated Model (BoxSolid 60 100 100) INTERSECTION False]
                          @ [ConsoleError ManualCutFailure],
              offsetZ := offsetZ ?mst + 100\<rparr>"
    and mparts0: "manualCellParts ?km (Brush Model) slab ''model'' 0 0 0 60 100 100
                   (offsetX ?mst) (offsetY ?mst) (offsetZ ?mst) = []"
    by blast+
  have mfrag1: "manualFragment ?km (Brush Model) (Brush (BoxSolid 140 100 100)) 1 0 0 ''model''
        = (Inr (Some \<lparr>part_geometry = Csg INTERSECTION Model (BoxSolid 140 100 100),
                name = ManualPart ''model'' 1 0 0, index = (1, 0, 0)\<rparr>),
           [Evaluated Model (BoxSolid 140 100 100) INTERSECTION True,
            Normalized (Csg INTERSECTION Model (BoxSolid 140 100 100))])"
    by (simp add: manualFragment_def testKernel_fields)
  have mcell1: "manualCell ?km (Brush Model) slab ''model'' 1 0 0 140 100 100
         \<lparr>parts = [], current = 1, events = es, offsetX = ox, offsetY = oy, offsetZ = oz\<rparr>
        = \<lparr>parts = [\<lparr>part_geometry = Csg INTERSECTION Model (BoxSolid 140 100 100),
                name = ManualPart ''model'' 1 0 0, index = (1, 0, 0)\<rparr>], current = 2,
           events = es @ [Progress (CuttingFragment 2), Normalized (BoxSolid 140 100 100),
             Evaluated Model (BoxSolid 140 100 100) INTERSECTION True,
             Normalized (Csg INTERSECTION Model (BoxSolid 140 100 100))],
           offsetX = ox, offsetY = oy, offsetZ = oz + 100\<rparr>" for es ox oy oz
    by (simp add: manualCell_def testKernel_fields testKernel_createBrush mfrag1 Let_def
        del: One_nat_def)
  have msp: "manualSplits (showX manualConfig) (manualX manualConfig) (vx (getSize slab)) = [60, 140]"
    "manualSplits (showY manualConfig) (manualY manualConfig) (vy (getSize slab)) = [100]"
    "manualSplits (showZ manualConfig) (manualZ manualConfig) (vz (getSize slab)) = [100]"
    by (simp_all add: manualSplits_def manualConfig_def gridConfig_def getSize_slab)
  have mlen: "length [60::real, 140] = 2" "length [100::real] = 1" by simp_all
  have mrun: "performManualSlice ?km Model slab manualConfig ?c hollowDefaults ?l ''model''
       = (Inr [\<lparr>part_geometry = Csg INTERSECTION Model (BoxSolid 140 100 100),
                name = ManualPart ''model'' 1 0 0, index = (1, 0, 0)\<rparr>],
          [Normalized Model, Progress (CuttingFragment 1), Normalized (BoxSolid 60 100 100),
           Evaluated Model (BoxSolid 60 100 100) INTERSECTION False,
           ConsoleError ManualCutFailure, Progress (CuttingFragment 2),
           Normalized (BoxSolid 140 100 100),
           Evaluated Model (BoxSolid 140 100 100) INTERSECTION True,
           Normalized (Csg INTERSECTION Model (BoxSolid 140 100 100))])"
    unfolding performManualSlice_def msp Let_def manualLoops_def manualLoopX_def manualLoopY_def
      mlen upt_values
    by (simp add: testKernel_createBrush hollowDefaults_def mcell0 mcell1 del: One_nat_def)
  from h1 h2 h3 h4 parts0 run m2 m4 mparts0 mrun show ?thesis by simp
qed

section \<open>The grid run\<close>














section \<open>The manual run\<close>

lemma manualCell_unfold:
  "manualCell k b bounds baseName ix iy iz w h d st =
     (let current' = current st + 1;
          st = st\<lparr>current := current',
                  events := events st @ [Progress (CuttingFragment current')]\<rparr>
      in if w < 0.1 \<or> h < 0.1 \<or> d < 0.1 then st\<lparr>offsetZ := offsetZ st + d\<rparr>
         else
           (let (boxBrush, e) =
                  createBrush k (manualBox k bounds (offsetX st) (offsetY st) (offsetZ st) w h d);
                st = (case boxBrush of
                        None \<Rightarrow> st\<lparr>events := events st @ e\<rparr>
                      | Some bb \<Rightarrow>
                          (case manualFragment k b bb ix iy iz baseName of
                             (Inl u, e') \<Rightarrow>
                               st\<lparr>events := events st @ e @ e' @ [ConsoleError ManualCutFailure]\<rparr>
                           | (Inr None, e') \<Rightarrow> st\<lparr>events := events st @ e @ e'\<rparr>
                           | (Inr (Some p), e') \<Rightarrow>
                               st\<lparr>parts := parts st @ [p], events := events st @ e @ e'\<rparr>))
            in st\<lparr>offsetZ := offsetZ st + d\<rparr>))"
  by (simp add: manualCell_def manualBox_def Let_def)

lemma performManualSlice_loops:
  assumes "createBrush k g = (Some b0, e0)"
  shows "performManualSlice k g bounds config connectors hollow labels baseName =
           (Inr (parts (manualLoops k
                   (if hollow_enabled hollow then fst (applyHollowing k b0 bounds hollow) else b0)
                   bounds baseName
                   (manualSplits (showX config) (manualX config) (vx (getSize bounds)))
                   (manualSplits (showY config) (manualY config) (vy (getSize bounds)))
                   (manualSplits (showZ config) (manualZ config) (vz (getSize bounds)))
                   \<lparr>parts = [], current = 0,
                    events = e0 @ (if hollow_enabled hollow
                                   then Progress HollowingModel # snd (applyHollowing k b0 bounds hollow)
                                   else []),
                    offsetX = 0, offsetY = 0, offsetZ = 0\<rparr>)),
            events (manualLoops k
                   (if hollow_enabled hollow then fst (applyHollowing k b0 bounds hollow) else b0)
                   bounds baseName
                   (manualSplits (showX config) (manualX config) (vx (getSize bounds)))
                   (manualSplits (showY config) (manualY config) (vy (getSize bounds)))
                   (manualSplits (showZ config) (manualZ config) (vz (getSize bounds)))
                   \<lparr>parts = [], current = 0,
                    events = e0 @ (if hollow_enabled hollow
                                   then Progress HollowingModel # snd (applyHollowing k b0 bounds hollow)
                                   else []),
                    offsetX = 0, offsetY = 0, offsetZ = 0\<rparr>))"
  using assms
  by (simp add: performManualSlice_def Let_def split: prod.splits)

lemma manualLoops_cells:
  "offsetX st = 0 \<Longrightarrow>
   parts (manualLoops k b bounds baseName X Y Z st)
     = parts st @ concat (map (\<lambda>ix. concat (map (\<lambda>iy. concat (map (\<lambda>iz.
         manualCellParts k b bounds baseName ix iy iz (X ! ix) (Y ! iy) (Z ! iz)
           (sum_list (take ix X)) (sum_list (take iy Y)) (sum_list (take iz Z)))
         [0..<length Z])) [0..<length Y])) [0..<length X])"
  by (simp add: manualLoops_parts manualRunParts_def)

lemma manualRun_undivided:
  "manualRunParts k b bounds baseName [ex] [ey] [ez]
     = manualCellParts k b bounds baseName 0 0 0 ex ey ez 0 0 0"
  by (simp add: manualRunParts_def)

lemma manualRun_x:
  "manualRunParts k b bounds baseName [mx, rx] [ey] [ez]
     = manualCellParts k b bounds baseName 0 0 0 mx ey ez 0 0 0
       @ manualCellParts k b bounds baseName 1 0 0 rx ey ez mx 0 0"
  by (simp add: manualRunParts_def upt_rec)

text \<open>
  C9, for the run. In a manual run a disabled axis has the one split \<open>[extent]\<close>, an
  enabled axis the two splits \<open>[offset, extent - offset]\<close>; in both cases the splits
  sum to the extent of the axis. Once the base brush is built, the run is the three loops
  over these splits from the state after hollowing. The loops run the body once for
  every triple of splits, \<open>length X * length Y * length Z\<close> times, with the extents
  \<open>X ! ix\<close>, \<open>Y ! iy\<close>, \<open>Z ! iz\<close> and with the offsets that are the sums of the
  splits before the cell on each axis, and the parts of the run are the parts of these
  cells in the order of the loops: one cell of the full extents when no axis is enabled,
  the cell of extent \<open>offset\<close> at the lower bound and the cell of extent
  \<open>extent - offset\<close> at \<open>offset\<close> when x alone is enabled. The body reports
  progress, skips a cell with an extent below 0.1, and otherwise cuts with the box of the
  three extents whose centre lies half an extent above the offsets from the lower corner
  of the bounding box.
\<close>

theorem manual_run_splits:
  fixes k :: "'g kernel" and bounds :: Box3 and config :: SlicingConfig
    and hollow :: HollowConfig and b0 :: "'g Brush" and e0 :: "'g event list"
  defines "ex \<equiv> vx (getSize bounds)" and "ey \<equiv> vy (getSize bounds)"
    and "ez \<equiv> vz (getSize bounds)"
  defines "X \<equiv> manualSplits (showX config) (manualX config) ex"
    and "Y \<equiv> manualSplits (showY config) (manualY config) ey"
    and "Z \<equiv> manualSplits (showZ config) (manualZ config) ez"
  defines "b1 \<equiv> (if hollow_enabled hollow then fst (applyHollowing k b0 bounds hollow) else b0)"
  defines "init \<equiv> \<lparr>parts = [], current = 0,
                     events = e0 @ (if hollow_enabled hollow
                                    then Progress HollowingModel
                                           # snd (applyHollowing k b0 bounds hollow)
                                    else []),
                     offsetX = 0, offsetY = 0, offsetZ = 0\<rparr>"
  shows "(\<not> showX config \<longrightarrow> X = [ex])
       \<and> (showX config \<longrightarrow> X = [manualX config, ex - manualX config])
       \<and> length X = (if showX config then 2 else 1) \<and> sum_list X = ex
       \<and> (\<not> showY config \<longrightarrow> Y = [ey])
       \<and> (showY config \<longrightarrow> Y = [manualY config, ey - manualY config])
       \<and> length Y = (if showY config then 2 else 1) \<and> sum_list Y = ey
       \<and> (\<not> showZ config \<longrightarrow> Z = [ez])
       \<and> (showZ config \<longrightarrow> Z = [manualZ config, ez - manualZ config])
       \<and> length Z = (if showZ config then 2 else 1) \<and> sum_list Z = ez
       \<and> (createBrush k g = (Some b0, e0) \<longrightarrow>
            performManualSlice k g bounds config connectors hollow labels baseName =
              (Inr (parts (manualLoops k b1 bounds baseName X Y Z init)),
               events (manualLoops k b1 bounds baseName X Y Z init)))
       \<and> (offsetX mst = 0 \<longrightarrow>
            parts (manualLoops k b bounds baseName X Y Z mst)
              = parts mst @ concat (map (\<lambda>ix. concat (map (\<lambda>iy. concat (map (\<lambda>iz.
                  manualCellParts k b bounds baseName ix iy iz (X ! ix) (Y ! iy) (Z ! iz)
                    (sum_list (take ix X)) (sum_list (take iy Y)) (sum_list (take iz Z)))
                  [0..<length Z])) [0..<length Y])) [0..<length X]))
       \<and> current (manualLoops k b bounds baseName X Y Z mst)
           = current mst + length X * length Y * length Z
       \<and> (createBrush k g = (Some b0, e0) \<longrightarrow>
            fst (performManualSlice k g bounds config connectors hollow labels baseName)
              = Inr (concat (map (\<lambda>ix. concat (map (\<lambda>iy. concat (map (\<lambda>iz.
                  manualCellParts k b1 bounds baseName ix iy iz (X ! ix) (Y ! iy) (Z ! iz)
                    (sum_list (take ix X)) (sum_list (take iy Y)) (sum_list (take iz Z)))
                  [0..<length Z])) [0..<length Y])) [0..<length X])))
       \<and> (createBrush k g = (Some b0, e0)
            \<and> \<not> showX config \<and> \<not> showY config \<and> \<not> showZ config \<longrightarrow>
            fst (performManualSlice k g bounds config connectors hollow labels baseName)
              = Inr (manualCellParts k b1 bounds baseName 0 0 0 ex ey ez 0 0 0))
       \<and> (createBrush k g = (Some b0, e0)
            \<and> showX config \<and> \<not> showY config \<and> \<not> showZ config \<longrightarrow>
            fst (performManualSlice k g bounds config connectors hollow labels baseName)
              = Inr (manualCellParts k b1 bounds baseName 0 0 0 (manualX config) ey ez 0 0 0
                     @ manualCellParts k b1 bounds baseName 1 0 0 (ex - manualX config) ey ez
                         (manualX config) 0 0))
       \<and> manualCell k b bounds baseName ix iy iz w h d mst =
           (let current' = current mst + 1;
                st = mst\<lparr>current := current',
                         events := events mst @ [Progress (CuttingFragment current')]\<rparr>
            in if w < 0.1 \<or> h < 0.1 \<or> d < 0.1 then st\<lparr>offsetZ := offsetZ st + d\<rparr>
               else
                 (let (boxBrush, e) =
                        createBrush k
                          (manualBox k bounds (offsetX st) (offsetY st) (offsetZ st) w h d);
                      st = (case boxBrush of
                              None \<Rightarrow> st\<lparr>events := events st @ e\<rparr>
                            | Some bb \<Rightarrow>
                                (case manualFragment k b bb ix iy iz baseName of
                                   (Inl u, e') \<Rightarrow>
                                     st\<lparr>events := events st @ e @ e'
                                                     @ [ConsoleError ManualCutFailure]\<rparr>
                                 | (Inr None, e') \<Rightarrow> st\<lparr>events := events st @ e @ e'\<rparr>
                                 | (Inr (Some p), e') \<Rightarrow>
                                     st\<lparr>parts := parts st @ [p],
                                        events := events st @ e @ e'\<rparr>))
                  in st\<lparr>offsetZ := offsetZ st + d\<rparr>))
       \<and> manualBox k bounds ox oy oz w h d =
           translate k (vx (box_min bounds) + ox + w / 2) (vy (box_min bounds) + oy + h / 2)
             (vz (box_min bounds) + oz + d / 2) (BoxGeometry k w h d)"
proof -
  note sx = manualSplits_facts[of "showX config" "manualX config" ex, folded X_def]
  note sy = manualSplits_facts[of "showY config" "manualY config" ey, folded Y_def]
  note sz = manualSplits_facts[of "showZ config" "manualZ config" ez, folded Z_def]
  have run: "createBrush k g = (Some b0, e0) \<longrightarrow>
            performManualSlice k g bounds config connectors hollow labels baseName =
              (Inr (parts (manualLoops k b1 bounds baseName X Y Z init)),
               events (manualLoops k b1 bounds baseName X Y Z init))"
    unfolding X_def Y_def Z_def ex_def ey_def ez_def b1_def init_def
    by (intro impI, rule performManualSlice_loops)
  have loops: "offsetX mst = 0 \<longrightarrow>
            parts (manualLoops k b bounds baseName X Y Z mst)
              = parts mst @ concat (map (\<lambda>ix. concat (map (\<lambda>iy. concat (map (\<lambda>iz.
                  manualCellParts k b bounds baseName ix iy iz (X ! ix) (Y ! iy) (Z ! iz)
                    (sum_list (take ix X)) (sum_list (take iy Y)) (sum_list (take iz Z)))
                  [0..<length Z])) [0..<length Y])) [0..<length X])"
    by (intro impI, rule manualLoops_cells)
  have i0: "offsetX init = 0" "parts init = []" by (simp_all add: init_def)
  have parts: "createBrush k g = (Some b0, e0) \<longrightarrow>
            fst (performManualSlice k g bounds config connectors hollow labels baseName)
              = Inr (concat (map (\<lambda>ix. concat (map (\<lambda>iy. concat (map (\<lambda>iz.
                  manualCellParts k b1 bounds baseName ix iy iz (X ! ix) (Y ! iy) (Z ! iz)
                    (sum_list (take ix X)) (sum_list (take iy Y)) (sum_list (take iz Z)))
                  [0..<length Z])) [0..<length Y])) [0..<length X]))"
    using run manualLoops_cells[OF i0(1), of k b1 bounds baseName X Y Z] i0(2) by simp
  have fstrun: "createBrush k g = (Some b0, e0) \<Longrightarrow>
            fst (performManualSlice k g bounds config connectors hollow labels baseName)
              = Inr (manualRunParts k b1 bounds baseName X Y Z)"
    using run manualLoops_parts[OF i0(1), of k b1 bounds baseName X Y Z] i0(2) by simp
  have none: "createBrush k g = (Some b0, e0)
            \<and> \<not> showX config \<and> \<not> showY config \<and> \<not> showZ config \<longrightarrow>
            fst (performManualSlice k g bounds config connectors hollow labels baseName)
              = Inr (manualCellParts k b1 bounds baseName 0 0 0 ex ey ez 0 0 0)"
    using fstrun sx(1) sy(1) sz(1) by (simp add: manualRun_undivided)
  have onlyx: "createBrush k g = (Some b0, e0)
            \<and> showX config \<and> \<not> showY config \<and> \<not> showZ config \<longrightarrow>
            fst (performManualSlice k g bounds config connectors hollow labels baseName)
              = Inr (manualCellParts k b1 bounds baseName 0 0 0 (manualX config) ey ez 0 0 0
                     @ manualCellParts k b1 bounds baseName 1 0 0 (ex - manualX config) ey ez
                         (manualX config) 0 0)"
    using fstrun sx(2) sy(1) sz(1) by (simp add: manualRun_x)
  show ?thesis
    by (intro conjI; (rule sx sy sz run loops parts none onlyx manualLoops_current
          manualCell_unfold manualBox_def))
qed

lemma manualCellParts_test:
  "\<not> (w < 0.1 \<or> h < 0.1 \<or> d < 0.1) \<Longrightarrow>
   manualCellParts (testKernel (\<lambda>a b op. False) bb) (Brush Model) bounds baseName ix iy iz w h d
       ox oy oz
     = [\<lparr>part_geometry = Csg INTERSECTION Model (BoxSolid w h d),
         name = ManualPart baseName ix iy iz, index = (ix, iy, iz)\<rparr>]"
  by (simp add: manualCellParts_def manualCell_unfold manualBox_def manualFragment_def
      testKernel_fields testKernel_createBrush Let_def)

lemma conj_drop4: "a \<and> b \<and> c \<and> d \<and> e \<Longrightarrow> e"
  by simp

text \<open>
  The slab of 200 by 100 by 100 units. Split along x at 60: the splits 60 and 140, and
  the run cuts the two parts with the boxes of these extents. No axis enabled: the one
  split 200 and one part. The axes y and z enabled at 60: the splits 60 and 40.
\<close>

theorem manual_run_splits_witness:
  "showX manualConfig \<and> \<not> showY manualConfig \<and> \<not> showZ manualConfig
   \<and> createBrush (testKernel (\<lambda>a b op. False) slab) Model
       = (Some (Brush Model), [Normalized Model])
   \<and> manualSplits (showX manualConfig) (manualX manualConfig) (vx (getSize slab)) = [60, 140]
   \<and> manualSplits (showY manualConfig) (manualY manualConfig) (vy (getSize slab)) = [100]
   \<and> manualSplits (showZ manualConfig) (manualZ manualConfig) (vz (getSize slab)) = [100]
   \<and> sum_list (manualSplits (showX manualConfig) (manualX manualConfig) (vx (getSize slab)))
       = 200
   \<and> performManualSlice (testKernel (\<lambda>a b op. False) slab) Model slab manualConfig
         (connectorDefaults\<lparr>connector_enabled := False\<rparr>) hollowDefaults
         (labelDefaults\<lparr>label_enabled := False\<rparr>) ''model''
       = (Inr [\<lparr>part_geometry = Csg INTERSECTION Model (BoxSolid 60 100 100),
                name = ManualPart ''model'' 0 0 0, index = (0, 0, 0)\<rparr>,
               \<lparr>part_geometry = Csg INTERSECTION Model (BoxSolid 140 100 100),
                name = ManualPart ''model'' 1 0 0, index = (1, 0, 0)\<rparr>],
          [Normalized Model, Progress (CuttingFragment 1), Normalized (BoxSolid 60 100 100),
           Evaluated Model (BoxSolid 60 100 100) INTERSECTION True,
           Normalized (Csg INTERSECTION Model (BoxSolid 60 100 100)),
           Progress (CuttingFragment 2), Normalized (BoxSolid 140 100 100),
           Evaluated Model (BoxSolid 140 100 100) INTERSECTION True,
           Normalized (Csg INTERSECTION Model (BoxSolid 140 100 100))])
   \<and> \<not> showX (manualConfig\<lparr>showX := False\<rparr>) \<and> \<not> showY (manualConfig\<lparr>showX := False\<rparr>)
   \<and> \<not> showZ (manualConfig\<lparr>showX := False\<rparr>)
   \<and> manualSplits (showX (manualConfig\<lparr>showX := False\<rparr>))
         (manualX (manualConfig\<lparr>showX := False\<rparr>)) (vx (getSize slab)) = [200]
   \<and> fst (performManualSlice (testKernel (\<lambda>a b op. False) slab) Model slab
              (manualConfig\<lparr>showX := False\<rparr>)
              (connectorDefaults\<lparr>connector_enabled := False\<rparr>) hollowDefaults
              (labelDefaults\<lparr>label_enabled := False\<rparr>) ''model'')
       = Inr [\<lparr>part_geometry = Csg INTERSECTION Model (BoxSolid 200 100 100),
               name = ManualPart ''model'' 0 0 0, index = (0, 0, 0)\<rparr>]
   \<and> showY (manualConfig\<lparr>showY := True, showZ := True\<rparr>)
   \<and> showZ (manualConfig\<lparr>showY := True, showZ := True\<rparr>)
   \<and> manualSplits (showY (manualConfig\<lparr>showY := True, showZ := True\<rparr>))
         (manualY (manualConfig\<lparr>showY := True, showZ := True\<rparr>)) (vy (getSize slab))
       = [60, 40]
   \<and> manualSplits (showZ (manualConfig\<lparr>showY := True, showZ := True\<rparr>))
         (manualZ (manualConfig\<lparr>showY := True, showZ := True\<rparr>)) (vz (getSize slab))
       = [60, 40]"
proof -
  let ?k = "testKernel (\<lambda>a b op. False) slab"
  let ?c = "connectorDefaults\<lparr>connector_enabled := False\<rparr>"
  let ?l = "labelDefaults\<lparr>label_enabled := False\<rparr>"
  let ?A = manualConfig
  let ?B = "manualConfig\<lparr>showY := True, showZ := True\<rparr>"
  let ?C = "manualConfig\<lparr>showX := False\<rparr>"
  let ?init = "\<lparr>parts = [], current = 0, events = [Normalized Model],
                 offsetX = 0, offsetY = 0, offsetZ = 0\<rparr> :: solid manual_state"
  have fA: "showX ?A" "\<not> showY ?A" "\<not> showZ ?A" "manualX ?A = 60"
    by (simp_all add: manualConfig_def gridConfig_def)
  have fB: "showY ?B" "showZ ?B" "manualY ?B = 60" "manualZ ?B = 60"
    by (simp_all add: manualConfig_def gridConfig_def)
  have fC: "\<not> showX ?C" "\<not> showY ?C" "\<not> showZ ?C"
    by (simp_all add: manualConfig_def gridConfig_def)
  have e: "vx (getSize slab) = 200" "vy (getSize slab) = 100" "vz (getSize slab) = 100"
    by (simp_all add: getSize_slab)
  have cb: "createBrush ?k Model = (Some (Brush Model), [Normalized Model])"
    by (rule testKernel_createBrush)
  note tA = manual_run_splits[where config = ?A and bounds = slab and k = ?k and g = Model
      and ?b0.0 = "Brush Model" and ?e0.0 = "[Normalized Model]" and connectors = ?c
      and hollow = hollowDefaults and labels = ?l and baseName = "''model''"]
  note tB = manual_run_splits[where config = ?B and bounds = slab and k = ?k and g = Model
      and ?b0.0 = "Brush Model" and ?e0.0 = "[Normalized Model]" and connectors = ?c
      and hollow = hollowDefaults and labels = ?l and baseName = "''model''"]
  note tC = manual_run_splits[where config = ?C and bounds = slab and k = ?k and g = Model
      and ?b0.0 = "Brush Model" and ?e0.0 = "[Normalized Model]" and connectors = ?c
      and hollow = hollowDefaults and labels = ?l and baseName = "''model''"]
  from tA fA have sA:
    "manualSplits (showX ?A) (manualX ?A) (vx (getSize slab)) = [60, 140]"
    "manualSplits (showY ?A) (manualY ?A) (vy (getSize slab)) = [100]"
    "manualSplits (showZ ?A) (manualZ ?A) (vz (getSize slab)) = [100]"
    "sum_list (manualSplits (showX ?A) (manualX ?A) (vx (getSize slab))) = 200"
    by (simp_all add: e)
  from tB fB have sB:
    "manualSplits (showY ?B) (manualY ?B) (vy (getSize slab)) = [60, 40]"
    "manualSplits (showZ ?B) (manualZ ?B) (vz (getSize slab)) = [60, 40]"
    by (simp_all add: e)
  from tC fC have sC: "manualSplits (showX ?C) (manualX ?C) (vx (getSize slab)) = [200]"
    by (simp add: e)
  from tC[THEN conj_drop4, THEN conj_drop4, THEN conj_drop4, THEN conj_drop4, THEN conjunct1]
    fC cb
  have "fst (performManualSlice ?k Model slab ?C ?c hollowDefaults ?l ''model'')
          = Inr (manualCellParts ?k (Brush Model) slab ''model'' 0 0 0 200 100 100 0 0 0)"
    by (simp add: e hollowDefaults_def)
  then have runC: "fst (performManualSlice ?k Model slab ?C ?c hollowDefaults ?l ''model'')
       = Inr [\<lparr>part_geometry = Csg INTERSECTION Model (BoxSolid 200 100 100),
               name = ManualPart ''model'' 0 0 0, index = (0, 0, 0)\<rparr>]"
    by (simp add: manualCellParts_test)
  have cell: "\<not> (w < 0.1 \<or> h < 0.1 \<or> d < 0.1) \<Longrightarrow>
      manualCell ?k (Brush Model) slab ''model'' ix iy iz w h d
         \<lparr>parts = ps, current = n, events = es, offsetX = ox, offsetY = oy, offsetZ = oz\<rparr>
        = \<lparr>parts = ps @ [\<lparr>part_geometry = Csg INTERSECTION Model (BoxSolid w h d),
                name = ManualPart ''model'' ix iy iz, index = (ix, iy, iz)\<rparr>],
           current = n + 1,
           events = es @ [Progress (CuttingFragment (n + 1)), Normalized (BoxSolid w h d),
             Evaluated Model (BoxSolid w h d) INTERSECTION True,
             Normalized (Csg INTERSECTION Model (BoxSolid w h d))],
           offsetX = ox, offsetY = oy, offsetZ = oz + d\<rparr>" for w h d ix iy iz ps n es ox oy oz
    by (simp add: manualCell_unfold manualBox_def manualFragment_def testKernel_fields
        testKernel_createBrush Let_def)
  have mlen: "length [60::real, 140] = 2" "length [100::real] = 1" by simp_all
  have loops: "manualLoops ?k (Brush Model) slab ''model'' [60, 140] [100] [100] ?init
      = \<lparr>parts = [\<lparr>part_geometry = Csg INTERSECTION Model (BoxSolid 60 100 100),
                name = ManualPart ''model'' 0 0 0, index = (0, 0, 0)\<rparr>,
               \<lparr>part_geometry = Csg INTERSECTION Model (BoxSolid 140 100 100),
                name = ManualPart ''model'' 1 0 0, index = (1, 0, 0)\<rparr>],
         current = 2,
         events = [Normalized Model, Progress (CuttingFragment 1), Normalized (BoxSolid 60 100 100),
           Evaluated Model (BoxSolid 60 100 100) INTERSECTION True,
           Normalized (Csg INTERSECTION Model (BoxSolid 60 100 100)),
           Progress (CuttingFragment 2), Normalized (BoxSolid 140 100 100),
           Evaluated Model (BoxSolid 140 100 100) INTERSECTION True,
           Normalized (Csg INTERSECTION Model (BoxSolid 140 100 100))],
         offsetX = 200, offsetY = 100, offsetZ = 100\<rparr>"
    unfolding manualLoops_def manualLoopX_def manualLoopY_def Let_def mlen upt_values
    by (simp add: cell)
  from tA[THEN conj_drop4, THEN conj_drop4, THEN conj_drop4, THEN conjunct1] cb
  have "performManualSlice ?k Model slab ?A ?c hollowDefaults ?l ''model''
     = (Inr (parts (manualLoops ?k (Brush Model) slab ''model''
                (manualSplits (showX ?A) (manualX ?A) (vx (getSize slab)))
                (manualSplits (showY ?A) (manualY ?A) (vy (getSize slab)))
                (manualSplits (showZ ?A) (manualZ ?A) (vz (getSize slab))) ?init)),
        events (manualLoops ?k (Brush Model) slab ''model''
                (manualSplits (showX ?A) (manualX ?A) (vx (getSize slab)))
                (manualSplits (showY ?A) (manualY ?A) (vy (getSize slab)))
                (manualSplits (showZ ?A) (manualZ ?A) (vz (getSize slab))) ?init))"
    by (simp add: hollowDefaults_def)
  then have runA: "performManualSlice ?k Model slab ?A ?c hollowDefaults ?l ''model''
       = (Inr [\<lparr>part_geometry = Csg INTERSECTION Model (BoxSolid 60 100 100),
                name = ManualPart ''model'' 0 0 0, index = (0, 0, 0)\<rparr>,
               \<lparr>part_geometry = Csg INTERSECTION Model (BoxSolid 140 100 100),
                name = ManualPart ''model'' 1 0 0, index = (1, 0, 0)\<rparr>],
          [Normalized Model, Progress (CuttingFragment 1), Normalized (BoxSolid 60 100 100),
           Evaluated Model (BoxSolid 60 100 100) INTERSECTION True,
           Normalized (Csg INTERSECTION Model (BoxSolid 60 100 100)),
           Progress (CuttingFragment 2), Normalized (BoxSolid 140 100 100),
           Evaluated Model (BoxSolid 140 100 100) INTERSECTION True,
           Normalized (Csg INTERSECTION Model (BoxSolid 140 100 100))])"
    unfolding sA loops by simp
  from fA(1-3) cb sA runA fC sC runC fB(1,2) sB show ?thesis by simp
qed


section \<open>Connector passes\<close>

lemma acceptedFeatures_layout:
  "acceptedFeatures k c box mesh a p =
     map (\<lambda>q. translate k (vx q) (vy q) (vz q) (featureCylinder k c a p))
       (filter (\<lambda>q. isValidPlacement k mesh q (faceNormal a p) (connector_length c * 0.7))
          (gridList
             (Suc (nat (max 0 \<lfloor>(faceW a (getSize box) - 2 * edgeMargin c) / max 5 (spacing c)\<rfloor>)))
             (Suc (nat (max 0 \<lfloor>(faceH a (getSize box) - 2 * edgeMargin c) / max 5 (spacing c)\<rfloor>)))
             (\<lambda>dh dv. worldPos a p box (getCenter box)
                (real dh * max 5 (spacing c)
                   - real (nat (max 0 \<lfloor>(faceW a (getSize box) - 2 * edgeMargin c)
                                       / max 5 (spacing c)\<rfloor>)) * max 5 (spacing c) / 2)
                (real dv * max 5 (spacing c)
                   - real (nat (max 0 \<lfloor>(faceH a (getSize box) - 2 * edgeMargin c)
                                       / max 5 (spacing c)\<rfloor>)) * max 5 (spacing c) / 2))))"
  by (simp only: acceptedFeatures_filter faceCandidates_gridList layoutCount_formula
      layoutOffset_formula)

lemma drawConnector_layout:
  "drawConnector k c f a p fw fh =
     gridList (Suc (nat (max 0 \<lfloor>(fw - 2 * edgeMargin c) / max 5 (spacing c)\<rfloor>)))
       (Suc (nat (max 0 \<lfloor>(fh - 2 * edgeMargin c) / max 5 (spacing c)\<rfloor>)))
       (\<lambda>dh dv.
          \<lparr>pm_geometry = featureCylinder k c a p, pm_peg = p,
           pm_position =
             (if a = AxisX then
                Vector3 (vx f)
                  (vy f + (real dv * max 5 (spacing c)
                     - real (nat (max 0 \<lfloor>(fh - 2 * edgeMargin c) / max 5 (spacing c)\<rfloor>))
                         * max 5 (spacing c) / 2))
                  (vz f + (real dh * max 5 (spacing c)
                     - real (nat (max 0 \<lfloor>(fw - 2 * edgeMargin c) / max 5 (spacing c)\<rfloor>))
                         * max 5 (spacing c) / 2))
              else if a = AxisY then
                Vector3
                  (vx f + (real dh * max 5 (spacing c)
                     - real (nat (max 0 \<lfloor>(fw - 2 * edgeMargin c) / max 5 (spacing c)\<rfloor>))
                         * max 5 (spacing c) / 2))
                  (vy f)
                  (vz f + (real dv * max 5 (spacing c)
                     - real (nat (max 0 \<lfloor>(fh - 2 * edgeMargin c) / max 5 (spacing c)\<rfloor>))
                         * max 5 (spacing c) / 2))
              else
                Vector3
                  (vx f + (real dh * max 5 (spacing c)
                     - real (nat (max 0 \<lfloor>(fw - 2 * edgeMargin c) / max 5 (spacing c)\<rfloor>))
                         * max 5 (spacing c) / 2))
                  (vy f + (real dv * max 5 (spacing c)
                     - real (nat (max 0 \<lfloor>(fh - 2 * edgeMargin c) / max 5 (spacing c)\<rfloor>))
                         * max 5 (spacing c) / 2))
                  (vz f))\<rparr>)"
proof -
  have "drawConnector k c f a p fw fh =
     gridList (Suc (layoutCount fw (edgeMargin c) (max 5 (spacing c))))
       (Suc (layoutCount fh (edgeMargin c) (max 5 (spacing c))))
       (\<lambda>dh dv.
          \<lparr>pm_geometry = featureCylinder k c a p, pm_peg = p,
           pm_position =
             (if a = AxisX then
                Vector3 (vx f + 0)
                  (vy f + layoutOffset dv (layoutCount fh (edgeMargin c) (max 5 (spacing c)))
                            (max 5 (spacing c)))
                  (vz f + layoutOffset dh (layoutCount fw (edgeMargin c) (max 5 (spacing c)))
                            (max 5 (spacing c)))
              else if a = AxisY then
                Vector3
                  (vx f + layoutOffset dh (layoutCount fw (edgeMargin c) (max 5 (spacing c)))
                            (max 5 (spacing c)))
                  (vy f + 0)
                  (vz f + layoutOffset dv (layoutCount fh (edgeMargin c) (max 5 (spacing c)))
                            (max 5 (spacing c)))
              else
                Vector3
                  (vx f + layoutOffset dh (layoutCount fw (edgeMargin c) (max 5 (spacing c)))
                            (max 5 (spacing c)))
                  (vy f + layoutOffset dv (layoutCount fh (edgeMargin c) (max 5 (spacing c)))
                            (max 5 (spacing c)))
                  (vz f + 0))\<rparr>)"
    unfolding drawConnector_def Let_def gridList_def
    by (simp only: faceLoop_append[where g="\<lambda>dh dv. [f dh dv]" for f] concat_singletons)
  then show ?thesis
    by (simp only: layoutCount_formula layoutOffset_formula add_0_right)
qed

lemma addFeatures_none:
  "acceptedFeatures k c box (snd st) a p = [] \<Longrightarrow> addFeatures k c box st a p = (Inr st, [])"
  by (simp add: addFeatures_def Let_def)






lemma applyConnectors_passes:
  "createBrush k geo = (Some rb, e0) \<Longrightarrow>
     applyConnectors k geo ix iy iz sx sy sz c =
       (case runPasses k c (setFromBufferAttribute k geo) (connectorPasses ix iy iz sx sy sz)
               (rb, geo) of
          (Inl u, es) \<Rightarrow> (Inl u, e0 @ es)
        | (Inr st, es) \<Rightarrow> (Inr (geometry (fst st)), e0 @ es))"
  by (simp add: applyConnectors_def Let_def split: prod.splits sum.splits)




lemma addFeatures_merges:
  "acceptedFeatures k c box mesh a p \<noteq> [] \<Longrightarrow>
     \<exists>es. snd (addFeatures k c box (rb, mesh) a p)
            = Normalized (mergeGeometries k (acceptedFeatures k c box mesh a p)) # es"
  by (auto simp: addFeatures_def createBrush_def Let_def
      split: option.splits prod.splits if_splits)

lemma acceptedFeatures_count:
  "length (acceptedFeatures k c box mesh a p)
     \<le> length (faceCandidates c box a p)"
  "(\<forall>q. isValidPlacement k mesh q (faceNormal a p) (connector_length c * 0.7)) \<longrightarrow>
     length (acceptedFeatures k c box mesh a p) = length (faceCandidates c box a p)"
  by (simp_all add: acceptedFeatures_filter)

lemma length_faceCandidates:
  "length (faceCandidates c box a p)
     = (nat (max 0 \<lfloor>(faceW a (getSize box) - 2 * edgeMargin c) / max 5 (spacing c)\<rfloor>) + 1)
       * (nat (max 0 \<lfloor>(faceH a (getSize box) - 2 * edgeMargin c) / max 5 (spacing c)\<rfloor>) + 1)"
  by (simp add: faceCandidates_gridList length_gridList layoutCount_formula)

text \<open>
  C10. Let \<open>s = max(5, configured spacing)\<close>. A pass of addFeatures lays its candidates
  out with \<open>s\<close>: \<open>countH = max(0, floor((faceW - 2 * margin) / s))\<close> and \<open>countV\<close>
  likewise, candidates at the offsets \<open>dh * s - countH * s / 2\<close> and
  \<open>dv * s - countV * s / 2\<close> for \<open>dh\<close> up to \<open>countH\<close> and \<open>dv\<close> up to \<open>countV\<close>;
  it keeps those that pass validation, at most \<open>(countH + 1) * (countV + 1)\<close> and all of
  them when every candidate is valid. With no candidate kept the pass leaves its state as
  it is; otherwise the first thing it does is to merge the kept cylinders and normalize
  the merged mesh. applyConnectors, once the brush of the part is built, is these passes
  one after the other on the bounding box of the part. The viewer's drawConnector lays
  out \<open>(countH + 1) * (countV + 1)\<close> preview cylinders with the same counts and offsets
  from the extents it is given. None of the three changes when the configured spacing is
  replaced by \<open>s\<close>, and for a configured spacing below 5, \<open>s\<close> is 5 and they are those
  of the spacing 5.
\<close>

theorem effective_spacing_layout:
  fixes k :: "'g kernel" and c :: ConnectorConfig and box :: Box3 and a :: axis and p :: bool
    and fw fh :: real
  defines "s \<equiv> max 5 (spacing c)"
  defines "cH \<equiv> nat (max 0 \<lfloor>(faceW a (getSize box) - 2 * edgeMargin c) / s\<rfloor>)"
  defines "cV \<equiv> nat (max 0 \<lfloor>(faceH a (getSize box) - 2 * edgeMargin c) / s\<rfloor>)"
  defines "pH \<equiv> nat (max 0 \<lfloor>(fw - 2 * edgeMargin c) / s\<rfloor>)"
  defines "pV \<equiv> nat (max 0 \<lfloor>(fh - 2 * edgeMargin c) / s\<rfloor>)"
  shows "acceptedFeatures k c box mesh a p =
           map (\<lambda>q. translate k (vx q) (vy q) (vz q) (featureCylinder k c a p))
             (filter (\<lambda>q. isValidPlacement k mesh q (faceNormal a p) (connector_length c * 0.7))
                (gridList (Suc cH) (Suc cV)
                   (\<lambda>dh dv. worldPos a p box (getCenter box)
                      (real dh * s - real cH * s / 2) (real dv * s - real cV * s / 2))))
       \<and> length (acceptedFeatures k c box mesh a p) \<le> (cH + 1) * (cV + 1)
       \<and> ((\<forall>q. isValidPlacement k mesh q (faceNormal a p) (connector_length c * 0.7)) \<longrightarrow>
            length (acceptedFeatures k c box mesh a p) = (cH + 1) * (cV + 1))
       \<and> (acceptedFeatures k c box mesh a p = [] \<longrightarrow>
            addFeatures k c box (rb, mesh) a p = (Inr (rb, mesh), []))
       \<and> (acceptedFeatures k c box mesh a p \<noteq> [] \<longrightarrow>
            (\<exists>es. snd (addFeatures k c box (rb, mesh) a p)
                    = Normalized (mergeGeometries k (acceptedFeatures k c box mesh a p)) # es))
       \<and> (createBrush k geo = (Some gb, e0) \<longrightarrow>
            applyConnectors k geo ix iy iz sx sy sz c =
              (case runPasses k c (setFromBufferAttribute k geo)
                      (connectorPasses ix iy iz sx sy sz) (gb, geo) of
                 (Inl u, es) \<Rightarrow> (Inl u, e0 @ es)
               | (Inr st, es) \<Rightarrow> (Inr (geometry (fst st)), e0 @ es)))
       \<and> runPasses k c bx [] st = (Inr st, [])
       \<and> runPasses k c bx (q # qs) st =
           (case addFeatures k c bx st (fst q) (snd q) of
              (Inl u, e) \<Rightarrow> (Inl u, e)
            | (Inr st', e) \<Rightarrow> (let (r, e') = runPasses k c bx qs st' in (r, e @ e')))
       \<and> drawConnector k c f a p fw fh =
           gridList (Suc pH) (Suc pV)
             (\<lambda>dh dv.
                \<lparr>pm_geometry = featureCylinder k c a p, pm_peg = p,
                 pm_position =
                   (if a = AxisX then
                      Vector3 (vx f) (vy f + (real dv * s - real pV * s / 2))
                        (vz f + (real dh * s - real pH * s / 2))
                    else if a = AxisY then
                      Vector3 (vx f + (real dh * s - real pH * s / 2)) (vy f)
                        (vz f + (real dv * s - real pV * s / 2))
                    else
                      Vector3 (vx f + (real dh * s - real pH * s / 2))
                        (vy f + (real dv * s - real pV * s / 2)) (vz f))\<rparr>)
       \<and> length (drawConnector k c f a p fw fh) = (pH + 1) * (pV + 1)
       \<and> acceptedFeatures k c box mesh a p = acceptedFeatures k (c\<lparr>spacing := s\<rparr>) box mesh a p
       \<and> addFeatures k c box st a p = addFeatures k (c\<lparr>spacing := s\<rparr>) box st a p
       \<and> applyConnectors k geo ix iy iz sx sy sz c
           = applyConnectors k geo ix iy iz sx sy sz (c\<lparr>spacing := s\<rparr>)
       \<and> drawConnector k c f a p fw fh = drawConnector k (c\<lparr>spacing := s\<rparr>) f a p fw fh
       \<and> (spacing c < 5 \<longrightarrow>
            s = 5
            \<and> acceptedFeatures k c box mesh a p
                = acceptedFeatures k (c\<lparr>spacing := 5\<rparr>) box mesh a p
            \<and> addFeatures k c box st a p = addFeatures k (c\<lparr>spacing := 5\<rparr>) box st a p
            \<and> applyConnectors k geo ix iy iz sx sy sz c
                = applyConnectors k geo ix iy iz sx sy sz (c\<lparr>spacing := 5\<rparr>)
            \<and> drawConnector k c f a p fw fh = drawConnector k (c\<lparr>spacing := 5\<rparr>) f a p fw fh)"
proof -
  have lay: "acceptedFeatures k c box mesh a p =
           map (\<lambda>q. translate k (vx q) (vy q) (vz q) (featureCylinder k c a p))
             (filter (\<lambda>q. isValidPlacement k mesh q (faceNormal a p) (connector_length c * 0.7))
                (gridList (Suc cH) (Suc cV)
                   (\<lambda>dh dv. worldPos a p box (getCenter box)
                      (real dh * s - real cH * s / 2) (real dv * s - real cV * s / 2))))"
    unfolding s_def cH_def cV_def by (rule acceptedFeatures_layout)
  have len: "length (faceCandidates c box a p) = (cH + 1) * (cV + 1)"
    unfolding s_def cH_def cV_def by (rule length_faceCandidates)
  have le: "length (acceptedFeatures k c box mesh a p) \<le> (cH + 1) * (cV + 1)"
    using acceptedFeatures_count(1)[of k c box mesh a p] len by simp
  have all: "(\<forall>q. isValidPlacement k mesh q (faceNormal a p) (connector_length c * 0.7)) \<longrightarrow>
            length (acceptedFeatures k c box mesh a p) = (cH + 1) * (cV + 1)"
    using acceptedFeatures_count(2)[of k mesh a p c box] len by simp
  have none: "acceptedFeatures k c box mesh a p = [] \<longrightarrow>
            addFeatures k c box (rb, mesh) a p = (Inr (rb, mesh), [])"
    using addFeatures_none[of k c box "(rb, mesh)" a p] by simp
  have merges: "acceptedFeatures k c box mesh a p \<noteq> [] \<longrightarrow>
            (\<exists>es. snd (addFeatures k c box (rb, mesh) a p)
                    = Normalized (mergeGeometries k (acceptedFeatures k c box mesh a p)) # es)"
    by (intro impI, rule addFeatures_merges)
  have passes: "createBrush k geo = (Some gb, e0) \<longrightarrow>
            applyConnectors k geo ix iy iz sx sy sz c =
              (case runPasses k c (setFromBufferAttribute k geo)
                      (connectorPasses ix iy iz sx sy sz) (gb, geo) of
                 (Inl u, es) \<Rightarrow> (Inl u, e0 @ es)
               | (Inr st, es) \<Rightarrow> (Inr (geometry (fst st)), e0 @ es))"
    by (intro impI, rule applyConnectors_passes)
  have draw: "drawConnector k c f a p fw fh =
           gridList (Suc pH) (Suc pV)
             (\<lambda>dh dv.
                \<lparr>pm_geometry = featureCylinder k c a p, pm_peg = p,
                 pm_position =
                   (if a = AxisX then
                      Vector3 (vx f) (vy f + (real dv * s - real pV * s / 2))
                        (vz f + (real dh * s - real pH * s / 2))
                    else if a = AxisY then
                      Vector3 (vx f + (real dh * s - real pH * s / 2)) (vy f)
                        (vz f + (real dv * s - real pV * s / 2))
                    else
                      Vector3 (vx f + (real dh * s - real pH * s / 2))
                        (vy f + (real dv * s - real pV * s / 2)) (vz f))\<rparr>)"
    unfolding s_def pH_def pV_def by (rule drawConnector_layout)
  have dlen: "length (drawConnector k c f a p fw fh) = (pH + 1) * (pV + 1)"
    unfolding draw by (simp add: length_gridList)
  have m: "max 5 s = max 5 (spacing c)" by (simp add: s_def)
  have i1: "acceptedFeatures k c box mesh a p = acceptedFeatures k (c\<lparr>spacing := s\<rparr>) box mesh a p"
    and i2: "addFeatures k c box st a p = addFeatures k (c\<lparr>spacing := s\<rparr>) box st a p"
    and i3: "applyConnectors k geo ix iy iz sx sy sz c
           = applyConnectors k geo ix iy iz sx sy sz (c\<lparr>spacing := s\<rparr>)"
    and i4: "drawConnector k c f a p fw fh = drawConnector k (c\<lparr>spacing := s\<rparr>) f a p fw fh"
    by (simp_all only: acceptedFeatures_spacing[OF m] addFeatures_spacing[OF m]
        applyConnectors_spacing[OF m] drawConnector_spacing[OF m])
  have five: "spacing c < 5 \<longrightarrow>
            s = 5
            \<and> acceptedFeatures k c box mesh a p
                = acceptedFeatures k (c\<lparr>spacing := 5\<rparr>) box mesh a p
            \<and> addFeatures k c box st a p = addFeatures k (c\<lparr>spacing := 5\<rparr>) box st a p
            \<and> applyConnectors k geo ix iy iz sx sy sz c
                = applyConnectors k geo ix iy iz sx sy sz (c\<lparr>spacing := 5\<rparr>)
            \<and> drawConnector k c f a p fw fh = drawConnector k (c\<lparr>spacing := 5\<rparr>) f a p fw fh"
  proof
    assume "spacing c < 5"
    then have s5: "s = 5" by (simp add: s_def)
    with i1 i2 i3 i4 show "s = 5
            \<and> acceptedFeatures k c box mesh a p
                = acceptedFeatures k (c\<lparr>spacing := 5\<rparr>) box mesh a p
            \<and> addFeatures k c box st a p = addFeatures k (c\<lparr>spacing := 5\<rparr>) box st a p
            \<and> applyConnectors k geo ix iy iz sx sy sz c
                = applyConnectors k geo ix iy iz sx sy sz (c\<lparr>spacing := 5\<rparr>)
            \<and> drawConnector k c f a p fw fh = drawConnector k (c\<lparr>spacing := 5\<rparr>) f a p fw fh"
      by simp
  qed
  show ?thesis
    by (intro conjI; (rule lay le all none merges passes runPasses.simps draw dlen i1 i2 i3 i4 five))
qed

lemma placingKernel_fields:
  "ensureValidForCSG placingKernel g = Some g"
  "evaluate placingKernel x y op = Some (Csg op x y)"
  "translate placingKernel u v w g = Moved u v w g"
  "rotateX placingKernel t g = g"
  "rotateZ placingKernel t g = g"
  "CylinderGeometry placingKernel rt rb h n = Cyl rt h"
  "mergeGeometries placingKernel gs = Merged gs"
  "setFromBufferAttribute placingKernel (Part b) = b"
  "intersectObject placingKernel g origin dir far = (if far = 1 then [0.5] else [])"
  "createBrush placingKernel g = (Some (Brush g), [Normalized g])"
  by (simp_all add: placingKernel_def testKernel_def ensureValidForCSG_def createBrush_def)

lemma placingKernel_valid: "d \<noteq> 1 \<Longrightarrow> isValidPlacement placingKernel mesh q n d"
  by (simp add: isValidPlacement_def placingKernel_fields)

lemma defaults_depth: "connector_length connectorDefaults = 12"
  by (simp add: connectorDefaults_def)

lemma blindKernel_fields:
  "createBrush blindKernel g = (Some (Brush g), [Normalized g])"
  "setFromBufferAttribute blindKernel g = cube 100"
  "\<not> isValidPlacement blindKernel mesh q n d"
  by (simp_all add: blindKernel_def testKernel_def ensureValidForCSG_def createBrush_def
      isValidPlacement_def)

lemma blindKernel_accepts_none: "acceptedFeatures blindKernel c box mesh a p = []"
  by (simp add: acceptedFeatures_filter blindKernel_fields)

lemma gridList_first: "0 < m \<Longrightarrow> 0 < n \<Longrightarrow> gridList m n f ! 0 = f 0 0"
  using nth_gridList[of 0 m 0 n f] by simp

lemma gridList_second: "0 < m \<Longrightarrow> 1 < n \<Longrightarrow> gridList m n f ! 1 = f 0 1"
  using nth_gridList[of 0 m 1 n f] by simp

text \<open>
  A configured spacing of 2 with the margin 15 on the 100 unit cube: \<open>s = 5\<close>,
  15 * 15 candidates in the pass and in the preview, the first at 35 units below the
  centre of the face on both axes, the next 5 units further; the pass of the part is that
  of the spacing 5. On the blind kernel no candidate is kept and the pass changes
  nothing.
\<close>

theorem effective_spacing_layout_witness:
  "spacing (connectorDefaults\<lparr>spacing := 2\<rparr>) < 5
   \<and> max 5 (spacing (connectorDefaults\<lparr>spacing := 2\<rparr>)) = 5
   \<and> (\<forall>q. isValidPlacement placingKernel (Part (cube 100)) q (faceNormal AxisX True)
             (connector_length (connectorDefaults\<lparr>spacing := 2\<rparr>) * 0.7))
   \<and> length (acceptedFeatures placingKernel (connectorDefaults\<lparr>spacing := 2\<rparr>) (cube 100)
               (Part (cube 100)) AxisX True) = 225
   \<and> acceptedFeatures placingKernel (connectorDefaults\<lparr>spacing := 2\<rparr>) (cube 100)
         (Part (cube 100)) AxisX True ! 0 = Moved 100 15 15 (Cyl 3 12)
   \<and> acceptedFeatures placingKernel (connectorDefaults\<lparr>spacing := 2\<rparr>) (cube 100)
         (Part (cube 100)) AxisX True ! 1 = Moved 100 20 15 (Cyl 3 12)
   \<and> acceptedFeatures placingKernel (connectorDefaults\<lparr>spacing := 2\<rparr>) (cube 100)
         (Part (cube 100)) AxisX True \<noteq> []
   \<and> length (drawConnector placingKernel (connectorDefaults\<lparr>spacing := 2\<rparr>)
               (Vector3 100 50 50) AxisX True 100 100) = 225
   \<and> drawConnector placingKernel (connectorDefaults\<lparr>spacing := 2\<rparr>)
         (Vector3 100 50 50) AxisX True 100 100 ! 0
       = \<lparr>pm_geometry = Cyl 3 12, pm_peg = True, pm_position = Vector3 100 15 15\<rparr>
   \<and> drawConnector placingKernel (connectorDefaults\<lparr>spacing := 2\<rparr>)
         (Vector3 100 50 50) AxisX True 100 100 ! 1
       = \<lparr>pm_geometry = Cyl 3 12, pm_peg = True, pm_position = Vector3 100 20 15\<rparr>
   \<and> createBrush placingKernel (Part (cube 100))
       = (Some (Brush (Part (cube 100))), [Normalized (Part (cube 100))])
   \<and> applyConnectors placingKernel (Part (cube 100)) 0 0 0 2 1 1
         (connectorDefaults\<lparr>spacing := 2\<rparr>)
       = applyConnectors placingKernel (Part (cube 100)) 0 0 0 2 1 1
           (connectorDefaults\<lparr>spacing := 5\<rparr>)
   \<and> acceptedFeatures blindKernel (connectorDefaults\<lparr>spacing := 2\<rparr>) (cube 100) Model
         AxisX True = []
   \<and> addFeatures blindKernel (connectorDefaults\<lparr>spacing := 2\<rparr>) (cube 100)
         (Brush Model, Model) AxisX True = (Inr (Brush Model, Model), [])"
proof -
  let ?c = "connectorDefaults\<lparr>spacing := 2\<rparr>"
  let ?g = "Part (cube 100)"
  have h: "spacing ?c < 5" by simp
  have v: "\<forall>q. isValidPlacement placingKernel ?g q (faceNormal AxisX True)
                 (connector_length ?c * 0.7)"
    by (simp add: placingKernel_valid defaults_depth)
  have cb: "createBrush placingKernel ?g = (Some (Brush ?g), [Normalized ?g])"
    by (rule placingKernel_fields)
  have n: "nat (max 0 \<lfloor>(faceW AxisX (getSize (cube 100)) - 2 * edgeMargin ?c)
                          / max 5 (spacing ?c)\<rfloor>) = 14"
    "nat (max 0 \<lfloor>(faceH AxisX (getSize (cube 100)) - 2 * edgeMargin ?c)
                          / max 5 (spacing ?c)\<rfloor>) = 14"
    "nat (max 0 \<lfloor>(100 - 2 * edgeMargin ?c) / max 5 (spacing ?c)\<rfloor>) = 14"
    by (simp_all add: getSize_cube faceW_def faceH_def connectorDefaults_def)
  have s: "max 5 (spacing ?c) = 5" by simp
  have cyl: "featureCylinder placingKernel ?c AxisX True = Cyl 3 12"
    by (simp add: featureCylinder_def featureRadius_def placingKernel_fields
        connectorDefaults_def)
  note t = effective_spacing_layout[where c = ?c and k = placingKernel and box = "cube 100"
      and a = AxisX and p = True and mesh = ?g and fw = 100 and fh = 100
      and f = "Vector3 100 50 50" and geo = ?g and gb = "Brush ?g" and ?e0.0 = "[Normalized ?g]"
      and ix = 0 and iy = 0 and iz = 0 and sx = 2 and sy = 1 and sz = 1
      and rb = "Brush ?g" and st = "(Brush ?g, ?g)" and bx = "cube 100"
      and q = "(AxisX, True)" and qs = "[]", unfolded n, unfolded s]
  note lay = t[THEN conjunct1]
  note all = t[THEN conjunct2, THEN conjunct2, THEN conjunct1]
  note draw = t[THEN conj_drop4, THEN conj_drop4, THEN conjunct1]
  note dlen = t[THEN conj_drop4, THEN conj_drop4, THEN conjunct2, THEN conjunct1]
  note five = t[THEN conj_drop4, THEN conj_drop4, THEN conj_drop4, THEN conjunct2,
      THEN conjunct2]
  from all v have len: "length (acceptedFeatures placingKernel ?c (cube 100) ?g AxisX True) = 225"
    by simp
  then have ne: "acceptedFeatures placingKernel ?c (cube 100) ?g AxisX True \<noteq> []" by auto
  have a0: "acceptedFeatures placingKernel ?c (cube 100) ?g AxisX True ! 0
              = Moved 100 15 15 (Cyl 3 12)"
    unfolding lay
    by (simp add: placingKernel_valid defaults_depth gridList_first length_gridList worldPos_def
        getCenter_cube cube_corners placingKernel_fields cyl)
  have a1: "acceptedFeatures placingKernel ?c (cube 100) ?g AxisX True ! 1
              = Moved 100 20 15 (Cyl 3 12)"
    unfolding lay
    by (simp add: placingKernel_valid defaults_depth gridList_second length_gridList worldPos_def
        getCenter_cube cube_corners placingKernel_fields cyl del: One_nat_def)
  from dlen have dl: "length (drawConnector placingKernel ?c (Vector3 100 50 50) AxisX True
                                100 100) = 225"
    by simp
  have d0: "drawConnector placingKernel ?c (Vector3 100 50 50) AxisX True 100 100 ! 0
       = \<lparr>pm_geometry = Cyl 3 12, pm_peg = True, pm_position = Vector3 100 15 15\<rparr>"
    unfolding draw by (simp add: gridList_first cyl)
  have d1: "drawConnector placingKernel ?c (Vector3 100 50 50) AxisX True 100 100 ! 1
       = \<lparr>pm_geometry = Cyl 3 12, pm_peg = True, pm_position = Vector3 100 20 15\<rparr>"
    unfolding draw by (simp add: gridList_second cyl del: One_nat_def)
  from five h have ap: "applyConnectors placingKernel ?g 0 0 0 2 1 1 ?c
       = applyConnectors placingKernel ?g 0 0 0 2 1 1 (connectorDefaults\<lparr>spacing := 5\<rparr>)"
    by simp
  have b0: "acceptedFeatures blindKernel ?c (cube 100) Model AxisX True = []"
    by (rule blindKernel_accepts_none)
  note u = effective_spacing_layout[where c = ?c and k = blindKernel and box = "cube 100"
      and a = AxisX and p = True and mesh = Model and rb = "Brush Model"]
  from u[THEN conjunct2, THEN conjunct2, THEN conjunct2, THEN conjunct1] b0
  have b1: "addFeatures blindKernel ?c (cube 100) (Brush Model, Model) AxisX True
              = (Inr (Brush Model, Model), [])"
    by simp
  from h s v len a0 a1 ne dl d0 d1 cb ap b0 b1 show ?thesis by simp
qed














end
